(* ===== verification/CNI_Prelude.thy ===== *)
theory CNI_Prelude
  imports Main "HOL-Library.Word"
begin

text \<open>
  Shared vocabulary of the development: the machine types of \<^verbatim>\<open>src/cyh/cni.hpp\<close>
  (\<^verbatim>\<open>nuint\<close>, \<^verbatim>\<open>nint\<close>, bytes), the faults a run of the code can end in, the result type
  that carries them, and the generic facts on lists and 64-bit words that the
  component theories share.  Nothing here depends on a component.
\<close>

section \<open>Fact collections\<close>

named_theorems cni_defs \<open>definitions of the modelled operations, unfolded in component proofs\<close>
named_theorems cni_frame \<open>frame facts: what an operation leaves unchanged\<close>
named_theorems cni_eval \<open>equations that evaluate the model on concrete inputs\<close>

section \<open>Machine types\<close>

type_synonym byte = "8 word"

text \<open>
  \<^verbatim>\<open>using nuint = size_t\<close> on a 64-bit target.  Its signed counterpart \<^verbatim>\<open>nint\<close> has the
  same 64 bits, read through \<open>sint\<close>; the code declares it and never uses it.
\<close>

type_synonym nuint = "64 word"
type_synonym nint = "64 word"

section \<open>Faults and results\<close>

text \<open>
  The ways a call can leave the normal path.  \<open>BadAlloc\<close> and \<open>LengthError\<close> are the C++
  exceptions \<^verbatim>\<open>std::bad_alloc\<close> and \<^verbatim>\<open>std::length_error\<close>; the others are kinds of
  undefined behaviour, which the model makes observable instead of leaving them
  unspecified: an access through \<^verbatim>\<open>nullptr\<close>, an access to a block that is not live,
  an access outside a live block, a release of something that \<^verbatim>\<open>operator new\<close>
  did not return or that was released before, and a \<^verbatim>\<open>memcpy\<close> between regions that
  overlap.
\<close>

datatype fault =
  BadAlloc | LengthError | NullDeref | Dangling | OutOfBounds | InvalidFree | Overlap

type_synonym 'a result = "fault + 'a"

abbreviation Fault :: "fault \<Rightarrow> 'a result" where
  "Fault \<equiv> Inl"

abbreviation Ok :: "'a \<Rightarrow> 'a result" where
  "Ok \<equiv> Inr"

definition rbind :: "'a result \<Rightarrow> ('a \<Rightarrow> 'b result) \<Rightarrow> 'b result" where
  "rbind m f = (case m of Inl e \<Rightarrow> Inl e | Inr x \<Rightarrow> f x)"

definition is_ok :: "'a result \<Rightarrow> bool" where
  "is_ok m = (case m of Inl _ \<Rightarrow> False | Inr _ \<Rightarrow> True)"

definition is_exception :: "fault \<Rightarrow> bool" where
  "is_exception e = (e = BadAlloc \<or> e = LengthError)"

definition overwrite :: "nat \<Rightarrow> 'a list \<Rightarrow> 'a list \<Rightarrow> 'a list" where
  "overwrite off new old = take off old @ new @ drop (off + length new) old"

fun chunks :: "nat \<Rightarrow> 'a list \<Rightarrow> 'a list list" where
  "chunks n xs = (if n = 0 \<or> xs = [] then [] else take n xs # chunks n (drop n xs))"

declare chunks.simps [simp del]

section \<open>Results\<close>

lemma rbind_Ok [simp]: "rbind (Ok x) f = f x"
  by (simp add: rbind_def)

lemma rbind_Fault [simp]: "rbind (Fault e) f = Fault e"
  by (simp add: rbind_def)

lemma rbind_eq_Ok_iff: "rbind m f = Ok y \<longleftrightarrow> (\<exists>x. m = Ok x \<and> f x = Ok y)"
  by (cases m) simp_all

lemma rbind_eq_Fault_iff:
  "rbind m f = Fault e \<longleftrightarrow> m = Fault e \<or> (\<exists>x. m = Ok x \<and> f x = Fault e)"
  by (cases m) simp_all

lemma rbind_assoc: "rbind (rbind m f) g = rbind m (\<lambda>x. rbind (f x) g)"
  by (cases m) simp_all

lemma rbind_return [simp]: "rbind m Ok = m"
  by (cases m) simp_all

lemma is_ok_simps [simp]: "is_ok (Ok x)" "\<not> is_ok (Fault e)"
  by (simp_all add: is_ok_def)

lemma is_ok_iff: "is_ok m \<longleftrightarrow> (\<exists>x. m = Ok x)"
  by (cases m) simp_all

lemma is_ok_rbind: "is_ok (rbind m f) \<longleftrightarrow> (\<exists>x. m = Ok x \<and> is_ok (f x))"
  by (cases m) simp_all

section \<open>Overwriting a slice of a list\<close>

text \<open>
  \<open>overwrite off new old\<close> is \<open>old\<close> with the cells \<open>off ..< off + length new\<close> replaced
  by \<open>new\<close>: what \<^verbatim>\<open>memcpy\<close> and \<^verbatim>\<open>memset\<close> do to a block.  The facts below assume the
  slice lies inside \<open>old\<close>, which the memory primitives check before they write.
\<close>

lemma length_overwrite [simp]:
  "off + length new \<le> length old \<Longrightarrow> length (overwrite off new old) = length old"
  by (simp add: overwrite_def)

lemma overwrite_Nil [simp]: "off \<le> length old \<Longrightarrow> overwrite off [] old = old"
  by (simp add: overwrite_def)

lemma overwrite_all [simp]: "length new = length old \<Longrightarrow> overwrite 0 new old = new"
  by (simp add: overwrite_def)

lemma take_overwrite_before [simp]:
  "n \<le> off \<Longrightarrow> off \<le> length old \<Longrightarrow> take n (overwrite off new old) = take n old"
  by (simp add: overwrite_def min_def)

lemma slice_overwrite_same [simp]:
  "off \<le> length old \<Longrightarrow> take (length new) (drop off (overwrite off new old)) = new"
  by (simp add: overwrite_def)

lemma drop_overwrite_after [simp]:
  "off + length new \<le> n \<Longrightarrow> off \<le> length old \<Longrightarrow>
   drop n (overwrite off new old) = drop n old"
  by (simp add: overwrite_def)

lemma nth_overwrite:
  "off + length new \<le> length old \<Longrightarrow> i < length old \<Longrightarrow>
   overwrite off new old ! i =
     (if off \<le> i \<and> i < off + length new then new ! (i - off) else old ! i)"
  by (auto simp: overwrite_def nth_append min_def)

lemma overwrite_replicate_eq_map:
  "off + n \<le> length old \<Longrightarrow>
   overwrite off (replicate n v) old =
     map (\<lambda>i. if off \<le> i \<and> i < off + n then v else old ! i) [0..<length old]"
  by (rule nth_equalityI) (auto simp: nth_overwrite)

lemma overwrite_prefix_then_suffix:
  "length xs + length ys = length old \<Longrightarrow>
   overwrite (length xs) ys (overwrite 0 xs old) = xs @ ys"
  by (simp add: overwrite_def)

section \<open>Cutting a list into elements\<close>

lemma chunks_Nil [simp]: "chunks n [] = []"
  by (simp add: chunks.simps)

lemma chunks_0 [simp]: "chunks 0 xs = []"
  by (simp add: chunks.simps)

lemma chunks_append [simp]:
  "0 < n \<Longrightarrow> length xs = n \<Longrightarrow> chunks n (xs @ ys) = xs # chunks n ys"
  by (subst chunks.simps) auto

lemma chunks_concat:
  "0 < n \<Longrightarrow> \<forall>x \<in> set xss. length x = n \<Longrightarrow> chunks n (concat xss) = xss"
  by (induction xss) simp_all

lemma chunks_step: "0 < n \<Longrightarrow> xs \<noteq> [] \<Longrightarrow> chunks n xs = take n xs # chunks n (drop n xs)"
  by (subst chunks.simps) simp

lemma length_chunks: "0 < n \<Longrightarrow> length xs = k * n \<Longrightarrow> length (chunks n xs) = k"
proof (induction k arbitrary: xs)
  case 0
  then show ?case by simp
next
  case (Suc k)
  from Suc.prems have ne: "xs \<noteq> []" and dr: "length (drop n xs) = k * n"
    by auto
  from Suc.prems(1) dr have "length (chunks n (drop n xs)) = k"
    by (rule Suc.IH)
  then show ?case
    by (simp add: chunks_step [OF Suc.prems(1) ne])
qed

lemma chunks_lengths:
  "0 < n \<Longrightarrow> length xs = k * n \<Longrightarrow> c \<in> set (chunks n xs) \<Longrightarrow> length c = n"
proof (induction k arbitrary: xs)
  case 0
  then show ?case by simp
next
  case (Suc k)
  from Suc.prems(1,2) have ne: "xs \<noteq> []" and dr: "length (drop n xs) = k * n"
    and ge: "n \<le> length xs"
    by auto
  from Suc.prems(3) have "c = take n xs \<or> c \<in> set (chunks n (drop n xs))"
    by (simp add: chunks_step [OF Suc.prems(1) ne])
  then show ?case
  proof
    assume "c = take n xs"
    with ge show ?thesis by simp
  next
    assume "c \<in> set (chunks n (drop n xs))"
    with Suc.prems(1) dr show ?thesis by (rule Suc.IH)
  qed
qed

lemma concat_chunks: "0 < n \<Longrightarrow> concat (chunks n xs) = xs"
proof (induction n xs rule: chunks.induct)
  case (1 n xs)
  show ?case
  proof (cases "xs = []")
    case True
    then show ?thesis by simp
  next
    case False
    with "1.prems" "1.IH" have "concat (chunks n (drop n xs)) = drop n xs"
      by simp
    then show ?thesis
      by (simp add: chunks_step [OF "1.prems" False])
  qed
qed

lemma chunks_take_step:
  assumes "0 < n" and "n + m \<le> length xs"
  shows "chunks n (take (n + m) xs) = take n xs # chunks n (take m (drop n xs))"
proof -
  from assms have "take (n + m) xs \<noteq> []"
    by auto
  from chunks_step [OF assms(1) this] show ?thesis
    by (simp add: min_def drop_take)
qed

lemma chunks_Cons [cni_eval]:
  "chunks n (x # xs) = (if n = 0 then [] else take n (x # xs) # chunks n (drop n (x # xs)))"
  by (subst chunks.simps) simp

lemma replicate_numeral [cni_eval]:
  "replicate (numeral k) x = x # replicate (pred_numeral k) x"
  by (simp add: numeral_eq_Suc)

section \<open>Scanning a list\<close>

lemma takeWhile_append_stop: "\<not> P y \<Longrightarrow> takeWhile P (xs @ y # ys) = takeWhile P xs"
  by (induction xs) simp_all

lemma drop_eq_Cons_iff:
  "drop n xs = y # ys \<longleftrightarrow> n < length xs \<and> xs ! n = y \<and> drop (Suc n) xs = ys"
  by (metis Cons_nth_drop_Suc drop_eq_Nil2 linorder_not_le list.distinct(1) list.inject)

section \<open>Sizes in 64-bit words\<close>

text \<open>
  Byte counts are computed in \<^verbatim>\<open>size_t\<close>, where \<open>*\<close> and \<open>+\<close> wrap at \<open>2 ^ 64\<close>.  These
  facts say when the wrapped value is the mathematical one.
\<close>

lemma unat_nuint_lt [simp]: "unat (n :: nuint) < 2 ^ 64"
  using unsigned_less [of n, where 'a = nat] by simp

lemma unat_nuint_lt_numeral [simp]: "unat (n :: nuint) < 18446744073709551616"
  using unat_nuint_lt [of n] by simp

lemma unat_mult_nowrap:
  "unat a * unat b < 2 ^ 64 \<Longrightarrow> unat (a * b :: nuint) = unat a * unat b"
  by (simp add: unat_word_ariths)

lemma unat_mult_le: "unat (a * b :: nuint) \<le> unat a * unat b"
  by (simp add: unat_word_ariths)

lemma unat_plus1_nowrap:
  "unat a + 1 < 2 ^ 64 \<Longrightarrow> unat (a + 1 :: nuint) = unat a + 1"
  by (simp add: unat_word_ariths)

lemma unat_of_nat_nuint: "n < 2 ^ 64 \<Longrightarrow> unat (of_nat n :: nuint) = n"
  by (simp add: unat_of_nat)

lemma of_nat_nuint_eq_0_iff: "n < 2 ^ 64 \<Longrightarrow> (of_nat n :: nuint) = 0 \<longleftrightarrow> n = 0"
proof
  assume a: "n < 2 ^ 64" and "(of_nat n :: nuint) = 0"
  then have "unat (of_nat n :: nuint) = 0" by simp
  with a show "n = 0" by (simp add: unat_of_nat_nuint)
qed simp

lemma nuint_eq_0_iff: "(n :: nuint) = 0 \<longleftrightarrow> unat n = 0"
  by (simp add: unat_eq_0)

end
