(* ===== verification/CNI_Heap.thy ===== *)
theory CNI_Heap
  imports CNI_Prelude
begin

text \<open>
  The free store under \<^verbatim>\<open>CNIMemoryHelper\<close>: raw pointers, live blocks of bytes, and the
  library calls the code makes on them (\<^verbatim>\<open>operator new\<close>, \<^verbatim>\<open>operator delete\<close>,
  \<^verbatim>\<open>memset\<close>, \<^verbatim>\<open>memcpy\<close>).  A pointer is \<open>Null\<close> or a block with a byte offset, so
  distinct blocks never overlap and every access names the block it must stay in.
  What \<^verbatim>\<open>operator new\<close> answers (which block, filled with what, or failure) is not
  decided by the code; it is a parameter of type \<open>allocator\<close>, and the theorems hold
  for every allocator that is \<open>sound_allocator\<close>.  An access the C++ standard leaves
  undefined returns a \<open>Fault\<close>.
\<close>

section \<open>Pointers, blocks, allocators\<close>

type_synonym blk = nat

datatype ptr = Null | Ptr blk nat

type_synonym heap = "blk \<rightharpoonup> byte list"

type_synonym allocator = "heap \<Rightarrow> nuint \<Rightarrow> (blk \<times> byte list) option"

definition empty_heap :: heap where
  "empty_heap = Map.empty"

definition ptr_add :: "ptr \<Rightarrow> nat \<Rightarrow> ptr" where
  "ptr_add p n = (case p of Null \<Rightarrow> Null | Ptr b off \<Rightarrow> Ptr b (off + n))"

definition live :: "heap \<Rightarrow> ptr \<Rightarrow> bool" where
  "live h p = (case p of Null \<Rightarrow> False | Ptr b off \<Rightarrow> off = 0 \<and> h b \<noteq> None)"

definition contents :: "heap \<Rightarrow> ptr \<Rightarrow> byte list" where
  "contents h p =
     (case p of Null \<Rightarrow> []
      | Ptr b off \<Rightarrow> (case h b of None \<Rightarrow> [] | Some bs \<Rightarrow> drop off bs))"

definition sound_allocator :: "allocator \<Rightarrow> bool" where
  "sound_allocator al \<longleftrightarrow>
     (\<forall>h n b fill. al h n = Some (b, fill) \<longrightarrow> h b = None \<and> length fill = unat n)"

definition heap_ok :: "heap \<Rightarrow> bool" where
  "heap_ok h \<longleftrightarrow> finite (dom h) \<and> (\<forall>b bs. h b = Some bs \<longrightarrow> length bs < 2 ^ 64)"

section \<open>The library calls\<close>

definition operator_new :: "allocator \<Rightarrow> heap \<Rightarrow> nuint \<Rightarrow> (ptr \<times> heap) result" where
  "operator_new al h n =
     (case al h n of
        None \<Rightarrow> Fault BadAlloc
      | Some (b, fill) \<Rightarrow> Ok (Ptr b 0, h(b \<mapsto> fill)))"

definition operator_delete :: "heap \<Rightarrow> ptr \<Rightarrow> heap result" where
  "operator_delete h p =
     (case p of
        Null \<Rightarrow> Ok h
      | Ptr b off \<Rightarrow> if off = 0 \<and> h b \<noteq> None then Ok (h(b := None)) else Fault InvalidFree)"

definition load :: "heap \<Rightarrow> ptr \<Rightarrow> nat \<Rightarrow> byte list result" where
  "load h p n =
     (case p of
        Null \<Rightarrow> Fault NullDeref
      | Ptr b off \<Rightarrow>
          (case h b of
             None \<Rightarrow> Fault Dangling
           | Some bs \<Rightarrow> if off + n \<le> length bs then Ok (take n (drop off bs))
                        else Fault OutOfBounds))"

definition store :: "heap \<Rightarrow> ptr \<Rightarrow> byte list \<Rightarrow> heap result" where
  "store h p new =
     (case p of
        Null \<Rightarrow> Fault NullDeref
      | Ptr b off \<Rightarrow>
          (case h b of
             None \<Rightarrow> Fault Dangling
           | Some bs \<Rightarrow> if off + length new \<le> length bs then Ok (h(b \<mapsto> overwrite off new bs))
                        else Fault OutOfBounds))"

definition memset :: "heap \<Rightarrow> ptr \<Rightarrow> byte \<Rightarrow> nuint \<Rightarrow> heap result" where
  "memset h p c n = store h p (replicate (unat n) c)"

definition memcpy_to :: "heap \<Rightarrow> ptr \<Rightarrow> byte list \<Rightarrow> nuint \<Rightarrow> heap result" where
  "memcpy_to h dst src n =
     (if unat n \<le> length src then store h dst (take (unat n) src) else Fault OutOfBounds)"

definition memcpy_from :: "heap \<Rightarrow> byte list \<Rightarrow> ptr \<Rightarrow> nuint \<Rightarrow> byte list result" where
  "memcpy_from h dst src n =
     (if unat n \<le> length dst then rbind (load h src (unat n)) (\<lambda>bs. Ok (overwrite 0 bs dst))
      else Fault OutOfBounds)"

text \<open>
  \<^verbatim>\<open>memcpy\<close> between two places of the heap, as the C standard gives it: both pointers
  must be valid for the whole count, also when the count is zero, and the two regions
  must not overlap.  \<open>memcpy_to\<close> and \<open>memcpy_from\<close> above are the same call with one
  side held as a list of bytes.  \<open>valid_ptr\<close> is what the standard asks of a pointer
  that is given with a count of zero: it points into a live block or just past its end.
\<close>

definition valid_ptr :: "heap \<Rightarrow> ptr \<Rightarrow> bool" where
  "valid_ptr h p =
     (case p of
        Null \<Rightarrow> False
      | Ptr b off \<Rightarrow> (case h b of None \<Rightarrow> False | Some bs \<Rightarrow> off \<le> length bs))"

definition overlap :: "ptr \<Rightarrow> ptr \<Rightarrow> nat \<Rightarrow> bool" where
  "overlap p q n =
     (case p of
        Null \<Rightarrow> False
      | Ptr b i \<Rightarrow> (case q of Null \<Rightarrow> False | Ptr c j \<Rightarrow> b = c \<and> i < j + n \<and> j < i + n))"

definition memcpy :: "heap \<Rightarrow> ptr \<Rightarrow> ptr \<Rightarrow> nuint \<Rightarrow> heap result" where
  "memcpy h dst src n =
     rbind (load h src (unat n))
       (\<lambda>bs. if overlap dst src (unat n) then Fault Overlap else store h dst bs)"

section \<open>Allocators to run the model with\<close>

text \<open>
  \<open>never_alloc\<close> always fails and \<open>first_fit cands c\<close> hands out the first block name of
  \<open>cands\<close> that is free, filled with the byte \<open>c\<close> (fresh memory is not zeroed, so the
  witnesses use a non-zero fill).
\<close>

definition never_alloc :: allocator where
  "never_alloc = (\<lambda>h n. None)"

definition first_fit :: "blk list \<Rightarrow> byte \<Rightarrow> allocator" where
  "first_fit cands c =
     (\<lambda>h n. case filter (\<lambda>b. h b = None) cands of
               [] \<Rightarrow> None
             | b # _ \<Rightarrow> Some (b, replicate (unat n) c))"

lemmas heap_defs [cni_defs] =
  operator_new_def operator_delete_def memset_def memcpy_to_def memcpy_from_def memcpy_def

section \<open>Pointers\<close>

lemma ptr_add_simps [simp]:
  "ptr_add Null n = Null"
  "ptr_add (Ptr b off) n = Ptr b (off + n)"
  by (simp_all add: ptr_add_def)

lemma ptr_add_0 [simp]: "ptr_add p 0 = p"
  by (cases p) simp_all

lemma ptr_add_eq_Null_iff [simp]: "ptr_add p n = Null \<longleftrightarrow> p = Null"
  by (cases p) simp_all

lemma live_simps [simp]:
  "\<not> live h Null"
  "live h (Ptr b off) \<longleftrightarrow> off = 0 \<and> h b \<noteq> None"
  by (simp_all add: live_def)

lemma contents_simps [simp]:
  "contents h Null = []"
  "h b = Some bs \<Longrightarrow> contents h (Ptr b off) = drop off bs"
  "h b = None \<Longrightarrow> contents h (Ptr b off) = []"
  by (simp_all add: contents_def)

section \<open>Reading and writing a block\<close>

lemma load_simps [simp]:
  "load h Null n = Fault NullDeref"
  "h b = None \<Longrightarrow> load h (Ptr b off) n = Fault Dangling"
  "h b = Some bs \<Longrightarrow> off + n \<le> length bs \<Longrightarrow> load h (Ptr b off) n = Ok (take n (drop off bs))"
  "h b = Some bs \<Longrightarrow> \<not> off + n \<le> length bs \<Longrightarrow> load h (Ptr b off) n = Fault OutOfBounds"
  by (simp_all add: load_def)

lemma store_simps [simp]:
  "store h Null new = Fault NullDeref"
  "h b = None \<Longrightarrow> store h (Ptr b off) new = Fault Dangling"
  "h b = Some bs \<Longrightarrow> off + length new \<le> length bs \<Longrightarrow>
     store h (Ptr b off) new = Ok (h(b \<mapsto> overwrite off new bs))"
  "h b = Some bs \<Longrightarrow> \<not> off + length new \<le> length bs \<Longrightarrow>
     store h (Ptr b off) new = Fault OutOfBounds"
  by (simp_all add: store_def)

lemma load_Ok_iff:
  "load h p n = Ok bs \<longleftrightarrow>
     (\<exists>b off cs. p = Ptr b off \<and> h b = Some cs \<and> off + n \<le> length cs \<and> bs = take n (drop off cs))"
  by (auto simp: load_def split: ptr.splits option.splits)

lemma store_Ok_iff:
  "store h p new = Ok h' \<longleftrightarrow>
     (\<exists>b off cs. p = Ptr b off \<and> h b = Some cs \<and> off + length new \<le> length cs \<and>
        h' = h(b \<mapsto> overwrite off new cs))"
  by (auto simp: store_def split: ptr.splits option.splits)

lemma load_length: "load h p n = Ok bs \<Longrightarrow> length bs = n"
  by (auto simp: load_Ok_iff)

lemma store_dom [cni_frame]: "store h p new = Ok h' \<Longrightarrow> dom h' = dom h"
  by (auto simp: store_Ok_iff split: if_splits)

lemma store_other [cni_frame]:
  "store h (Ptr b off) new = Ok h' \<Longrightarrow> b' \<noteq> b \<Longrightarrow> h' b' = h b'"
  by (auto simp: store_Ok_iff)

lemma store_block_length [cni_frame]:
  "store h p new = Ok h' \<Longrightarrow> h b = Some bs \<Longrightarrow> \<exists>cs. h' b = Some cs \<and> length cs = length bs"
  by (auto simp: store_Ok_iff)

lemma load_store_same:
  "store h p new = Ok h' \<Longrightarrow> load h' p (length new) = Ok new"
  by (auto simp: store_Ok_iff)

lemma store_heap_ok: "heap_ok h \<Longrightarrow> store h p new = Ok h' \<Longrightarrow> heap_ok h'"
  by (auto simp: store_Ok_iff heap_ok_def split: if_splits)

lemma memset_Ok_iff:
  "memset h p c n = Ok h' \<longleftrightarrow>
     (\<exists>b off cs. p = Ptr b off \<and> h b = Some cs \<and> off + unat n \<le> length cs \<and>
        h' = h(b \<mapsto> overwrite off (replicate (unat n) c) cs))"
  by (simp add: memset_def store_Ok_iff)

lemma memcpy_to_Ok_iff:
  "memcpy_to h p src n = Ok h' \<longleftrightarrow>
     (\<exists>b off cs. p = Ptr b off \<and> h b = Some cs \<and> unat n \<le> length src \<and>
        off + unat n \<le> length cs \<and> h' = h(b \<mapsto> overwrite off (take (unat n) src) cs))"
  by (auto simp: memcpy_to_def store_Ok_iff min_def)

lemma memcpy_from_Ok_iff:
  "memcpy_from h dst p n = Ok bs \<longleftrightarrow>
     (\<exists>b off cs. p = Ptr b off \<and> h b = Some cs \<and> unat n \<le> length dst \<and>
        off + unat n \<le> length cs \<and> bs = overwrite 0 (take (unat n) (drop off cs)) dst)"
  by (auto simp: memcpy_from_def rbind_eq_Ok_iff load_Ok_iff)

section \<open>Allocation and release\<close>

lemma valid_ptr_simps [simp]:
  "\<not> valid_ptr h Null"
  "h b = None \<Longrightarrow> \<not> valid_ptr h (Ptr b off)"
  "h b = Some bs \<Longrightarrow> valid_ptr h (Ptr b off) \<longleftrightarrow> off \<le> length bs"
  by (simp_all add: valid_ptr_def)

lemma valid_ptr_iff: "valid_ptr h p \<longleftrightarrow> (\<exists>b off bs. p = Ptr b off \<and> h b = Some bs \<and> off \<le> length bs)"
  by (auto simp: valid_ptr_def split: ptr.splits option.splits)

lemma valid_ptr_load: "valid_ptr h p \<longleftrightarrow> load h p 0 = Ok []"
  by (auto simp: valid_ptr_iff load_Ok_iff)

lemma valid_ptr_mono [cni_frame]: "valid_ptr h p \<Longrightarrow> h \<subseteq>\<^sub>m h' \<Longrightarrow> valid_ptr h' p"
  by (auto simp: valid_ptr_iff map_le_def dom_def)

lemma overlap_simps [simp]:
  "\<not> overlap Null q n" "\<not> overlap p Null n"
  "overlap (Ptr b i) (Ptr c j) n \<longleftrightarrow> b = c \<and> i < j + n \<and> j < i + n"
  by (simp_all add: overlap_def split: ptr.splits)

lemma overlap_sym: "overlap p q n = overlap q p n"
  by (cases p; cases q) auto

lemma overlap_0 [simp]: "\<not> overlap p q 0"
  by (cases p; cases q) auto

lemma memcpy_simps [simp]:
  "memcpy h dst Null n = Fault NullDeref"
  "load h src (unat n) = Ok bs \<Longrightarrow> \<not> overlap dst src (unat n) \<Longrightarrow>
     memcpy h dst src n = store h dst bs"
  "load h src (unat n) = Ok bs \<Longrightarrow> overlap dst src (unat n) \<Longrightarrow>
     memcpy h dst src n = Fault Overlap"
  by (simp_all add: memcpy_def)

lemma memcpy_Ok_iff:
  "memcpy h dst src n = Ok h' \<longleftrightarrow>
     (\<exists>bs. load h src (unat n) = Ok bs \<and> \<not> overlap dst src (unat n) \<and> store h dst bs = Ok h')"
  by (auto simp: memcpy_def rbind_eq_Ok_iff)

lemma memcpy_between_blocks:
  assumes "h c = Some cs" and "off + unat n \<le> length cs" and "h b = Some bs"
    and "i + unat n \<le> length bs" and "b \<noteq> c"
  shows "memcpy h (Ptr b i) (Ptr c off) n
           = Ok (h(b \<mapsto> overwrite i (take (unat n) (drop off cs)) bs))"
  using assms by simp

lemma memcpy_heap_ok: "heap_ok h \<Longrightarrow> memcpy h dst src n = Ok h' \<Longrightarrow> heap_ok h'"
  by (auto simp: memcpy_Ok_iff intro: store_heap_ok)

lemma operator_new_Ok_iff:
  "operator_new al h n = Ok (p, h') \<longleftrightarrow> (\<exists>b fill. al h n = Some (b, fill) \<and> p = Ptr b 0 \<and> h' = h(b \<mapsto> fill))"
  by (auto simp: operator_new_def split: option.splits)

lemma operator_new_Fault_iff: "operator_new al h n = Fault e \<longleftrightarrow> al h n = None \<and> e = BadAlloc"
  by (auto simp: operator_new_def split: option.splits)

lemma sound_allocatorD:
  "sound_allocator al \<Longrightarrow> al h n = Some (b, fill) \<Longrightarrow> h b = None \<and> length fill = unat n"
  unfolding sound_allocator_def by blast

lemma operator_new_fresh:
  "sound_allocator al \<Longrightarrow> operator_new al h n = Ok (p, h') \<Longrightarrow>
   \<not> live h p \<and> live h' p \<and> length (contents h' p) = unat n"
  by (auto simp: operator_new_Ok_iff dest: sound_allocatorD)

lemma operator_new_other [cni_frame]:
  "sound_allocator al \<Longrightarrow> operator_new al h n = Ok (p, h') \<Longrightarrow> h b = Some bs \<Longrightarrow> h' b = Some bs"
  by (auto simp: operator_new_Ok_iff dest!: sound_allocatorD)

lemma operator_new_heap_ok:
  "sound_allocator al \<Longrightarrow> heap_ok h \<Longrightarrow> operator_new al h n = Ok (p, h') \<Longrightarrow> heap_ok h'"
  by (auto simp: operator_new_Ok_iff heap_ok_def dest!: sound_allocatorD split: if_splits)

lemma operator_delete_simps [simp]:
  "operator_delete h Null = Ok h"
  "h b = Some bs \<Longrightarrow> operator_delete h (Ptr b 0) = Ok (h(b := None))"
  "h b = None \<Longrightarrow> operator_delete h (Ptr b off) = Fault InvalidFree"
  "off \<noteq> 0 \<Longrightarrow> operator_delete h (Ptr b off) = Fault InvalidFree"
  by (simp_all add: operator_delete_def)

lemma operator_delete_Ok_iff:
  "operator_delete h p = Ok h' \<longleftrightarrow> (p = Null \<and> h' = h) \<or> (\<exists>b. p = Ptr b 0 \<and> h b \<noteq> None \<and> h' = h(b := None))"
  by (auto simp: operator_delete_def split: ptr.splits)

lemma operator_delete_heap_ok: "heap_ok h \<Longrightarrow> operator_delete h p = Ok h' \<Longrightarrow> heap_ok h'"
  by (auto simp: operator_delete_Ok_iff heap_ok_def split: if_splits)

lemma operator_delete_new:
  "sound_allocator al \<Longrightarrow> operator_new al h n = Ok (p, h') \<Longrightarrow> operator_delete h' p = Ok h"
  by (auto simp: operator_new_Ok_iff fun_upd_idem dest: sound_allocatorD)

section \<open>The allocators are sound\<close>

lemma empty_heap_ok [simp]: "heap_ok empty_heap"
  by (simp add: heap_ok_def empty_heap_def)

lemma empty_heap_apply [simp]: "empty_heap b = None"
  by (simp add: empty_heap_def)

lemma heap_ok_upd [simp]: "heap_ok h \<Longrightarrow> length bs < 2 ^ 64 \<Longrightarrow> heap_ok (h(b \<mapsto> bs))"
  by (auto simp: heap_ok_def)

lemma heap_ok_del [simp]: "heap_ok h \<Longrightarrow> heap_ok (h(b := None))"
  by (auto simp: heap_ok_def split: if_splits)

lemma sound_never_alloc [simp]: "sound_allocator never_alloc"
  by (simp add: sound_allocator_def never_alloc_def)

lemma first_fit_Some:
  "first_fit cands c h n = Some (b, fill) \<Longrightarrow> h b = None \<and> fill = replicate (unat n) c"
proof -
  assume a: "first_fit cands c h n = Some (b, fill)"
  then obtain rest where f: "filter (\<lambda>b. h b = None) cands = b # rest"
    and fill: "fill = replicate (unat n) c"
    by (auto simp: first_fit_def split: list.splits)
  from f have "b \<in> set (filter (\<lambda>b. h b = None) cands)" by simp
  with fill show ?thesis by simp
qed

lemma sound_first_fit [simp]: "sound_allocator (first_fit cands c)"
  unfolding sound_allocator_def by (auto dest: first_fit_Some)

lemma never_alloc_apply [simp]: "never_alloc h n = None"
  by (simp add: never_alloc_def)

lemma first_fit_Cons [simp]:
  "first_fit (b # cands) c h n =
     (if h b = None then Some (b, replicate (unat n) c) else first_fit cands c h n)"
  by (simp add: first_fit_def)

lemma first_fit_Nil [simp]: "first_fit [] c h n = None"
  by (simp add: first_fit_def)

end
