(* ===== verification/CNI_MemoryHelper.thy ===== *)
theory CNI_MemoryHelper
  imports CNI_Heap
begin

text \<open>
  The four static functions of \<^verbatim>\<open>class CNIMemoryHelper\<close>, in the order of the source.
  Each takes the heap and returns the new one.  \<open>Allocate\<close> cannot fault: it answers
  \<open>Null\<close> where \<^verbatim>\<open>operator new\<close> throws.  \<open>Free\<close>, \<open>Reallocate\<close> and \<open>ZeroMemory\<close> pass
  their pointer on unchecked but for the null test, so with a pointer that is not
  theirs to use they return the fault of the library call.  The template parameter
  of \<^verbatim>\<open>ZeroMemory<T>\<close> enters only as \<^verbatim>\<open>sizeof(T)\<close>, the first argument of the model.
\<close>

definition Free :: "heap \<Rightarrow> ptr \<Rightarrow> heap result" where
  "Free h ptr = (if ptr \<noteq> Null then operator_delete h ptr else Ok h)"

definition Allocate :: "allocator \<Rightarrow> heap \<Rightarrow> nuint \<Rightarrow> ptr \<times> heap" where
  "Allocate al h byteSize =
     (if byteSize = 0 then (Null, h)
      else case operator_new al h byteSize of
             Inr r \<Rightarrow> r
           | Inl _ \<Rightarrow> (Null, h))"

definition Reallocate :: "allocator \<Rightarrow> heap \<Rightarrow> ptr \<Rightarrow> nuint \<Rightarrow> (ptr \<times> heap) result" where
  "Reallocate al h ptr byteSize =
     rbind (Free h ptr)
       (\<lambda>h1. if byteSize = 0 then Ok (Null, h1) else Ok (Allocate al h1 byteSize))"

definition ZeroMemory :: "nuint \<Rightarrow> heap \<Rightarrow> ptr \<Rightarrow> nuint \<Rightarrow> heap result" where
  "ZeroMemory sizeof_T h obj count =
     (if obj \<noteq> Null then memset h obj 0 (sizeof_T * count) else Ok h)"

lemmas helper_defs [cni_defs] = Free_def Allocate_def Reallocate_def ZeroMemory_def

section \<open>Allocate\<close>

lemma Allocate_cases:
  "Allocate al h n =
     (if n = 0 then (Null, h)
      else case al h n of None \<Rightarrow> (Null, h) | Some (b, fill) \<Rightarrow> (Ptr b 0, h(b \<mapsto> fill)))"
  by (simp add: Allocate_def operator_new_def split: option.splits)

lemma Allocate_Null_heap: "Allocate al h n = (Null, h') \<Longrightarrow> h' = h"
  by (auto simp: Allocate_cases split: if_splits option.splits)

lemma Allocate_Ptr_iff:
  "Allocate al h n = (Ptr b off, h') \<longleftrightarrow>
     n \<noteq> 0 \<and> off = 0 \<and> (\<exists>fill. al h n = Some (b, fill) \<and> h' = h(b \<mapsto> fill))"
  by (auto simp: Allocate_cases split: option.splits)

lemma Allocate_other [cni_frame]:
  "sound_allocator al \<Longrightarrow> Allocate al h n = (p, h') \<Longrightarrow> h b = Some bs \<Longrightarrow> h' b = Some bs"
  by (cases p) (auto simp: Allocate_Ptr_iff dest!: sound_allocatorD Allocate_Null_heap)

lemma Allocate_heap_ok:
  "sound_allocator al \<Longrightarrow> heap_ok h \<Longrightarrow> Allocate al h n = (p, h') \<Longrightarrow> heap_ok h'"
  by (cases p)
    (auto simp: Allocate_Ptr_iff heap_ok_def dest!: sound_allocatorD Allocate_Null_heap
      split: if_splits)

section \<open>Free\<close>

lemma Free_simps [simp]:
  "Free h Null = Ok h"
  "h b = Some bs \<Longrightarrow> Free h (Ptr b 0) = Ok (h(b := None))"
  "h b = None \<Longrightarrow> Free h (Ptr b off) = Fault InvalidFree"
  "off \<noteq> 0 \<Longrightarrow> Free h (Ptr b off) = Fault InvalidFree"
  by (simp_all add: Free_def)

lemma Free_eq_operator_delete: "Free h p = operator_delete h p"
  by (cases p) (simp_all add: Free_def)

lemma Free_Ok_iff:
  "Free h p = Ok h' \<longleftrightarrow> (p = Null \<and> h' = h) \<or> (\<exists>b. p = Ptr b 0 \<and> h b \<noteq> None \<and> h' = h(b := None))"
  by (simp add: Free_eq_operator_delete operator_delete_Ok_iff)

lemma Free_Fault_iff: "Free h p = Fault e \<longleftrightarrow> p \<noteq> Null \<and> \<not> live h p \<and> e = InvalidFree"
  by (cases p) (auto simp: Free_def operator_delete_def)

lemma Free_behaviour:
  "Free h p =
     (case p of
        Null \<Rightarrow> Ok h
      | Ptr b off \<Rightarrow> if live h p then Ok (h(b := None)) else Fault InvalidFree)"
  by (cases p) (auto simp: Free_def operator_delete_def)

lemma Free_twice: "p \<noteq> Null \<Longrightarrow> Free h p = Ok h' \<Longrightarrow> Free h' p = Fault InvalidFree"
  by (auto simp: Free_Ok_iff)

lemma Free_heap_ok: "heap_ok h \<Longrightarrow> Free h p = Ok h' \<Longrightarrow> heap_ok h'"
  by (simp add: Free_eq_operator_delete operator_delete_heap_ok)

lemma Free_other [cni_frame]:
  "Free h p = Ok h' \<Longrightarrow> p \<noteq> Ptr b 0 \<Longrightarrow> h' b = h b"
  by (auto simp: Free_Ok_iff split: if_splits)

section \<open>ZeroMemory\<close>

lemma ZeroMemory_Null [simp]: "ZeroMemory sz h Null count = Ok h"
  by (simp add: ZeroMemory_def)

lemma ZeroMemory_Ok_iff:
  "ZeroMemory sz h p count = Ok h' \<longleftrightarrow>
     (p = Null \<and> h' = h) \<or>
     (\<exists>b off cs. p = Ptr b off \<and> h b = Some cs \<and> off + unat (sz * count) \<le> length cs \<and>
        h' = h(b \<mapsto> overwrite off (replicate (unat (sz * count)) 0) cs))"
  by (cases p) (auto simp: ZeroMemory_def memset_Ok_iff)

lemma ZeroMemory_heap_ok: "heap_ok h \<Longrightarrow> ZeroMemory sz h p count = Ok h' \<Longrightarrow> heap_ok h'"
  by (cases p) (auto simp: ZeroMemory_def memset_def intro: store_heap_ok)

section \<open>Properties of Allocate\<close>

text \<open>C35 (error): \<open>Allocate\<close> answers the null pointer exactly when the request is for zero
  bytes or \<^verbatim>\<open>operator new\<close> throws, and then the heap is unchanged: the exception is absorbed,
  nothing is allocated in part, and a zero request never reaches the allocator.\<close>

theorem Allocate_null:
  "Allocate al h n = (Null, h') \<longleftrightarrow> (n = 0 \<or> al h n = None) \<and> h' = h"
  by (auto simp: Allocate_cases split: option.splits)

text \<open>C9 (functional): a non-null result of \<open>Allocate\<close> is the base pointer of a block that was
  not live before and is live now, of exactly the requested number of bytes, for a request
  that was not zero; every block that was live keeps its contents.\<close>

theorem Allocate_fresh_block:
  assumes "sound_allocator al" and "Allocate al h n = (p, h')" and "p \<noteq> Null"
  shows "\<not> live h p \<and> live h' p \<and> length (contents h' p) = unat n \<and> n \<noteq> 0 \<and>
         (\<forall>b bs. h b = Some bs \<longrightarrow> h' b = Some bs)"
proof -
  from assms(3) obtain b off where p: "p = Ptr b off"
    by (cases p) auto
  with assms(2) obtain fill where "n \<noteq> 0" "off = 0" "al h n = Some (b, fill)" "h' = h(b \<mapsto> fill)"
    by (auto simp: Allocate_Ptr_iff)
  with p sound_allocatorD [OF assms(1), of h n b fill] show ?thesis
    by auto
qed

theorem Allocate_fresh_block_witness:
  "Allocate (first_fit [0, 1] 170) (empty_heap(0 \<mapsto> [1, 2, 3])) 2
     = (Ptr 1 0, empty_heap(0 \<mapsto> [1, 2, 3], 1 \<mapsto> [170, 170])) \<and>
   \<not> live (empty_heap(0 \<mapsto> [1, 2, 3])) (Ptr 1 0) \<and>
   length (contents (empty_heap(0 \<mapsto> [1, 2, 3], 1 \<mapsto> [170, 170])) (Ptr 1 0)) = unat (2 :: nuint)"
  using Allocate_fresh_block [of "first_fit [0, 1] 170" "empty_heap(0 \<mapsto> [1, 2, 3])" 2 "Ptr 1 0"
      "empty_heap(0 \<mapsto> [1, 2, 3], 1 \<mapsto> [170, 170])"]
  by (simp add: Allocate_cases cni_eval)

section \<open>Properties of Free\<close>

text \<open>C10 (functional): releasing the block that \<open>Allocate\<close> returned gives back the heap from
  before the allocation, whether the allocation succeeded or not: nothing leaks and nothing
  else is touched.\<close>

theorem Free_of_Allocate:
  "sound_allocator al \<Longrightarrow> Allocate al h n = (p, h') \<Longrightarrow> Free h' p = Ok h"
  by (cases p)
    (auto simp: Allocate_Ptr_iff fun_upd_idem dest: Allocate_Null_heap sound_allocatorD)

theorem Free_of_Allocate_witness:
  "Allocate (first_fit [0, 1] 170) (empty_heap(0 \<mapsto> [1, 2, 3])) 2
     = (Ptr 1 0, empty_heap(0 \<mapsto> [1, 2, 3], 1 \<mapsto> [170, 170])) \<and>
   Free (empty_heap(0 \<mapsto> [1, 2, 3], 1 \<mapsto> [170, 170])) (Ptr 1 0) = Ok (empty_heap(0 \<mapsto> [1, 2, 3]))"
  using Free_of_Allocate [of "first_fit [0, 1] 170" "empty_heap(0 \<mapsto> [1, 2, 3])" 2 "Ptr 1 0"
      "empty_heap(0 \<mapsto> [1, 2, 3], 1 \<mapsto> [170, 170])"]
  by (simp add: Allocate_cases cni_eval)

section \<open>Properties of Reallocate\<close>

text \<open>C36 (functional): \<open>Reallocate\<close> releases the old block in every case and keeps nothing of
  it: for a size that is not zero and an allocator that answers, the block it returns
  holds what the allocator put there, even when the same block is handed out again; for
  size zero and when the allocator refuses, it returns null, and the old block is gone all
  the same, so that releasing the old pointer afterwards is a double free.\<close>

theorem Reallocate_discards_contents:
  assumes "Free h p = Ok h1"
  shows "Reallocate al h p n =
           Ok (case (if n = 0 then None else al h1 n) of
                 None \<Rightarrow> (Null, h1)
               | Some (b, fill) \<Rightarrow> (Ptr b 0, h1(b \<mapsto> fill))) \<and>
         (p \<noteq> Null \<longrightarrow> \<not> live h1 p \<and> Free h1 p = Fault InvalidFree)"
  using assms Free_twice [of p h h1]
  by (auto simp: Reallocate_def Allocate_cases Free_Ok_iff split: option.splits)

theorem Reallocate_discards_contents_witness:
  "Reallocate (first_fit [0] 170) (empty_heap(0 \<mapsto> [1, 2, 3])) (Ptr 0 0) 3
     = Ok (Ptr 0 0, empty_heap(0 \<mapsto> [170, 170, 170])) \<and>
   Reallocate (first_fit [0] 170) (empty_heap(0 \<mapsto> [1, 2, 3])) (Ptr 0 0) 0 = Ok (Null, empty_heap) \<and>
   Reallocate never_alloc (empty_heap(0 \<mapsto> [1, 2, 3])) (Ptr 0 0) 3 = Ok (Null, empty_heap) \<and>
   Free empty_heap (Ptr 0 0) = Fault InvalidFree"
  using Reallocate_discards_contents [of "empty_heap(0 \<mapsto> [1, 2, 3])" "Ptr 0 0" empty_heap
      "first_fit [0] 170" 3]
    Reallocate_discards_contents [of "empty_heap(0 \<mapsto> [1, 2, 3])" "Ptr 0 0" empty_heap
      "first_fit [0] 170" 0]
    Reallocate_discards_contents [of "empty_heap(0 \<mapsto> [1, 2, 3])" "Ptr 0 0" empty_heap
      never_alloc 3]
  by (simp add: empty_heap_def cni_eval)

section \<open>Properties of ZeroMemory\<close>

text \<open>C37 (functional): on a pointer into a live block with room for the bytes, \<open>ZeroMemory\<close>
  changes that block only: the block keeps its length, the bytes at
  \<open>off ..< off + sizeof(T) * count\<close> become zero and every other byte keeps its value.  The
  product is the one the code computes, in \<^verbatim>\<open>size_t\<close>: a count whose product wraps zeroes
  fewer bytes than asked, and none when the product is a multiple of \<open>2 ^ 64\<close>.\<close>

theorem ZeroMemory_zeroes:
  assumes "h b = Some bs" and "off + unat (sz * count) \<le> length bs"
  shows "ZeroMemory sz h (Ptr b off) count =
           Ok (h(b \<mapsto> map (\<lambda>i. if off \<le> i \<and> i < off + unat (sz * count) then 0 else bs ! i)
                        [0..<length bs]))"
  using assms by (simp add: ZeroMemory_def memset_def overwrite_replicate_eq_map)

theorem ZeroMemory_zeroes_witness:
  "ZeroMemory 2 (empty_heap(0 \<mapsto> [1, 2, 3, 4, 5])) (Ptr 0 1) 1 = Ok (empty_heap(0 \<mapsto> [1, 0, 0, 4, 5])) \<and>
   ZeroMemory 8 (empty_heap(0 \<mapsto> [1, 2, 3])) (Ptr 0 0) (2 ^ 61) = Ok (empty_heap(0 \<mapsto> [1, 2, 3]))"
  using ZeroMemory_zeroes [of "empty_heap(0 \<mapsto> [1, 2, 3, 4, 5])" 0 "[1, 2, 3, 4, 5]" 1 2 1]
    ZeroMemory_zeroes [of "empty_heap(0 \<mapsto> [1, 2, 3])" 0 "[1, 2, 3]" 0 8 "2 ^ 61"]
  by (simp add: cni_eval fun_upd_idem)

end
