(* ===== verification/CNI_Prim.thy ===== *)
theory CNI_Prim
  imports CNI_Prelude
begin

text \<open>
  Element types.  The templates of \<^verbatim>\<open>cni.hpp\<close> are constrained by \<^verbatim>\<open>PRIMITIVE\<close> (not a
  class or struct) and use an element type \<open>T\<close> only through \<^verbatim>\<open>sizeof(T)\<close> and through
  the bytes of its values, which \<^verbatim>\<open>memcpy\<close> moves.  The model passes both as a record
  \<open>'a prim\<close>: the size and the object representation of \<open>'a\<close>.  Theorems about the
  conversions assume \<open>prim_ok\<close> (every value has exactly \<open>size_of\<close> bytes and is
  determined by them); the instances for \<^verbatim>\<open>char\<close> and for fixed-width integers
  discharge it.  A container is the list of its elements; \<open>to_data\<close> is the memory
  behind \<^verbatim>\<open>data()\<close> and \<open>container_size\<close> is \<^verbatim>\<open>size()\<close>.  \<open>max_size\<close> is the bound of
  the standard allocator for elements of this size, an assumption on the library: an
  implementation with a smaller bound throws \<^verbatim>\<open>std::length_error\<close> earlier.
\<close>

record 'a prim =
  size_of :: nat
  to_bytes :: "'a \<Rightarrow> byte list"
  of_bytes :: "byte list \<Rightarrow> 'a"

definition prim_ok :: "'a prim \<Rightarrow> bool" where
  "prim_ok E \<longleftrightarrow>
     0 < size_of E \<and> size_of E < 2 ^ 63 \<and>
     (\<forall>x. length (to_bytes E x) = size_of E) \<and>
     (\<forall>x. of_bytes E (to_bytes E x) = x)"

definition sizeof :: "'a prim \<Rightarrow> nuint" where
  "sizeof E = of_nat (size_of E)"

definition to_data :: "'a prim \<Rightarrow> 'a list \<Rightarrow> byte list" where
  "to_data E xs = concat (map (to_bytes E) xs)"

definition from_data :: "'a prim \<Rightarrow> byte list \<Rightarrow> 'a list" where
  "from_data E bs = map (of_bytes E) (chunks (size_of E) bs)"

definition zero_value :: "'a prim \<Rightarrow> 'a" where
  "zero_value E = of_bytes E (replicate (size_of E) 0)"

definition container_size :: "'a list \<Rightarrow> nuint" where
  "container_size xs = of_nat (length xs)"

definition max_size :: "'a prim \<Rightarrow> nat" where
  "max_size E = (2 ^ 63 - 1) div size_of E"

definition container_ok :: "'a prim \<Rightarrow> 'a list \<Rightarrow> bool" where
  "container_ok E xs \<longleftrightarrow> length xs \<le> max_size E"

section \<open>Object representations\<close>

text \<open>
  \<open>nat_to_le n v\<close> is the little-endian representation of \<open>v\<close> in \<open>n\<close> bytes and
  \<open>le_to_nat\<close> reads it back.  \<open>prim_char\<close> is \<^verbatim>\<open>char\<close>, the element of \<^verbatim>\<open>std::string\<close>;
  \<open>prim_word\<close> is an unsigned or signed integer of \<open>LENGTH('a)\<close> bits.
\<close>

fun nat_to_le :: "nat \<Rightarrow> nat \<Rightarrow> byte list" where
  "nat_to_le 0 v = []"
| "nat_to_le (Suc n) v = of_nat (v mod 256) # nat_to_le n (v div 256)"

fun le_to_nat :: "byte list \<Rightarrow> nat" where
  "le_to_nat [] = 0"
| "le_to_nat (b # bs) = unat b + 256 * le_to_nat bs"

definition prim_char :: "char prim" where
  "prim_char =
     \<lparr>size_of = 1,
      to_bytes = (\<lambda>c. [of_char c]),
      of_bytes = (\<lambda>bs. case bs of [] \<Rightarrow> char_of (0 :: nat) | b # _ \<Rightarrow> char_of (unat b))\<rparr>"

definition prim_word :: "'a::len word prim" where
  "prim_word =
     \<lparr>size_of = (LENGTH('a) + 7) div 8,
      to_bytes = (\<lambda>w. nat_to_le ((LENGTH('a) + 7) div 8) (unat w)),
      of_bytes = (\<lambda>bs. of_nat (le_to_nat bs))\<rparr>"

section \<open>Consequences of \<open>prim_ok\<close>\<close>

lemma prim_okD:
  assumes "prim_ok E"
  shows "0 < size_of E" and "size_of E < 2 ^ 63"
    and "length (to_bytes E x) = size_of E" and "of_bytes E (to_bytes E x) = x"
  using assms by (simp_all add: prim_ok_def)

lemma unat_sizeof: "prim_ok E \<Longrightarrow> unat (sizeof E) = size_of E"
  by (simp add: sizeof_def unat_of_nat_nuint prim_ok_def)

lemma sizeof_neq_0: "prim_ok E \<Longrightarrow> sizeof E \<noteq> 0"
  using unat_sizeof [of E] by (auto simp: prim_ok_def)

lemma length_to_data: "prim_ok E \<Longrightarrow> length (to_data E xs) = length xs * size_of E"
  by (induction xs) (simp_all add: to_data_def prim_okD)

lemma to_data_Nil [simp]: "to_data E [] = []"
  by (simp add: to_data_def)

lemma to_data_append [simp]: "to_data E (xs @ ys) = to_data E xs @ to_data E ys"
  by (simp add: to_data_def)

lemma from_data_Nil [simp]: "from_data E [] = []"
  by (simp add: from_data_def)

lemma from_to_data: "prim_ok E \<Longrightarrow> from_data E (to_data E xs) = xs"
proof -
  assume ok: "prim_ok E"
  then have "chunks (size_of E) (concat (map (to_bytes E) xs)) = map (to_bytes E) xs"
    by (intro chunks_concat) (auto simp: prim_okD)
  with ok show ?thesis
    by (simp add: from_data_def to_data_def prim_okD(4) map_idI)
qed

lemma length_from_data:
  "prim_ok E \<Longrightarrow> length bs = n * size_of E \<Longrightarrow> length (from_data E bs) = n"
  by (simp add: from_data_def length_chunks prim_okD(1))

section \<open>Sizes of containers\<close>

lemma max_size_bytes:
  assumes "prim_ok E" and "n \<le> max_size E"
  shows "n * size_of E < 2 ^ 63"
proof -
  from assms(2) have "n * size_of E \<le> ((2 ^ 63 - 1) div size_of E) * size_of E"
    by (simp add: max_size_def)
  also have "\<dots> \<le> 2 ^ 63 - 1"
    by simp
  finally show ?thesis by simp
qed

lemma container_ok_bytes:
  "prim_ok E \<Longrightarrow> container_ok E xs \<Longrightarrow> length xs * size_of E < 2 ^ 63"
  unfolding container_ok_def by (rule max_size_bytes)

lemma container_ok_length:
  assumes "prim_ok E" and "container_ok E xs"
  shows "length xs < 2 ^ 63"
proof -
  from prim_okD(1) [OF assms(1)] have "length xs \<le> length xs * size_of E"
    by (cases "size_of E") simp_all
  then show ?thesis
    using container_ok_bytes [OF assms] by (rule le_less_trans)
qed

lemma unat_container_size:
  "prim_ok E \<Longrightarrow> container_ok E xs \<Longrightarrow> unat (container_size xs) = length xs"
  using container_ok_length [of E xs] by (simp add: container_size_def unat_of_nat_nuint)

lemma unat_data_bytes:
  assumes "prim_ok E" and "container_ok E xs"
  shows "unat (sizeof E * container_size xs) = length xs * size_of E"
proof -
  have "unat (sizeof E) * unat (container_size xs) = length xs * size_of E"
    using assms by (simp add: unat_sizeof unat_container_size)
  moreover have "length xs * size_of E < 2 ^ 64"
    using container_ok_bytes [OF assms] by simp
  ultimately show ?thesis
    by (simp add: unat_mult_nowrap)
qed

lemma unat_data_bytes_terminated:
  assumes "prim_ok E" and "container_ok E xs"
  shows "unat (sizeof E * (container_size xs + 1)) = (length xs + 1) * size_of E"
proof -
  have len: "unat (container_size xs + 1) = length xs + 1"
    using assms container_ok_length [OF assms]
    by (simp add: unat_plus1_nowrap unat_container_size)
  have "(length xs + 1) * size_of E < 2 ^ 63 + 2 ^ 63"
    using container_ok_bytes [OF assms] prim_okD(2) [OF assms(1)]
    by (simp add: add_mult_distrib add_strict_mono)
  then have "unat (sizeof E) * unat (container_size xs + 1) < 2 ^ 64"
    using assms(1) len by (simp add: unat_sizeof mult.commute)
  then show ?thesis
    using assms(1) len by (simp add: unat_mult_nowrap unat_sizeof mult.commute)
qed

lemma unat_carray_bytes:
  assumes E: "prim_ok E" and n: "unat n \<le> max_size E"
  shows "unat (n * sizeof E) = unat n * size_of E"
proof -
  from max_size_bytes [OF E n] have "unat n * unat (sizeof E) < 2 ^ 64"
    by (simp add: unat_sizeof [OF E])
  then show ?thesis
    by (simp add: unat_mult_nowrap unat_sizeof [OF E])
qed

section \<open>The instances\<close>

lemma le_to_nat_to_le: "le_to_nat (nat_to_le n v) = v mod 256 ^ n"
proof (induction n arbitrary: v)
  case 0
  show ?case by simp
next
  case (Suc n)
  have "unat (of_nat (v mod 256) :: byte) = v mod 256"
    by (simp add: unat_of_nat)
  with Suc show ?case
    by (simp add: mod_mult2_eq)
qed

lemma length_nat_to_le [simp]: "length (nat_to_le n v) = n"
  by (induction n arbitrary: v) simp_all

lemma unat_of_char: "unat (of_char c :: byte) = of_char c"
proof -
  have "(of_char c :: byte) = of_nat (of_char c)"
    by (simp add: of_nat_of_char)
  then have "unat (of_char c :: byte) = (of_char c :: nat) mod 256"
    by (simp only: unat_of_nat) simp
  then show ?thesis by simp
qed

lemma prim_ok_char [simp]: "prim_ok prim_char"
  by (simp add: prim_ok_def prim_char_def unat_of_char)

lemma size_of_char [simp]: "size_of prim_char = 1"
  by (simp add: prim_char_def)

lemma sizeof_char [simp]: "sizeof prim_char = 1"
  by (simp add: sizeof_def)

lemma to_data_char [cni_eval]: "to_data prim_char s = map of_char s"
  by (induction s) (simp_all add: to_data_def prim_char_def)

lemma chunks_1: "chunks (Suc 0) bs = map (\<lambda>b. [b]) bs"
  by (induction bs) (simp_all add: chunks_Cons)

lemma from_data_char [cni_eval]: "from_data prim_char bs = map (\<lambda>b. char_of (unat b)) bs"
  by (simp add: from_data_def chunks_1 prim_char_def)

lemma zero_value_char [cni_eval]: "zero_value prim_char = char_of (0 :: nat)"
  by (simp add: zero_value_def prim_char_def)

lemma nat_to_le_numeral [cni_eval]:
  "nat_to_le (numeral k) v = of_nat (v mod 256) # nat_to_le (pred_numeral k) (v div 256)"
  by (simp add: numeral_eq_Suc [of k])

lemmas prim_eval [cni_eval] =
  container_ok_def max_size_def container_size_def sizeof_def

lemma prim_word_simps [cni_eval]:
  "size_of (prim_word :: 'a::len word prim) = (LENGTH('a) + 7) div 8"
  "to_bytes prim_word (w :: 'a word) = nat_to_le ((LENGTH('a) + 7) div 8) (unat w)"
  "of_bytes (prim_word :: 'a word prim) bs = of_nat (le_to_nat bs)"
  by (simp_all add: prim_word_def)

lemma prim_char_simps [cni_eval]:
  "to_bytes prim_char c = [of_char c]"
  "of_bytes prim_char (b # bs) = char_of (unat b)"
  by (simp_all add: prim_char_def)

lemma to_data_Cons [cni_eval]: "to_data E (x # xs) = to_bytes E x @ to_data E xs"
  by (simp add: to_data_def)

lemma from_data_eval [cni_eval]: "from_data E bs = map (of_bytes E) (chunks (size_of E) bs)"
  by (simp add: from_data_def)

lemma word_bytes_enough: "2 ^ LENGTH('a::len) \<le> (256 :: nat) ^ ((LENGTH('a) + 7) div 8)"
proof -
  have "LENGTH('a) \<le> 8 * ((LENGTH('a) + 7) div 8)"
    by simp
  then have "(2 :: nat) ^ LENGTH('a) \<le> 2 ^ (8 * ((LENGTH('a) + 7) div 8))"
    by (rule power_increasing) simp
  then show ?thesis
    by (simp add: power_mult)
qed

lemma prim_word_roundtrip:
  "of_bytes prim_word (to_bytes prim_word (w :: 'a::len word)) = w"
proof -
  have "unat w < 2 ^ LENGTH('a)"
    by (rule unsigned_less)
  also note word_bytes_enough [where 'a = 'a]
  finally have "unat w mod 256 ^ ((LENGTH('a) + 7) div 8) = unat w"
    by simp
  then show ?thesis
    by (simp add: prim_word_def le_to_nat_to_le)
qed

lemma prim_ok_word:
  "LENGTH('a::len) \<le> 128 \<Longrightarrow> prim_ok (prim_word :: 'a word prim)"
proof -
  assume le: "LENGTH('a) \<le> 128"
  then have "(LENGTH('a) + 7) div 8 \<le> 16"
    by simp
  then have "(LENGTH('a) + 7) div 8 < (2 :: nat) ^ 63"
    by simp
  moreover have "0 < (LENGTH('a) + 7) div 8"
    using len_gt_0 [where 'a = 'a] by (simp add: div_greater_zero_iff Suc_le_eq)
  ultimately show ?thesis
    using prim_word_roundtrip [where 'a = 'a]
    by (simp add: prim_ok_def) (simp add: prim_word_def)
qed

end
