(* ===== verification/CNI_CArray.thy ===== *)
theory CNI_CArray
  imports CNI_Heap CNI_Prim
begin

text \<open>
  \<^verbatim>\<open>struct CArray<T>\<close>: a raw pointer and an element count.  The union of \<^verbatim>\<open>m_block\<close>
  and \<^verbatim>\<open>m_data\<close> holds one pointer, seen untyped or as \<^verbatim>\<open>T*\<close>; the model keeps the field
  \<open>m_block\<close> and defines \<open>m_data\<close> as the same pointer.  Arithmetic on a \<^verbatim>\<open>T*\<close> moves
  in steps of \<^verbatim>\<open>sizeof(T)\<close> bytes (\<open>elem_ptr_add\<close>).  The struct carries no invariant of
  its own; \<open>carray_ok\<close> states the one its users rely on, relative to a heap, and
  \<open>carray_elems\<close> reads the elements an array denotes.
\<close>

record CArray =
  m_block :: ptr
  m_length :: nuint

definition m_data :: "CArray \<Rightarrow> ptr" where
  "m_data a = m_block a"

definition empty_CArray :: CArray where
  "empty_CArray = \<lparr>m_block = Null, m_length = 0\<rparr>"

definition elem_ptr_add :: "'a prim \<Rightarrow> ptr \<Rightarrow> nuint \<Rightarrow> ptr" where
  "elem_ptr_add E p n = ptr_add p (unat n * size_of E)"

definition CArray_size :: "CArray \<Rightarrow> nuint" where
  "CArray_size a = m_length a"

definition CArray_begin :: "CArray \<Rightarrow> ptr" where
  "CArray_begin a = m_data a"

definition CArray_end :: "'a prim \<Rightarrow> CArray \<Rightarrow> ptr" where
  "CArray_end E a = elem_ptr_add E (CArray_begin a) (CArray_size a)"

section \<open>What an array denotes in a heap\<close>

definition carray_bytes :: "'a prim \<Rightarrow> heap \<Rightarrow> CArray \<Rightarrow> byte list" where
  "carray_bytes E h a = take (unat (m_length a) * size_of E) (contents h (m_block a))"

definition carray_elems :: "'a prim \<Rightarrow> heap \<Rightarrow> CArray \<Rightarrow> 'a list" where
  "carray_elems E h a = from_data E (carray_bytes E h a)"

definition carray_ok :: "'a prim \<Rightarrow> heap \<Rightarrow> CArray \<Rightarrow> bool" where
  "carray_ok E h a \<longleftrightarrow> unat (m_length a) * size_of E \<le> length (contents h (m_block a))"

definition carray_owned :: "heap \<Rightarrow> CArray \<Rightarrow> bool" where
  "carray_owned h a \<longleftrightarrow> m_block a = Null \<or> live h (m_block a)"

definition carray_terminated :: "'a prim \<Rightarrow> heap \<Rightarrow> CArray \<Rightarrow> bool" where
  "carray_terminated E h a \<longleftrightarrow>
     take (size_of E) (drop (unat (m_length a) * size_of E) (contents h (m_block a)))
       = replicate (size_of E) 0"

lemmas carray_eval [cni_eval] =
  carray_bytes_def carray_elems_def carray_ok_def carray_owned_def carray_terminated_def
  char_of_eq_iff

section \<open>Facts\<close>

lemma empty_CArray_simps [simp]:
  "m_block empty_CArray = Null" "m_length empty_CArray = 0"
  by (simp_all add: empty_CArray_def)

lemma m_data_simps [simp]: "m_data \<lparr>m_block = p, m_length = n\<rparr> = p"
  by (simp add: m_data_def)

lemma elem_ptr_add_simps [simp]:
  "elem_ptr_add E Null n = Null"
  "elem_ptr_add E (Ptr b off) n = Ptr b (off + unat n * size_of E)"
  by (simp_all add: elem_ptr_add_def)

lemma CArray_begin_end_empty [simp]:
  "CArray_begin empty_CArray = Null" "CArray_end E empty_CArray = Null"
  "CArray_size empty_CArray = 0"
  by (simp_all add: CArray_begin_def CArray_end_def CArray_size_def m_data_def)

lemma carray_ok_empty [simp]: "carray_ok E h empty_CArray"
  by (simp add: carray_ok_def)

lemma carray_owned_empty [simp]: "carray_owned h empty_CArray"
  by (simp add: carray_owned_def)

lemma carray_elems_empty [simp]: "carray_elems E h empty_CArray = []"
  by (simp add: carray_elems_def carray_bytes_def)

lemma carray_ok_nonempty:
  "prim_ok E \<Longrightarrow> carray_ok E h a \<Longrightarrow> m_length a \<noteq> 0 \<Longrightarrow>
   \<exists>b off bs. m_block a = Ptr b off \<and> h b = Some bs \<and>
     off + unat (m_length a) * size_of E \<le> length bs"
proof -
  assume ok: "prim_ok E" and a: "carray_ok E h a" and nz: "m_length a \<noteq> 0"
  define n where "n = unat (m_length a) * size_of E"
  from nz have "0 < unat (m_length a)"
    by (simp add: unat_gt_0)
  with prim_okD(1) [OF ok] have pos: "0 < n"
    by (simp add: n_def)
  from a have le: "n \<le> length (contents h (m_block a))"
    by (simp add: carray_ok_def n_def)
  with pos obtain b off where p: "m_block a = Ptr b off"
    by (cases "m_block a") auto
  with pos le obtain bs where bs: "h b = Some bs"
    by (cases "h b") auto
  with le p have "n \<le> length bs - off"
    by simp
  with pos have "off + n \<le> length bs"
    by arith
  with p bs show ?thesis
    unfolding n_def by blast
qed

lemma length_carray_bytes:
  "carray_ok E h a \<Longrightarrow> length (carray_bytes E h a) = unat (m_length a) * size_of E"
  by (simp add: carray_ok_def carray_bytes_def)

lemma length_carray_elems:
  "prim_ok E \<Longrightarrow> carray_ok E h a \<Longrightarrow> length (carray_elems E h a) = unat (m_length a)"
  by (simp add: carray_elems_def length_from_data length_carray_bytes)

lemma carray_bytes_cong [cni_frame]:
  "m_block a = Ptr b off \<Longrightarrow> h' b = h b \<Longrightarrow> carray_bytes E h' a = carray_bytes E h a"
  by (simp add: carray_bytes_def contents_def)

lemma carray_elems_cong [cni_frame]:
  "m_block a = Ptr b off \<Longrightarrow> h' b = h b \<Longrightarrow> carray_elems E h' a = carray_elems E h a"
  by (simp add: carray_elems_def carray_bytes_def contents_def)

lemma carray_ok_cong [cni_frame]:
  "m_block a = Ptr b off \<Longrightarrow> h' b = h b \<Longrightarrow> carray_ok E h' a = carray_ok E h a"
  by (simp add: carray_ok_def contents_def)

lemma carray_terminated_cong [cni_frame]:
  "m_block a = Ptr b off \<Longrightarrow> h' b = h b \<Longrightarrow> carray_terminated E h' a = carray_terminated E h a"
  by (simp add: carray_terminated_def contents_def)

section \<open>The range of an array\<close>

text \<open>
  For a valid array the range from \<^verbatim>\<open>begin()\<close> to \<^verbatim>\<open>end()\<close> is the array's elements:
  \<^verbatim>\<open>end()\<close> lies \<^verbatim>\<open>size()\<close> elements after \<^verbatim>\<open>begin()\<close> in the same block, the bytes between
  them can be read, and they are the bytes the array denotes.  \<open>CNI_Consumer\<close> walks the
  range element by element.
\<close>

lemma CArray_range:
  assumes "prim_ok E" and "carray_ok E h a" and "m_length a \<noteq> 0"
  shows "\<exists>b off. CArray_begin a = Ptr b off \<and>
           CArray_end E a = Ptr b (off + unat (CArray_size a) * size_of E) \<and>
           load h (CArray_begin a) (unat (CArray_size a) * size_of E) = Ok (carray_bytes E h a)"
proof -
  from carray_ok_nonempty [OF assms] obtain b off bs where p: "m_block a = Ptr b off"
    and bs: "h b = Some bs" and fits: "off + unat (m_length a) * size_of E \<le> length bs"
    by blast
  from bs fits have "load h (Ptr b off) (unat (m_length a) * size_of E)
      = Ok (take (unat (m_length a) * size_of E) (drop off bs))"
    by simp
  with p bs show ?thesis
    by (simp add: CArray_begin_def CArray_end_def CArray_size_def m_data_def carray_bytes_def)
qed

end
