(* ===== verification/CNI_Convert.thy ===== *)
theory CNI_Convert
  imports CNI_MemoryHelper CNI_CArray
begin

text \<open>
  \<^verbatim>\<open>class CNIConvert\<close>: the two private templates and the three public functions.  A
  pointer to a container is \<open>None\<close> (\<^verbatim>\<open>nullptr\<close>) or \<open>Some\<close> of the element list.
  \<open>to_primitive_c_array\<close> returns the array with the new heap; \<open>to_std_container\<close>
  only reads the heap.  \<open>std_resize\<close> is the call \<^verbatim>\<open>result.resize(n)\<close> on the empty
  container, whose storage the container's allocator takes from the same free store:
  it throws \<^verbatim>\<open>std::length_error\<close> above \<open>max_size\<close> and \<^verbatim>\<open>std::bad_alloc\<close> when the
  allocator refuses, and otherwise gives \<open>n\<close> value-initialised elements.  The unused
  parameter \<^verbatim>\<open>tp\<close> of \<^verbatim>\<open>to_std_container\<close>, which only selects the template instance,
  has no counterpart.
\<close>

definition to_primitive_c_array ::
  "allocator \<Rightarrow> 'a prim \<Rightarrow> heap \<Rightarrow> 'a list option \<Rightarrow> bool \<Rightarrow> (CArray \<times> heap) result" where
  "to_primitive_c_array al E h p_container add_terminator =
     (case p_container of
        None \<Rightarrow> Ok (empty_CArray, h)
      | Some xs \<Rightarrow>
          let elem_count = container_size xs;
              elem_size = sizeof E;
              (block, h1) =
                (if add_terminator then Allocate al h (elem_size * (elem_count + 1))
                 else Allocate al h (elem_size * elem_count))
          in if block = Null then Ok (empty_CArray, h1)
             else rbind (memcpy_to h1 block (to_data E xs) (elem_size * elem_count))
                    (\<lambda>h2. let result = \<lparr>m_block = block, m_length = elem_count\<rparr>
                          in if add_terminator
                             then rbind (memset h2 (elem_ptr_add E (m_data result) elem_count) 0 elem_size)
                                    (\<lambda>h3. Ok (result, h3))
                             else Ok (result, h2)))"

definition std_resize :: "allocator \<Rightarrow> 'a prim \<Rightarrow> heap \<Rightarrow> nuint \<Rightarrow> 'a list result" where
  "std_resize al E h n =
     (if max_size E < unat n then Fault LengthError
      else if n \<noteq> 0 \<and> al h (of_nat (unat n * size_of E)) = None then Fault BadAlloc
      else Ok (replicate (unat n) (zero_value E)))"

definition to_std_container ::
  "allocator \<Rightarrow> 'a prim \<Rightarrow> heap \<Rightarrow> CArray option \<Rightarrow> 'a list result" where
  "to_std_container al E h c_array =
     (case c_array of
        None \<Rightarrow> Ok []
      | Some a \<Rightarrow>
          if m_block a = Null \<or> m_length a = 0 then Ok []
          else rbind (std_resize al E h (m_length a))
                 (\<lambda>result.
                    rbind (memcpy_from h (to_data E result) (m_block a) (m_length a * sizeof E))
                      (\<lambda>data. Ok (from_data E data))))"

definition ToCArray :: "allocator \<Rightarrow> 'a prim \<Rightarrow> heap \<Rightarrow> 'a list \<Rightarrow> (CArray \<times> heap) result" where
  "ToCArray al E h cpp_vector = to_primitive_c_array al E h (Some cpp_vector) False"

definition ToCNIString :: "allocator \<Rightarrow> heap \<Rightarrow> string \<Rightarrow> (CArray \<times> heap) result" where
  "ToCNIString al h str = to_primitive_c_array al prim_char h (Some str) True"

definition ToCppString :: "allocator \<Rightarrow> heap \<Rightarrow> CArray \<Rightarrow> string result" where
  "ToCppString al h u8str = to_std_container al prim_char h (Some u8str)"

definition alloc_bytes :: "'a prim \<Rightarrow> 'a list \<Rightarrow> bool \<Rightarrow> nuint" where
  "alloc_bytes E xs add_terminator =
     (if add_terminator then sizeof E * (container_size xs + 1)
      else sizeof E * container_size xs)"

definition block_image :: "'a prim \<Rightarrow> 'a list \<Rightarrow> bool \<Rightarrow> byte list" where
  "block_image E xs add_terminator =
     to_data E xs @ (if add_terminator then replicate (size_of E) 0 else [])"

section \<open>What the conversions promise\<close>

text \<open>
  The contract of \<open>to_primitive_c_array\<close> on a container, as a function of the allocator's
  answer: the empty array and the old heap when no byte is needed or none is granted,
  otherwise an array on the granted block, which holds the image of the container.
  The contract of \<open>to_std_container\<close> on an array is \<open>carray_elems\<close>.
\<close>

definition to_c_array_spec ::
  "allocator \<Rightarrow> 'a prim \<Rightarrow> heap \<Rightarrow> 'a list \<Rightarrow> bool \<Rightarrow> CArray \<times> heap" where
  "to_c_array_spec al E h xs t =
     (if alloc_bytes E xs t = 0 then (empty_CArray, h)
      else case al h (alloc_bytes E xs t) of
             None \<Rightarrow> (empty_CArray, h)
           | Some (b, fill) \<Rightarrow>
               (\<lparr>m_block = Ptr b 0, m_length = container_size xs\<rparr>, h(b \<mapsto> block_image E xs t)))"

lemmas convert_defs [cni_defs] =
  to_primitive_c_array_def to_std_container_def ToCArray_def ToCNIString_def ToCppString_def

lemmas convert_eval [cni_eval] = alloc_bytes_def block_image_def to_c_array_spec_def

section \<open>Container to array\<close>

lemma to_primitive_c_array_unfold:
  "to_primitive_c_array al E h (Some xs) t =
     (case Allocate al h (alloc_bytes E xs t) of
        (block, h1) \<Rightarrow>
          if block = Null then Ok (empty_CArray, h1)
          else rbind (memcpy_to h1 block (to_data E xs) (sizeof E * container_size xs))
                 (\<lambda>h2. if t
                    then rbind (memset h2 (elem_ptr_add E block (container_size xs)) 0 (sizeof E))
                           (\<lambda>h3. Ok (\<lparr>m_block = block, m_length = container_size xs\<rparr>, h3))
                    else Ok (\<lparr>m_block = block, m_length = container_size xs\<rparr>, h2)))"
  by (simp add: to_primitive_c_array_def alloc_bytes_def Let_def split: prod.splits)

lemma to_primitive_c_array_None [simp]:
  "to_primitive_c_array al E h None t = Ok (empty_CArray, h)"
  by (simp add: to_primitive_c_array_def)

lemma to_primitive_c_array_fails:
  "alloc_bytes E xs t = 0 \<or> al h (alloc_bytes E xs t) = None \<Longrightarrow>
   to_primitive_c_array al E h (Some xs) t = Ok (empty_CArray, h)"
  by (auto simp: to_primitive_c_array_unfold Allocate_cases)

lemma unat_alloc_bytes:
  "prim_ok E \<Longrightarrow> container_ok E xs \<Longrightarrow>
   unat (alloc_bytes E xs t) = length (block_image E xs t)"
  by (simp add: alloc_bytes_def block_image_def unat_data_bytes unat_data_bytes_terminated
      length_to_data)

lemma to_primitive_c_array_succeeds:
  assumes al: "sound_allocator al" and E: "prim_ok E" and xs: "container_ok E xs"
    and nz: "alloc_bytes E xs t \<noteq> 0"
    and got: "al h (alloc_bytes E xs t) = Some (b, fill)"
  shows "to_primitive_c_array al E h (Some xs) t =
           Ok (\<lparr>m_block = Ptr b 0, m_length = container_size xs\<rparr>, h(b \<mapsto> block_image E xs t))"
proof -
  let ?n = "length xs * size_of E"
  from sound_allocatorD [OF al got] have len: "length fill = length (block_image E xs t)"
    by (simp add: unat_alloc_bytes E xs)
  have A: "Allocate al h (alloc_bytes E xs t) = (Ptr b 0, h(b \<mapsto> fill))"
    using nz got by (simp add: Allocate_cases)
  have n: "unat (sizeof E * container_size xs) = ?n"
    by (rule unat_data_bytes [OF E xs])
  have d: "length (to_data E xs) = ?n"
    by (rule length_to_data [OF E])
  have le: "?n \<le> length fill"
    using len d by (simp add: block_image_def)
  have cp: "memcpy_to (h(b \<mapsto> fill)) (Ptr b 0) (to_data E xs) (sizeof E * container_size xs)
      = Ok (h(b \<mapsto> to_data E xs @ drop ?n fill))"
    using le d by (simp add: memcpy_to_def n overwrite_def)
  show ?thesis
  proof (cases t)
    case False
    with len d have "drop ?n fill = []"
      by (simp add: block_image_def)
    with False A cp show ?thesis
      by (simp add: to_primitive_c_array_unfold block_image_def)
  next
    case True
    with len d have f: "length fill = ?n + size_of E"
      by (simp add: block_image_def)
    have "memset (h(b \<mapsto> to_data E xs @ drop ?n fill))
            (elem_ptr_add E (Ptr b 0) (container_size xs)) 0 (sizeof E)
          = Ok (h(b \<mapsto> to_data E xs @ replicate (size_of E) 0))"
      using f d by (simp add: memset_def unat_sizeof [OF E] unat_container_size [OF E xs]
          overwrite_def)
    with True A cp show ?thesis
      by (simp add: to_primitive_c_array_unfold block_image_def)
  qed
qed

lemma carray_elems_block_image:
  assumes E: "prim_ok E" and xs: "container_ok E xs"
  shows "carray_elems E (h(b \<mapsto> block_image E xs t))
           \<lparr>m_block = Ptr b 0, m_length = container_size xs\<rparr> = xs"
  using length_to_data [OF E, of xs]
  by (simp add: carray_elems_def carray_bytes_def block_image_def unat_container_size [OF E xs]
      from_to_data [OF E])

lemma block_image_fits:
  "prim_ok E \<Longrightarrow> container_ok E xs \<Longrightarrow> length (block_image E xs t) < 2 ^ 64"
  using unat_alloc_bytes [of E xs t] unat_nuint_lt [of "alloc_bytes E xs t"] by simp

lemma carray_ok_block_image:
  "prim_ok E \<Longrightarrow> container_ok E xs \<Longrightarrow>
   carray_ok E (h(b \<mapsto> block_image E xs t)) \<lparr>m_block = Ptr b 0, m_length = container_size xs\<rparr>"
  by (simp add: carray_ok_def unat_container_size block_image_def length_to_data)

lemma carray_terminated_block_image:
  "prim_ok E \<Longrightarrow> container_ok E xs \<Longrightarrow>
   carray_terminated E (h(b \<mapsto> block_image E xs True))
     \<lparr>m_block = Ptr b 0, m_length = container_size xs\<rparr>"
  by (simp add: carray_terminated_def unat_container_size block_image_def length_to_data)

section \<open>Array to container\<close>

lemma to_std_container_empty_simps [simp]:
  "to_std_container al E h None = Ok []"
  "m_block a = Null \<Longrightarrow> to_std_container al E h (Some a) = Ok []"
  "m_length a = 0 \<Longrightarrow> to_std_container al E h (Some a) = Ok []"
  by (simp_all add: to_std_container_def)

lemma std_resize_Ok:
  "unat n \<le> max_size E \<Longrightarrow> n = 0 \<or> al h (of_nat (unat n * size_of E)) \<noteq> None \<Longrightarrow>
   std_resize al E h n = Ok (replicate (unat n) (zero_value E))"
  by (auto simp: std_resize_def)

lemma to_std_container_reads:
  assumes E: "prim_ok E" and p: "m_block a = Ptr b off" and bs: "h b = Some bs"
    and nz: "m_length a \<noteq> 0" and n: "unat (m_length a) \<le> max_size E"
    and mem: "al h (of_nat (unat (m_length a) * size_of E)) \<noteq> None"
    and fits: "off + unat (m_length a) * size_of E \<le> length bs"
  shows "to_std_container al E h (Some a) = Ok (carray_elems E h a)"
proof -
  let ?n = "unat (m_length a) * size_of E"
  have r: "std_resize al E h (m_length a) = Ok (replicate (unat (m_length a)) (zero_value E))"
    using n mem by (simp add: std_resize_Ok)
  have c: "unat (m_length a * sizeof E) = ?n"
    by (rule unat_carray_bytes [OF E n])
  have "memcpy_from h (to_data E (replicate (unat (m_length a)) (zero_value E))) (m_block a)
          (m_length a * sizeof E) = Ok (take ?n (drop off bs))"
    using p bs fits by (simp add: memcpy_from_def c length_to_data [OF E])
  with p bs nz r show ?thesis
    by (simp add: to_std_container_def carray_elems_def carray_bytes_def)
qed

lemma to_std_container_valid:
  assumes E: "prim_ok E" and ok: "carray_ok E h a"
  shows "to_std_container al E h (Some a) =
     (if m_block a = Null \<or> m_length a = 0 then Ok []
      else if max_size E < unat (m_length a) then Fault LengthError
      else if al h (of_nat (unat (m_length a) * size_of E)) = None then Fault BadAlloc
      else Ok (carray_elems E h a))"
proof (cases "m_block a = Null \<or> m_length a = 0 \<or> max_size E < unat (m_length a) \<or>
    al h (of_nat (unat (m_length a) * size_of E)) = None")
  case True
  then show ?thesis
    by (auto simp: to_std_container_def std_resize_def)
next
  case False
  with carray_ok_nonempty [OF E ok] obtain b off bs where "m_block a = Ptr b off"
    and "h b = Some bs" and "off + unat (m_length a) * size_of E \<le> length bs"
    by blast
  with E False have "to_std_container al E h (Some a) = Ok (carray_elems E h a)"
    by (intro to_std_container_reads) auto
  with False show ?thesis
    by simp
qed

section \<open>Properties of the conversions\<close>

lemma container_size_eq_0_iff:
  "prim_ok E \<Longrightarrow> container_ok E xs \<Longrightarrow> container_size xs = 0 \<longleftrightarrow> xs = []"
  using unat_container_size [of E xs] by (auto simp: nuint_eq_0_iff)

lemma to_primitive_c_array_Ok_cases:
  assumes "sound_allocator al" and "prim_ok E" and "container_ok E xs"
    and "to_primitive_c_array al E h (Some xs) t = Ok (a, h')"
  obtains (empty) "a = empty_CArray" and "h' = h"
      and "alloc_bytes E xs t = 0 \<or> al h (alloc_bytes E xs t) = None"
    | (block) b fill where "alloc_bytes E xs t \<noteq> 0" and "al h (alloc_bytes E xs t) = Some (b, fill)"
      and "a = \<lparr>m_block = Ptr b 0, m_length = container_size xs\<rparr>"
      and "h' = h(b \<mapsto> block_image E xs t)"
proof (cases "alloc_bytes E xs t = 0 \<or> al h (alloc_bytes E xs t) = None")
  case True
  with assms(4) show ?thesis
    by (intro empty) (simp_all add: to_primitive_c_array_fails)
next
  case False
  then obtain b fill where got: "al h (alloc_bytes E xs t) = Some (b, fill)"
    by auto
  with False assms show ?thesis
    by (intro block [of b fill]) (simp_all add: to_primitive_c_array_succeeds)
qed

lemma to_primitive_c_array_extends [cni_frame]:
  assumes "sound_allocator al" and "prim_ok E" and "container_ok E xs"
    and "to_primitive_c_array al E h (Some xs) t = Ok (a, h')"
  shows "h \<subseteq>\<^sub>m h'"
  using assms
proof (cases rule: to_primitive_c_array_Ok_cases)
  case empty
  then show ?thesis by simp
next
  case (block b fill)
  with sound_allocatorD [OF assms(1) block(2)] show ?thesis
    by (auto simp: map_le_def)
qed

lemma length_block_image:
  "prim_ok E \<Longrightarrow> length (block_image E xs t) = (length xs + (if t then 1 else 0)) * size_of E"
  by (simp add: block_image_def length_to_data)

lemma block_image_covers:
  "prim_ok E \<Longrightarrow> length xs * size_of E \<le> length (block_image E xs t)"
  by (simp add: block_image_def length_to_data)

lemma to_std_container_block_image:
  assumes E: "prim_ok E" and xs: "container_ok E xs"
    and mem: "xs = [] \<or> al h (of_nat (length xs * size_of E)) \<noteq> None"
    and blk: "h b = Some (block_image E xs t)"
  shows "to_std_container al E h (Some \<lparr>m_block = Ptr b 0, m_length = container_size xs\<rparr>) = Ok xs"
proof (cases "xs = []")
  case True
  then show ?thesis
    by (simp add: to_std_container_def container_size_def)
next
  case False
  let ?a = "\<lparr>m_block = Ptr b 0, m_length = container_size xs\<rparr>"
  have "to_std_container al E h (Some ?a) = Ok (carray_elems E h ?a)"
  proof (rule to_std_container_reads [OF E])
    show "m_block ?a = Ptr b 0" by simp
    show "h b = Some (block_image E xs t)" by (rule blk)
    show "m_length ?a \<noteq> 0"
      using False by (simp add: container_size_eq_0_iff [OF E xs])
    show "unat (m_length ?a) \<le> max_size E"
      using xs by (simp add: unat_container_size [OF E xs] container_ok_def)
    show "al h (word_of_nat (unat (m_length ?a) * size_of E)) \<noteq> None"
      using mem False by (simp add: unat_container_size [OF E xs])
    show "0 + unat (m_length ?a) * size_of E \<le> length (block_image E xs t)"
      by (simp add: unat_container_size [OF E xs] block_image_covers [OF E])
  qed
  moreover have "h = h(b \<mapsto> block_image E xs t)"
    using blk by (simp add: fun_upd_idem)
  ultimately show ?thesis
    using carray_elems_block_image [OF E xs, of h b t] by simp
qed

text \<open>C1 (roundtrip): converting a container to a flat array and the array back gives the
  container again, with or without the terminator: for every sound allocator and every
  element type with a faithful representation, if \<open>to_primitive_c_array\<close> returned a
  non-null block and the result container can get its storage, then \<open>to_std_container\<close> on
  the returned array, in the returned heap, is the original list of elements.\<close>

theorem to_container_of_c_array:
  assumes al: "sound_allocator al" and E: "prim_ok E" and xs: "container_ok E xs"
    and conv: "to_primitive_c_array al E h (Some xs) t = Ok (a, h')"
    and nn: "m_block a \<noteq> Null"
    and mem: "xs = [] \<or> al h' (of_nat (length xs * size_of E)) \<noteq> None"
  shows "to_std_container al E h' (Some a) = Ok xs"
  using al E xs conv
proof (cases rule: to_primitive_c_array_Ok_cases)
  case empty
  with nn show ?thesis by simp
next
  case (block b fill)
  with E xs mem show ?thesis
    by (simp add: to_std_container_block_image)
qed

theorem to_container_of_c_array_witness:
  "to_primitive_c_array (first_fit [0, 1] 170) prim_char empty_heap (Some ''ab'') True
     = Ok (\<lparr>m_block = Ptr 0 0, m_length = 2\<rparr>, empty_heap(0 \<mapsto> [97, 98, 0])) \<and>
   to_std_container (first_fit [0, 1] 170) prim_char (empty_heap(0 \<mapsto> [97, 98, 0]))
     (Some \<lparr>m_block = Ptr 0 0, m_length = 2\<rparr>) = Ok ''ab''"
  using to_container_of_c_array [of "first_fit [0, 1] 170" prim_char "''ab''" empty_heap True
      "\<lparr>m_block = Ptr 0 0, m_length = 2\<rparr>" "empty_heap(0 \<mapsto> [97, 98, 0])"]
    to_primitive_c_array_succeeds [of "first_fit [0, 1] 170" prim_char "''ab''" True empty_heap 0
      "[170, 170, 170]"]
  by (simp add: cni_eval)

text \<open>C2 (refinement): on a well-formed container \<open>to_primitive_c_array\<close> implements its
  contract \<open>to_c_array_spec\<close>: the sequence of \<open>Allocate\<close>, \<^verbatim>\<open>memcpy\<close> and \<^verbatim>\<open>memset\<close> on the
  heap never faults and ends in exactly the array and the heap the contract describes,
  whatever the allocator answers.\<close>

theorem to_primitive_c_array_meets_spec:
  assumes "sound_allocator al" and "prim_ok E" and "container_ok E xs"
  shows "to_primitive_c_array al E h (Some xs) t = Ok (to_c_array_spec al E h xs t)"
proof (cases "alloc_bytes E xs t = 0 \<or> al h (alloc_bytes E xs t) = None")
  case True
  then show ?thesis
    by (auto simp: to_primitive_c_array_fails to_c_array_spec_def)
next
  case False
  then obtain b fill where "al h (alloc_bytes E xs t) = Some (b, fill)"
    by auto
  with False assms show ?thesis
    by (simp add: to_primitive_c_array_succeeds to_c_array_spec_def)
qed

theorem to_primitive_c_array_meets_spec_witness:
  "to_primitive_c_array (first_fit [0, 1] 170) prim_char empty_heap (Some ''ab'') True
     = Ok (\<lparr>m_block = Ptr 0 0, m_length = 2\<rparr>, empty_heap(0 \<mapsto> [97, 98, 0]))"
  using to_primitive_c_array_meets_spec [of "first_fit [0, 1] 170" prim_char "''ab''" empty_heap True]
  by (simp add: cni_eval)

text \<open>C11 (functional): a non-null array returned by \<open>to_primitive_c_array\<close> reports the
  container's size as its length (the terminator is not counted), its block holds the bytes
  of the elements in order, followed by one zeroed element when a terminator was asked for
  and by nothing otherwise, it denotes the container's elements, and it is valid and owned
  in the new heap.\<close>

theorem to_primitive_c_array_block:
  assumes al: "sound_allocator al" and E: "prim_ok E" and xs: "container_ok E xs"
    and conv: "to_primitive_c_array al E h (Some xs) t = Ok (a, h')"
    and nn: "m_block a \<noteq> Null"
  shows "unat (m_length a) = length xs \<and> contents h' (m_block a) = block_image E xs t \<and>
         carray_elems E h' a = xs \<and> carray_ok E h' a \<and> carray_owned h' a"
  using al E xs conv
proof (cases rule: to_primitive_c_array_Ok_cases)
  case empty
  with nn show ?thesis by simp
next
  case (block b fill)
  then show ?thesis
    by (simp add: unat_container_size [OF E xs] carray_elems_block_image [OF E xs]
        carray_ok_def carray_owned_def block_image_covers [OF E])
qed

theorem to_primitive_c_array_block_witness:
  "unat (2 :: nuint) = length ''ab'' \<and>
   contents (empty_heap(0 \<mapsto> [97, 98, 0])) (Ptr 0 0) = block_image prim_char ''ab'' True \<and>
   carray_elems prim_char (empty_heap(0 \<mapsto> [97, 98, 0])) \<lparr>m_block = Ptr 0 0, m_length = 2\<rparr> = ''ab''"
  using to_primitive_c_array_block [of "first_fit [0, 1] 170" prim_char "''ab''" empty_heap True
      "\<lparr>m_block = Ptr 0 0, m_length = 2\<rparr>" "empty_heap(0 \<mapsto> [97, 98, 0])"]
    to_primitive_c_array_succeeds [of "first_fit [0, 1] 170" prim_char "''ab''" True empty_heap 0
      "[170, 170, 170]"]
  by (simp add: cni_eval)

text \<open>C6 (error): when the allocator refuses the request, \<open>to_primitive_c_array\<close> returns
  the empty array and the heap is unchanged: no fault, no exception and no partly written
  block.\<close>

theorem to_primitive_c_array_alloc_failure:
  "al h (alloc_bytes E xs t) = None \<Longrightarrow>
   to_primitive_c_array al E h (Some xs) t = Ok (empty_CArray, h)"
  by (simp add: to_primitive_c_array_fails)

theorem to_primitive_c_array_alloc_failure_witness:
  "to_primitive_c_array never_alloc prim_char (empty_heap(0 \<mapsto> [1])) (Some ''ab'') True
     = Ok (empty_CArray, empty_heap(0 \<mapsto> [1]))"
  using to_primitive_c_array_alloc_failure [of never_alloc "empty_heap(0 \<mapsto> [1])" prim_char "''ab''" True]
  by simp

text \<open>C3 (safety): on a null pointer or a well-formed container, with a sound allocator,
  \<open>to_primitive_c_array\<close> never ends in a fault: every \<^verbatim>\<open>memcpy\<close> and \<^verbatim>\<open>memset\<close> it performs
  stays inside the block it allocated.\<close>

theorem to_primitive_c_array_no_fault:
  assumes "sound_allocator al" and "prim_ok E"
    and "case c of None \<Rightarrow> True | Some xs \<Rightarrow> container_ok E xs"
  shows "is_ok (to_primitive_c_array al E h c t)"
proof (cases c)
  case None
  then show ?thesis by (simp add: to_primitive_c_array_def)
next
  case (Some xs)
  with assms have "container_ok E xs" by simp
  with assms(1,2) Some show ?thesis
  proof (cases "alloc_bytes E xs t = 0 \<or> al h (alloc_bytes E xs t) = None")
    case True
    with Some show ?thesis by (simp add: to_primitive_c_array_fails)
  next
    case False
    then obtain b fill where "al h (alloc_bytes E xs t) = Some (b, fill)"
      by auto
    with False Some assms(1,2) \<open>container_ok E xs\<close> show ?thesis
      by (simp add: to_primitive_c_array_succeeds)
  qed
qed

theorem to_primitive_c_array_no_fault_witness:
  "is_ok (to_primitive_c_array (first_fit [0, 1] 170) prim_char empty_heap (Some ''ab'') True)"
  using to_primitive_c_array_no_fault [of "first_fit [0, 1] 170" prim_char "Some ''ab''" empty_heap True]
  by (simp add: cni_eval)

text \<open>C7 (invariant): an array produced with \<^verbatim>\<open>add_terminator = true\<close> has one zero-valued
  element right after its last element, its length is the container's size without the
  terminator, and its block has room for exactly the elements and the terminator.\<close>

theorem to_primitive_c_array_terminated:
  assumes al: "sound_allocator al" and E: "prim_ok E" and xs: "container_ok E xs"
    and conv: "to_primitive_c_array al E h (Some xs) True = Ok (a, h')"
    and nn: "m_block a \<noteq> Null"
  shows "carray_terminated E h' a \<and> unat (m_length a) = length xs \<and>
         length (contents h' (m_block a)) = (length xs + 1) * size_of E"
  using al E xs conv
proof (cases rule: to_primitive_c_array_Ok_cases)
  case empty
  with nn show ?thesis by simp
next
  case (block b fill)
  then show ?thesis
    using length_to_data [OF E, of xs]
    by (simp add: carray_terminated_def unat_container_size [OF E xs] block_image_def)
qed

theorem to_primitive_c_array_terminated_witness:
  "carray_terminated prim_char (empty_heap(0 \<mapsto> [97, 98, 0])) \<lparr>m_block = Ptr 0 0, m_length = 2\<rparr> \<and>
   length (contents (empty_heap(0 \<mapsto> [97, 98, 0])) (Ptr 0 0)) = (length ''ab'' + 1) * size_of prim_char"
  using to_primitive_c_array_terminated [of "first_fit [0, 1] 170" prim_char "''ab''" empty_heap
      "\<lparr>m_block = Ptr 0 0, m_length = 2\<rparr>" "empty_heap(0 \<mapsto> [97, 98, 0])"]
    to_primitive_c_array_succeeds [of "first_fit [0, 1] 170" prim_char "''ab''" True empty_heap 0
      "[170, 170, 170]"]
  by (simp add: cni_eval)

text \<open>C25 (safety): the conversion does not disturb what is already on the heap: every block
  that was live keeps its contents, the heap is unchanged when the null block is returned,
  a returned non-null block was not live before and is live after, and a heap whose block
  sizes fit \<^verbatim>\<open>size_t\<close> stays so.\<close>

theorem to_primitive_c_array_frame:
  assumes al: "sound_allocator al" and E: "prim_ok E" and xs: "container_ok E xs"
    and conv: "to_primitive_c_array al E h (Some xs) t = Ok (a, h')"
  shows "(\<forall>b bs. h b = Some bs \<longrightarrow> h' b = Some bs) \<and>
         (if m_block a = Null then h' = h else \<not> live h (m_block a) \<and> live h' (m_block a)) \<and>
         (heap_ok h \<longrightarrow> heap_ok h')"
  using al E xs conv
proof (cases rule: to_primitive_c_array_Ok_cases)
  case empty
  then show ?thesis by simp
next
  case (block b fill)
  from sound_allocatorD [OF al block(2)] have free: "h b = None" ..
  have "length (block_image E xs t) < 2 ^ 64"
    using unat_alloc_bytes [OF E xs, of t] unat_nuint_lt [of "alloc_bytes E xs t"] by simp
  with block free show ?thesis
    by (auto simp: heap_ok_def)
qed

theorem to_primitive_c_array_frame_witness:
  "\<not> live (empty_heap(0 \<mapsto> [1])) (Ptr 1 0) \<and>
   live (empty_heap(0 \<mapsto> [1], 1 \<mapsto> [7, 0, 0, 0])) (Ptr 1 0) \<and>
   heap_ok (empty_heap(0 \<mapsto> [1], 1 \<mapsto> [7, 0, 0, 0]))"
  using to_primitive_c_array_frame [of "first_fit [0, 1] 170" "prim_word :: 32 word prim" "[7]"
      "empty_heap(0 \<mapsto> [1])" False "\<lparr>m_block = Ptr 1 0, m_length = 1\<rparr>"
      "empty_heap(0 \<mapsto> [1], 1 \<mapsto> [7, 0, 0, 0])"]
    to_primitive_c_array_succeeds [of "first_fit [0, 1] 170" "prim_word :: 32 word prim" "[7]" False
      "empty_heap(0 \<mapsto> [1])" 1 "[170, 170, 170, 170]"]
  by (simp add: cni_eval prim_ok_word)

text \<open>C28 (bounds): for a well-formed container the byte counts the conversion computes in
  \<^verbatim>\<open>size_t\<close> do not wrap: the request to the allocator is the size of the elements plus,
  with a terminator, one element more, and the count given to \<^verbatim>\<open>memcpy\<close> is the size of the
  elements.\<close>

theorem alloc_bytes_exact:
  assumes "prim_ok E" and "container_ok E xs"
  shows "unat (alloc_bytes E xs t) = (length xs + (if t then 1 else 0)) * size_of E \<and>
         unat (sizeof E * container_size xs) = length xs * size_of E \<and>
         (length xs + 1) * size_of E < 2 ^ 64"
proof -
  have "(length xs + 1) * size_of E < 2 ^ 63 + 2 ^ 63"
    using container_ok_bytes [OF assms] prim_okD(2) [OF assms(1)]
    by (simp add: add_mult_distrib add_strict_mono)
  then show ?thesis
    by (simp add: unat_alloc_bytes [OF assms] length_block_image [OF assms(1)]
        unat_data_bytes [OF assms])
qed

theorem alloc_bytes_exact_witness:
  "unat (alloc_bytes (prim_word :: 32 word prim) [1, 2, 3] True) = 16"
  using alloc_bytes_exact [of "prim_word :: 32 word prim" "[1, 2, 3]" True]
  by (simp add: prim_ok_word cni_eval)

text \<open>C8 (functional): on a valid non-empty array whose result can be allocated,
  \<open>to_std_container\<close> returns the elements the array denotes: \<open>m_length\<close> elements decoded
  from the first \<open>m_length * sizeof(T)\<close> bytes of the block, and nothing of what follows
  them (a terminator is never copied).\<close>

theorem to_std_container_elems:
  assumes E: "prim_ok E" and ok: "carray_ok E h a" and nz: "m_length a \<noteq> 0"
    and n: "unat (m_length a) \<le> max_size E"
    and mem: "al h (of_nat (unat (m_length a) * size_of E)) \<noteq> None"
  shows "to_std_container al E h (Some a) = Ok (carray_elems E h a) \<and>
         length (carray_elems E h a) = unat (m_length a)"
proof -
  from carray_ok_nonempty [OF E ok nz] obtain b off bs where "m_block a = Ptr b off"
    and "h b = Some bs" and "off + unat (m_length a) * size_of E \<le> length bs"
    by blast
  with E nz n mem have "to_std_container al E h (Some a) = Ok (carray_elems E h a)"
    by (intro to_std_container_reads)
  with E ok show ?thesis
    by (simp add: length_carray_elems)
qed

theorem to_std_container_elems_witness:
  "to_std_container (first_fit [1] 170) prim_char (empty_heap(0 \<mapsto> [104, 105, 0, 33]))
     (Some \<lparr>m_block = Ptr 0 0, m_length = 2\<rparr>) = Ok ''hi''"
  using to_std_container_elems [of prim_char "empty_heap(0 \<mapsto> [104, 105, 0, 33])"
      "\<lparr>m_block = Ptr 0 0, m_length = 2\<rparr>" "first_fit [1] 170"]
  by (simp add: cni_eval carray_ok_def carray_elems_def carray_bytes_def char_of_eq_iff)

text \<open>C12 (error): \<open>to_std_container\<close> lets the exceptions of \<^verbatim>\<open>resize\<close> escape: on a non-empty
  array it ends in \<^verbatim>\<open>std::length_error\<close> when the length exceeds the container's maximal
  size, and in \<^verbatim>\<open>std::bad_alloc\<close> when the allocator refuses the storage.\<close>

theorem to_std_container_throws:
  assumes "m_block a \<noteq> Null" and "m_length a \<noteq> 0"
    and "max_size E < unat (m_length a) \<or> al h (of_nat (unat (m_length a) * size_of E)) = None"
  shows "to_std_container al E h (Some a) =
           Fault (if max_size E < unat (m_length a) then LengthError else BadAlloc)"
  using assms by (auto simp: to_std_container_def std_resize_def)

theorem to_std_container_throws_witness:
  "to_std_container never_alloc prim_char (empty_heap(0 \<mapsto> [104, 105, 0]))
     (Some \<lparr>m_block = Ptr 0 0, m_length = 2\<rparr>) = Fault BadAlloc"
  using to_std_container_throws [of "\<lparr>m_block = Ptr 0 0, m_length = 2\<rparr>" prim_char never_alloc
      "empty_heap(0 \<mapsto> [104, 105, 0])"]
  by (simp add: cni_eval)

text \<open>C29 (error): \<open>to_std_container\<close> trusts the array it is given: when the block is not
  live, or shorter than \<open>m_length\<close> elements, the \<^verbatim>\<open>memcpy\<close> reads memory that is not the
  array's (undefined behaviour; in the model the fault \<open>Dangling\<close> or \<open>OutOfBounds\<close>).\<close>

theorem to_std_container_trusts_array:
  assumes E: "prim_ok E" and p: "m_block a = Ptr b off" and nz: "m_length a \<noteq> 0"
    and n: "unat (m_length a) \<le> max_size E"
    and mem: "al h (of_nat (unat (m_length a) * size_of E)) \<noteq> None"
    and bad: "\<not> carray_ok E h a"
  shows "to_std_container al E h (Some a) =
           Fault (if h b = None then Dangling else OutOfBounds)"
proof -
  let ?n = "unat (m_length a) * size_of E"
  have r: "std_resize al E h (m_length a) = Ok (replicate (unat (m_length a)) (zero_value E))"
    using n mem by (simp add: std_resize_Ok)
  have c: "unat (m_length a * sizeof E) = ?n"
    by (rule unat_carray_bytes [OF E n])
  have "load h (Ptr b off) ?n = Fault (if h b = None then Dangling else OutOfBounds)"
  proof (cases "h b")
    case None
    then show ?thesis by simp
  next
    case (Some bs)
    with bad p have "\<not> off + ?n \<le> length bs"
      by (auto simp: carray_ok_def)
    with Some show ?thesis by simp
  qed
  with p nz r c show ?thesis
    by (simp add: to_std_container_def memcpy_from_def length_to_data [OF E])
qed

theorem to_std_container_trusts_array_witness:
  "to_std_container (first_fit [1] 170) prim_char (empty_heap(0 \<mapsto> [104, 105]))
     (Some \<lparr>m_block = Ptr 0 0, m_length = 3\<rparr>) = Fault OutOfBounds \<and>
   to_std_container (first_fit [1] 170) prim_char empty_heap
     (Some \<lparr>m_block = Ptr 0 0, m_length = 3\<rparr>) = Fault Dangling"
  using to_std_container_trusts_array [of prim_char "\<lparr>m_block = Ptr 0 0, m_length = 3\<rparr>" 0 0
      "first_fit [1] 170" "empty_heap(0 \<mapsto> [104, 105])"]
    to_std_container_trusts_array [of prim_char "\<lparr>m_block = Ptr 0 0, m_length = 3\<rparr>" 0 0
      "first_fit [1] 170" empty_heap]
  by (simp add: cni_eval carray_ok_def)

text \<open>C31 (roundtrip): \<open>ToCppString\<close> undoes \<open>ToCNIString\<close>: a string converted to a
  zero-terminated array and back is the same string, and the array in between carries
  its terminator, which is not part of the string that comes back.\<close>

theorem string_roundtrip:
  assumes al: "sound_allocator al" and len: "length str < 2 ^ 63"
    and conv: "ToCNIString al h str = Ok (a, h')" and nn: "m_block a \<noteq> Null"
    and mem: "str = [] \<or> al h' (of_nat (length str)) \<noteq> None"
  shows "ToCppString al h' a = Ok str \<and> carray_terminated prim_char h' a"
proof -
  from len have ok: "container_ok prim_char str"
    by (simp add: container_ok_def max_size_def)
  from conv have "to_primitive_c_array al prim_char h (Some str) True = Ok (a, h')"
    by (simp add: ToCNIString_def)
  with al prim_ok_char ok show ?thesis
  proof (cases rule: to_primitive_c_array_Ok_cases)
    case empty
    with nn show ?thesis by simp
  next
    case (block b fill)
    with ok mem have "ToCppString al h' a = Ok str"
      by (simp add: ToCppString_def to_std_container_block_image)
    moreover have "carray_terminated prim_char h' a"
      using block length_to_data [OF prim_ok_char, of str]
      by (simp add: carray_terminated_def unat_container_size [OF prim_ok_char ok] block_image_def)
    ultimately show ?thesis by simp
  qed
qed

theorem string_roundtrip_witness:
  "ToCNIString (first_fit [0, 1] 170) empty_heap ''ab''
     = Ok (\<lparr>m_block = Ptr 0 0, m_length = 2\<rparr>, empty_heap(0 \<mapsto> [97, 98, 0])) \<and>
   ToCppString (first_fit [0, 1] 170) (empty_heap(0 \<mapsto> [97, 98, 0])) \<lparr>m_block = Ptr 0 0, m_length = 2\<rparr>
     = Ok ''ab''"
  using string_roundtrip [of "first_fit [0, 1] 170" "''ab''" empty_heap
      "\<lparr>m_block = Ptr 0 0, m_length = 2\<rparr>" "empty_heap(0 \<mapsto> [97, 98, 0])"]
    to_primitive_c_array_succeeds [of "first_fit [0, 1] 170" prim_char "''ab''" True empty_heap 0
      "[170, 170, 170]"]
  by (simp add: cni_eval ToCNIString_def)

text \<open>C32 (safety): null and empty inputs are safe and give empty results: a null container
  pointer and an empty container (without terminator) give the empty array without a call
  of \<^verbatim>\<open>operator new\<close>, and a null array pointer, an array with a null block and an array of
  length zero give the empty container without touching the block.\<close>

theorem null_and_empty_safety:
  "to_primitive_c_array al E h None t = Ok (empty_CArray, h) \<and>
   ToCArray al E h [] = Ok (empty_CArray, h) \<and>
   to_std_container al E h None = Ok [] \<and>
   to_std_container al E h (Some \<lparr>m_block = Null, m_length = n\<rparr>) = Ok [] \<and>
   to_std_container al E h (Some \<lparr>m_block = p, m_length = 0\<rparr>) = Ok [] \<and>
   to_std_container al E h (Some empty_CArray) = Ok []"
  by (simp add: ToCArray_def to_primitive_c_array_fails alloc_bytes_def container_size_def)

text \<open>C33 (functional): the empty string converted by \<open>ToCNIString\<close> is not the empty array:
  one element is allocated for the terminator, so the result has a non-null block holding a
  single zero and length zero.\<close>

theorem ToCNIString_empty_string:
  assumes "sound_allocator al" and "al h 1 = Some (b, fill)"
  shows "ToCNIString al h [] = Ok (\<lparr>m_block = Ptr b 0, m_length = 0\<rparr>, h(b \<mapsto> [0]))"
  using to_primitive_c_array_succeeds [of al prim_char "[]" True h b fill] assms
  by (simp add: ToCNIString_def cni_eval)

theorem ToCNIString_empty_string_witness:
  "ToCNIString (first_fit [0] 170) empty_heap [] = Ok (\<lparr>m_block = Ptr 0 0, m_length = 0\<rparr>, empty_heap(0 \<mapsto> [0]))"
  using ToCNIString_empty_string [of "first_fit [0] 170" empty_heap 0 "[170]"]
  by (simp add: cni_eval)

text \<open>C34 (error): when the allocator refuses the block, the round trip does not give the
  container back: the conversion returns the empty array, exactly as for a null or empty
  container, and converting that back gives the empty container, with no sign that the
  elements were lost.\<close>

theorem roundtrip_lost_on_alloc_failure:
  assumes "al h (alloc_bytes E xs t) = None"
  shows "to_primitive_c_array al E h (Some xs) t = to_primitive_c_array al E h None t \<and>
         rbind (to_primitive_c_array al E h (Some xs) t)
           (\<lambda>(a, h'). to_std_container al E h' (Some a)) = Ok []"
  using assms by (simp add: to_primitive_c_array_fails)

theorem roundtrip_lost_on_alloc_failure_witness:
  "rbind (to_primitive_c_array never_alloc prim_char empty_heap (Some ''ab'') True)
     (\<lambda>(a, h'). to_std_container never_alloc prim_char h' (Some a)) = Ok []"
  using roundtrip_lost_on_alloc_failure [of never_alloc empty_heap prim_char "''ab''" True]
  by simp

end
