(* ===== verification/CNI_Lifecycle.thy ===== *)
theory CNI_Lifecycle
  imports CNI_Convert
begin

text \<open>
  The life of arrays across the boundary.  The side that receives arrays holds a list of
  them; it obtains an array by \<open>ToCArray\<close> or \<open>ToCNIString\<close>, may read a string back by
  \<open>ToCppString\<close>, and gives an array up by \<open>Free\<close> on its block.  A \<open>session\<close> is the heap
  with the arrays held, \<open>step\<close> the relation of one such call that returns, labelled by
  the call, and \<open>run\<close> the sequences of calls from a heap \<open>h0\<close> with nothing held,
  with the session each leads to.  \<open>session_inv\<close> is what the calls maintain; \<open>ledger\<close> is the
  abstract view of a session, the list of values the held arrays stand for, and
  \<open>ledger_step\<close> and \<open>ledger_run\<close> the contract of the calls on that view.
\<close>

datatype held = HeldVector CArray | HeldString CArray

datatype 'a event =
    ExportVector "'a list"
  | ExportString string
  | ImportString nat string
  | Release nat

datatype 'a item = VectorItem "'a list" | StringItem string

record session =
  heap_of :: heap
  held :: "held list"

fun array_of :: "held \<Rightarrow> CArray" where
  "array_of (HeldVector a) = a"
| "array_of (HeldString a) = a"

definition init_session :: "heap \<Rightarrow> session" where
  "init_session h0 = \<lparr>heap_of = h0, held = []\<rparr>"

definition drop_nth :: "nat \<Rightarrow> 'b list \<Rightarrow> 'b list" where
  "drop_nth i xs = take i xs @ drop (Suc i) xs"

inductive step :: "allocator \<Rightarrow> 'a prim \<Rightarrow> session \<Rightarrow> 'a event \<Rightarrow> session \<Rightarrow> bool"
  for al :: allocator and E :: "'a prim" where
  export_vector:
    "container_ok E xs \<Longrightarrow> ToCArray al E (heap_of s) xs = Ok (a, h') \<Longrightarrow>
     step al E s (ExportVector xs) \<lparr>heap_of = h', held = held s @ [HeldVector a]\<rparr>"
| export_string:
    "container_ok prim_char str \<Longrightarrow> ToCNIString al (heap_of s) str = Ok (a, h') \<Longrightarrow>
     step al E s (ExportString str) \<lparr>heap_of = h', held = held s @ [HeldString a]\<rparr>"
| import_string:
    "i < length (held s) \<Longrightarrow> held s ! i = HeldString a \<Longrightarrow>
     ToCppString al (heap_of s) a = Ok str \<Longrightarrow>
     step al E s (ImportString i str) s"
| release:
    "i < length (held s) \<Longrightarrow> Free (heap_of s) (m_block (array_of (held s ! i))) = Ok h' \<Longrightarrow>
     step al E s (Release i) \<lparr>heap_of = h', held = drop_nth i (held s)\<rparr>"

code_pred step .

inductive run :: "allocator \<Rightarrow> 'a prim \<Rightarrow> heap \<Rightarrow> 'a event list \<Rightarrow> session \<Rightarrow> bool"
  for al :: allocator and E :: "'a prim" and h0 :: heap where
  start: "run al E h0 [] (init_session h0)"
| after: "run al E h0 evs s \<Longrightarrow> step al E s ev s' \<Longrightarrow> run al E h0 (evs @ [ev]) s'"

fun release_all :: "heap \<Rightarrow> held list \<Rightarrow> heap result" where
  "release_all h [] = Ok h"
| "release_all h (x # xs) = rbind (Free h (m_block (array_of x))) (\<lambda>h'. release_all h' xs)"

section \<open>The invariant of a session\<close>

definition holds :: "held \<Rightarrow> blk list" where
  "holds x = (case m_block (array_of x) of Null \<Rightarrow> [] | Ptr b off \<Rightarrow> [b])"

definition blocks_of :: "held list \<Rightarrow> blk list" where
  "blocks_of hs = concat (map holds hs)"

definition held_ok :: "'a prim \<Rightarrow> heap \<Rightarrow> held \<Rightarrow> bool" where
  "held_ok E h x =
     (case x of
        HeldVector a \<Rightarrow> carray_ok E h a \<and> carray_owned h a
      | HeldString a \<Rightarrow> carray_ok prim_char h a \<and> carray_owned h a \<and>
          (m_block a \<noteq> Null \<longrightarrow> carray_terminated prim_char h a))"

definition drop_blocks :: "blk list \<Rightarrow> heap \<Rightarrow> heap" where
  "drop_blocks bs h = (\<lambda>b. if b \<in> set bs then None else h b)"

definition session_inv :: "'a prim \<Rightarrow> heap \<Rightarrow> session \<Rightarrow> bool" where
  "session_inv E h0 s \<longleftrightarrow>
     heap_ok (heap_of s) \<and> list_all (held_ok E (heap_of s)) (held s) \<and>
     distinct (blocks_of (held s)) \<and> drop_blocks (blocks_of (held s)) (heap_of s) = h0"

section \<open>The abstract view\<close>

definition item_of :: "'a prim \<Rightarrow> heap \<Rightarrow> held \<Rightarrow> 'a item" where
  "item_of E h x =
     (case x of
        HeldVector a \<Rightarrow> VectorItem (carray_elems E h a)
      | HeldString a \<Rightarrow> StringItem (carray_elems prim_char h a))"

definition ledger :: "'a prim \<Rightarrow> session \<Rightarrow> 'a item list" where
  "ledger E s = map (item_of E (heap_of s)) (held s)"

inductive ledger_step :: "'a item list \<Rightarrow> 'a event \<Rightarrow> 'a item list \<Rightarrow> bool" where
  put_vector: "ledger_step l (ExportVector xs) (l @ [VectorItem xs])"
| lose_vector: "ledger_step l (ExportVector xs) (l @ [VectorItem []])"
| put_string: "ledger_step l (ExportString str) (l @ [StringItem str])"
| lose_string: "ledger_step l (ExportString str) (l @ [StringItem []])"
| get_string: "i < length l \<Longrightarrow> l ! i = StringItem str \<Longrightarrow> ledger_step l (ImportString i str) l"
| remove: "i < length l \<Longrightarrow> ledger_step l (Release i) (drop_nth i l)"

code_pred ledger_step .

inductive ledger_run :: "'a event list \<Rightarrow> 'a item list \<Rightarrow> bool" where
  nothing: "ledger_run [] []"
| more: "ledger_run evs l \<Longrightarrow> ledger_step l ev l' \<Longrightarrow> ledger_run (evs @ [ev]) l'"

inductive_cases step_ExportVectorE: "step al E s (ExportVector xs) s'"
inductive_cases step_ExportStringE: "step al E s (ExportString str) s'"
inductive_cases step_ImportStringE: "step al E s (ImportString i str) s'"
inductive_cases step_ReleaseE: "step al E s (Release i) s'"

lemmas lifecycle_eval [cni_eval] =
  init_session_def drop_nth_def holds_def blocks_of_def held_ok_def session_inv_def drop_blocks_def
  item_of_def ledger_def

section \<open>Blocks held\<close>

lemma blocks_of_simps [simp]:
  "blocks_of [] = []"
  "blocks_of (x # xs) = holds x @ blocks_of xs"
  "blocks_of (xs @ ys) = blocks_of xs @ blocks_of ys"
  by (simp_all add: blocks_of_def)

lemma holds_cases:
  obtains (null) "m_block (array_of x) = Null" and "holds x = []"
    | (block) b off where "m_block (array_of x) = Ptr b off" and "holds x = [b]"
  by (cases "m_block (array_of x)") (simp_all add: holds_def)

lemma drop_nth_simps [simp]:
  "drop_nth 0 (x # xs) = xs"
  "drop_nth (Suc i) (x # xs) = x # drop_nth i xs"
  "drop_nth i [] = []"
  by (simp_all add: drop_nth_def)

lemma length_drop_nth: "i < length xs \<Longrightarrow> length (drop_nth i xs) = length xs - 1"
  by (simp add: drop_nth_def)

lemma map_drop_nth: "map f (drop_nth i xs) = drop_nth i (map f xs)"
  by (simp add: drop_nth_def take_map drop_map)

lemma blocks_of_split:
  assumes "i < length hs"
  shows "blocks_of hs = blocks_of (take i hs) @ holds (hs ! i) @ blocks_of (drop (Suc i) hs)"
proof -
  have "blocks_of (take i hs @ hs ! i # drop (Suc i) hs) =
      blocks_of (take i hs) @ holds (hs ! i) @ blocks_of (drop (Suc i) hs)"
    by simp
  with id_take_nth_drop [OF assms, symmetric] show ?thesis
    by simp
qed

lemma blocks_of_drop_nth:
  "blocks_of (drop_nth i hs) = blocks_of (take i hs) @ blocks_of (drop (Suc i) hs)"
  by (simp add: drop_nth_def)

lemma distinct_blocks_of_drop_nth:
  "distinct (blocks_of hs) \<Longrightarrow> distinct (blocks_of (drop_nth i hs))"
proof (cases "i < length hs")
  case True
  assume "distinct (blocks_of hs)"
  with blocks_of_split [OF True] show ?thesis
    by (auto simp: blocks_of_drop_nth)
next
  case False
  assume "distinct (blocks_of hs)"
  with False show ?thesis
    by (simp add: drop_nth_def)
qed

section \<open>Arrays held and the heap\<close>

lemma held_ok_owned:
  "held_ok E h x \<Longrightarrow> b \<in> set (holds x) \<Longrightarrow> m_block (array_of x) = Ptr b 0 \<and> h b \<noteq> None"
  by (cases x; cases "m_block (array_of x)")
    (auto simp: held_ok_def holds_def carray_owned_def)

lemma held_ok_cong:
  "(\<And>b. b \<in> set (holds x) \<Longrightarrow> h' b = h b) \<Longrightarrow> held_ok E h' x = held_ok E h x"
  by (cases x; cases "m_block (array_of x)")
    (simp_all add: held_ok_def holds_def carray_ok_def carray_owned_def carray_terminated_def
      contents_def)

lemma item_of_cong:
  "(\<And>b. b \<in> set (holds x) \<Longrightarrow> h' b = h b) \<Longrightarrow> item_of E h' x = item_of E h x"
  by (cases x; cases "m_block (array_of x)")
    (simp_all add: item_of_def holds_def carray_elems_def carray_bytes_def contents_def)

lemma list_all_held_ok_cong:
  "(\<And>b. b \<in> set (blocks_of hs) \<Longrightarrow> h' b = h b) \<Longrightarrow>
   list_all (held_ok E h') hs = list_all (held_ok E h) hs"
proof (induction hs)
  case Nil
  show ?case by simp
next
  case (Cons x hs)
  then show ?case
    using held_ok_cong [of x h' h E] by simp
qed

lemma map_item_of_cong:
  "(\<And>b. b \<in> set (blocks_of hs) \<Longrightarrow> h' b = h b) \<Longrightarrow>
   map (item_of E h') hs = map (item_of E h) hs"
proof (induction hs)
  case Nil
  show ?case by simp
next
  case (Cons x hs)
  then show ?case
    using item_of_cong [of x h' h E] by simp
qed

lemma blocks_live:
  "list_all (held_ok E h) hs \<Longrightarrow> b \<in> set (blocks_of hs) \<Longrightarrow> h b \<noteq> None"
  by (induction hs) (auto dest: held_ok_owned)

section \<open>The invariant is kept\<close>

lemma drop_blocks_Nil [simp]: "drop_blocks [] h = h"
  by (simp add: drop_blocks_def)

lemma drop_blocks_Cons: "drop_blocks (b # bs) h = drop_blocks bs (h(b := None))"
  by (auto simp: drop_blocks_def fun_eq_iff)

lemma drop_blocks_fresh:
  "h b = None \<Longrightarrow> drop_blocks (bs @ [b]) (h(b \<mapsto> v)) = drop_blocks bs h"
  by (auto simp: drop_blocks_def fun_eq_iff)

lemma drop_blocks_delete:
  "set bs = insert b (set bs') \<Longrightarrow> drop_blocks bs' (h(b := None)) = drop_blocks bs h"
  by (auto simp: drop_blocks_def fun_eq_iff)

lemma drop_blocks_set: "set bs = set bs' \<Longrightarrow> drop_blocks bs h = drop_blocks bs' h"
  by (simp add: drop_blocks_def)

lemma list_all_drop_nth: "list_all P xs \<Longrightarrow> list_all P (drop_nth i xs)"
  by (auto simp: drop_nth_def list_all_iff dest: in_set_takeD in_set_dropD)

lemma session_inv_init: "heap_ok h0 \<Longrightarrow> session_inv E h0 (init_session h0)"
  by (simp add: session_inv_def init_session_def)

lemma session_inv_push_null:
  "session_inv E h0 s \<Longrightarrow> m_block (array_of x) = Null \<Longrightarrow> held_ok E (heap_of s) x \<Longrightarrow>
   session_inv E h0 \<lparr>heap_of = heap_of s, held = held s @ [x]\<rparr>"
  by (simp add: session_inv_def holds_def)

lemma session_inv_push:
  assumes inv: "session_inv E h0 s" and fresh: "heap_of s b = None" and len: "length bs < 2 ^ 64"
    and x: "m_block (array_of x) = Ptr b 0" and ok: "held_ok E ((heap_of s)(b \<mapsto> bs)) x"
  shows "session_inv E h0 \<lparr>heap_of = (heap_of s)(b \<mapsto> bs), held = held s @ [x]\<rparr>"
proof -
  let ?h = "heap_of s" and ?hs = "held s"
  from inv have all: "list_all (held_ok E ?h) ?hs"
    by (simp add: session_inv_def)
  with fresh have nb: "b \<notin> set (blocks_of ?hs)"
    by (auto dest: blocks_live)
  then have "list_all (held_ok E (?h(b \<mapsto> bs))) ?hs = list_all (held_ok E ?h) ?hs"
    by (intro list_all_held_ok_cong) auto
  moreover have "heap_ok (?h(b \<mapsto> bs))"
    using inv len by (simp add: session_inv_def heap_ok_upd)
  moreover have "drop_blocks (blocks_of ?hs @ [b]) (?h(b \<mapsto> bs)) = h0"
    using inv fresh by (simp add: session_inv_def drop_blocks_fresh)
  ultimately show ?thesis
    using inv all nb x ok by (simp add: session_inv_def holds_def)
qed

lemma release_cases:
  assumes inv: "session_inv E h0 s" and i: "i < length (held s)"
    and free: "Free (heap_of s) (m_block (array_of (held s ! i))) = Ok h'"
  obtains (null) "h' = heap_of s" and "blocks_of (drop_nth i (held s)) = blocks_of (held s)"
    | (block) b where "h' = (heap_of s)(b := None)"
      and "b \<notin> set (blocks_of (drop_nth i (held s)))"
      and "set (blocks_of (held s)) = insert b (set (blocks_of (drop_nth i (held s))))"
proof (cases rule: holds_cases [of "held s ! i"])
  case null
  with free blocks_of_split [OF i] show ?thesis
    by (intro that(1)) (simp_all add: blocks_of_drop_nth)
next
  case (block b off)
  with free have "h' = (heap_of s)(b := None)"
    by (auto simp: Free_Ok_iff)
  moreover from inv block blocks_of_split [OF i]
  have "b \<notin> set (blocks_of (drop_nth i (held s)))"
    and "set (blocks_of (held s)) = insert b (set (blocks_of (drop_nth i (held s))))"
    by (auto simp: session_inv_def blocks_of_drop_nth)
  ultimately show ?thesis
    by (rule that(2))
qed

lemma session_inv_release:
  assumes inv: "session_inv E h0 s" and i: "i < length (held s)"
    and free: "Free (heap_of s) (m_block (array_of (held s ! i))) = Ok h'"
  shows "session_inv E h0 \<lparr>heap_of = h', held = drop_nth i (held s)\<rparr>"
  using inv i free
proof (cases rule: release_cases)
  case null
  with inv show ?thesis
    by (simp add: session_inv_def list_all_drop_nth)
next
  case (block b)
  let ?h = "heap_of s" and ?rest = "blocks_of (drop_nth i (held s))"
  from block(2) have "list_all (held_ok E (?h(b := None))) (drop_nth i (held s))
      = list_all (held_ok E ?h) (drop_nth i (held s))"
    by (intro list_all_held_ok_cong) auto
  moreover have "drop_blocks ?rest (?h(b := None)) = h0"
    using inv drop_blocks_delete [OF block(3), of ?h] by (simp add: session_inv_def)
  ultimately show ?thesis
    using inv unfolding block(1)
    by (simp add: session_inv_def distinct_blocks_of_drop_nth list_all_drop_nth)
qed

lemma held_ok_vector_image:
  "prim_ok E \<Longrightarrow> container_ok E xs \<Longrightarrow>
   held_ok E (h(b \<mapsto> block_image E xs t)) (HeldVector \<lparr>m_block = Ptr b 0, m_length = container_size xs\<rparr>)"
  using carray_ok_block_image [of E xs h b t] by (simp add: held_ok_def carray_owned_def)

lemma held_ok_string_image:
  "container_ok prim_char str \<Longrightarrow>
   held_ok E (h(b \<mapsto> block_image prim_char str True))
     (HeldString \<lparr>m_block = Ptr b 0, m_length = container_size str\<rparr>)"
  using carray_ok_block_image [of prim_char str h b True]
    carray_terminated_block_image [of prim_char str h b]
  by (simp add: held_ok_def carray_owned_def)

lemma held_ok_empty [simp]:
  "held_ok E h (HeldVector empty_CArray)" "held_ok E h (HeldString empty_CArray)"
  by (simp_all add: held_ok_def)

lemma step_keeps_inv:
  assumes al: "sound_allocator al" and E: "prim_ok E" and inv: "session_inv E h0 s"
    and st: "step al E s ev s'"
  shows "session_inv E h0 s'"
  using st
proof cases
  case (export_vector xs a h')
  from al E export_vector(3) export_vector(4) [unfolded ToCArray_def] show ?thesis
  proof (cases rule: to_primitive_c_array_Ok_cases)
    case empty
    with inv export_vector(2) show ?thesis
      by (simp add: session_inv_push_null)
  next
    case (block b fill)
    from sound_allocatorD [OF al block(2)] E export_vector(3)
      block_image_fits [OF E export_vector(3), of False] show ?thesis
      unfolding export_vector(2) block(3,4)
      by (intro session_inv_push [OF inv]) (simp_all add: held_ok_vector_image)
  qed
next
  case (export_string str a h')
  from al prim_ok_char export_string(3) export_string(4) [unfolded ToCNIString_def] show ?thesis
  proof (cases rule: to_primitive_c_array_Ok_cases)
    case empty
    with inv export_string(2) show ?thesis
      by (simp add: session_inv_push_null)
  next
    case (block b fill)
    from sound_allocatorD [OF al block(2)] export_string(3)
      block_image_fits [OF prim_ok_char export_string(3), of True] show ?thesis
      unfolding export_string(2) block(3,4)
      by (intro session_inv_push [OF inv]) (simp_all add: held_ok_string_image)
  qed
next
  case (import_string i a str)
  with inv show ?thesis by simp
next
  case (release i h')
  with inv show ?thesis
    by (simp add: session_inv_release)
qed

section \<open>Releasing everything\<close>

lemma release_all_drop_blocks:
  "list_all (held_ok E h) hs \<Longrightarrow> distinct (blocks_of hs) \<Longrightarrow>
   release_all h hs = Ok (drop_blocks (blocks_of hs) h)"
proof (induction hs arbitrary: h)
  case Nil
  show ?case by simp
next
  case (Cons x hs)
  show ?case
  proof (cases rule: holds_cases [of x])
    case null
    with Cons show ?thesis by simp
  next
    case (block b off)
    with Cons.prems held_ok_owned [of E h x b] have p: "m_block (array_of x) = Ptr b 0"
      and live: "h b \<noteq> None" and nb: "b \<notin> set (blocks_of hs)"
      by auto
    from nb have "list_all (held_ok E (h(b := None))) hs = list_all (held_ok E h) hs"
      by (intro list_all_held_ok_cong) auto
    with Cons.prems have "list_all (held_ok E (h(b := None))) hs" and "distinct (blocks_of hs)"
      by simp_all
    then have "release_all (h(b := None)) hs = Ok (drop_blocks (blocks_of hs) (h(b := None)))"
      by (rule Cons.IH)
    moreover from live obtain bs where "h b = Some bs"
      by auto
    ultimately show ?thesis
      using p block by (simp add: drop_blocks_Cons)
  qed
qed

section \<open>The calls on the abstract view\<close>

lemma ledger_push:
  assumes inv: "session_inv E h0 s" and fresh: "heap_of s b = None"
  shows "ledger E \<lparr>heap_of = (heap_of s)(b \<mapsto> bs), held = held s @ [x]\<rparr>
           = ledger E s @ [item_of E ((heap_of s)(b \<mapsto> bs)) x]"
proof -
  from inv fresh have "b \<notin> set (blocks_of (held s))"
    by (auto simp: session_inv_def dest: blocks_live)
  then have "map (item_of E ((heap_of s)(b \<mapsto> bs))) (held s) = map (item_of E (heap_of s)) (held s)"
    by (intro map_item_of_cong) auto
  then show ?thesis
    by (simp add: ledger_def)
qed

lemma ledger_release:
  assumes inv: "session_inv E h0 s" and i: "i < length (held s)"
    and free: "Free (heap_of s) (m_block (array_of (held s ! i))) = Ok h'"
  shows "ledger E \<lparr>heap_of = h', held = drop_nth i (held s)\<rparr> = drop_nth i (ledger E s)"
  using inv i free
proof (cases rule: release_cases)
  case null
  then show ?thesis
    by (simp add: ledger_def map_drop_nth)
next
  case (block b)
  from block(2) have "map (item_of E ((heap_of s)(b := None))) (drop_nth i (held s))
      = map (item_of E (heap_of s)) (drop_nth i (held s))"
    by (intro map_item_of_cong) auto
  with block(1) show ?thesis
    by (simp add: ledger_def map_drop_nth)
qed

lemma import_string_reads:
  assumes "held_ok E h (HeldString a)" and "ToCppString al h a = Ok str"
  shows "str = carray_elems prim_char h a"
  using to_std_container_valid [OF prim_ok_char, of h a al] assms
  by (auto simp: held_ok_def ToCppString_def carray_elems_def carray_bytes_def split: if_splits)

lemma step_deterministic:
  "step al E s ev s' \<Longrightarrow> step al E s ev s'' \<Longrightarrow> s'' = s'"
  by (cases ev)
    (auto elim!: step_ExportVectorE step_ExportStringE step_ImportStringE step_ReleaseE)

lemma run_inv:
  assumes "sound_allocator al" and "prim_ok E" and "heap_ok h0"
  shows "run al E h0 evs s \<Longrightarrow> session_inv E h0 s"
  by (induction rule: run.induct) (auto intro: assms session_inv_init step_keeps_inv)

lemma step_ledger:
  assumes al: "sound_allocator al" and E: "prim_ok E" and inv: "session_inv E h0 s"
    and st: "step al E s ev s'"
  shows "ledger_step (ledger E s) ev (ledger E s')"
  using st
proof cases
  case (export_vector xs a h')
  from al E export_vector(3) export_vector(4) [unfolded ToCArray_def] show ?thesis
  proof (cases rule: to_primitive_c_array_Ok_cases)
    case empty
    with export_vector(1,2) ledger_step.lose_vector [of "ledger E s" xs] show ?thesis
      by (simp add: ledger_def item_of_def)
  next
    case (block b fill)
    with export_vector(1,2) sound_allocatorD [OF al block(2)] ledger_step.put_vector [of "ledger E s" xs]
    show ?thesis
      by (simp add: ledger_push [OF inv] item_of_def carray_elems_block_image [OF E export_vector(3)])
  qed
next
  case (export_string str a h')
  from al prim_ok_char export_string(3) export_string(4) [unfolded ToCNIString_def] show ?thesis
  proof (cases rule: to_primitive_c_array_Ok_cases)
    case empty
    with export_string(1,2) ledger_step.lose_string [of "ledger E s" str] show ?thesis
      by (simp add: ledger_def item_of_def)
  next
    case (block b fill)
    with export_string(1,2) sound_allocatorD [OF al block(2)] ledger_step.put_string [of "ledger E s" str]
    show ?thesis
      by (simp add: ledger_push [OF inv] item_of_def
          carray_elems_block_image [OF prim_ok_char export_string(3)])
  qed
next
  case (import_string i a str)
  with inv have "held_ok E (heap_of s) (HeldString a)"
    by (auto simp: session_inv_def list_all_length)
  with import_string import_string_reads [of E "heap_of s" a al str]
  have "ledger E s ! i = StringItem str"
    by (simp add: ledger_def item_of_def)
  with import_string show ?thesis
    by (simp add: ledger_step.get_string ledger_def)
next
  case (release i h')
  with ledger_step.remove [of i "ledger E s"] ledger_release [OF inv release(3,4)] show ?thesis
    by (simp add: ledger_def)
qed

lemma run_ledger:
  assumes "sound_allocator al" and "prim_ok E" and "heap_ok h0"
  shows "run al E h0 evs s \<Longrightarrow> ledger_run evs (ledger E s)"
proof (induction rule: run.induct)
  case start
  show ?case by (simp add: ledger_def init_session_def ledger_run.nothing)
next
  case (after evs s ev s')
  with assms show ?case
    by (auto intro: ledger_run.more step_ledger run_inv)
qed

lemma session_inv_dom:
  assumes "session_inv E h0 s"
  shows "dom (heap_of s) = dom h0 \<union> set (blocks_of (held s))"
    and "dom h0 \<inter> set (blocks_of (held s)) = {}"
    and "b \<in> dom h0 \<Longrightarrow> heap_of s b = h0 b"
proof -
  let ?B = "set (blocks_of (held s))"
  from assms have h0: "h0 = (\<lambda>b. if b \<in> ?B then None else heap_of s b)"
    and live: "\<And>b. b \<in> ?B \<Longrightarrow> heap_of s b \<noteq> None"
    by (auto simp: session_inv_def drop_blocks_def dest: blocks_live)
  show "dom (heap_of s) = dom h0 \<union> ?B"
    using live by (subst h0) (auto simp: dom_def)
  show "dom h0 \<inter> ?B = {}"
    by (subst h0) (auto simp: dom_def)
  show "b \<in> dom h0 \<Longrightarrow> heap_of s b = h0 b"
    by (subst (asm) h0, subst h0) (auto simp: dom_def split: if_splits)
qed

lemma session_inv_initial_heap: "session_inv E h0 s \<Longrightarrow> h0 \<subseteq>\<^sub>m heap_of s"
  by (simp add: map_le_def session_inv_dom(3))

lemma ledger_run_strings:
  "ledger_run evs l \<Longrightarrow>
   (StringItem str \<in> set l \<longrightarrow> str = [] \<or> ExportString str \<in> set evs) \<and>
   (ImportString i str \<in> set evs \<longrightarrow> str = [] \<or> ExportString str \<in> set evs)"
proof (induction rule: ledger_run.induct)
  case nothing
  show ?case by simp
next
  case (more evs l ev l')
  from more.hyps(2) more.IH show ?case
    by cases (auto simp: drop_nth_def dest: in_set_takeD in_set_dropD nth_mem)
qed

section \<open>Winding a session down\<close>

lemma held_can_be_released:
  assumes inv: "session_inv E h0 s" and i: "i < length (held s)"
  shows "is_ok (Free (heap_of s) (m_block (array_of (held s ! i))))"
proof (cases rule: holds_cases [of "held s ! i"])
  case null
  then show ?thesis by simp
next
  case (block b off)
  from inv i have "held_ok E (heap_of s) (held s ! i)"
    by (simp add: session_inv_def list_all_length)
  with block held_ok_owned [of E "heap_of s" "held s ! i" b] show ?thesis
    by auto
qed

lemma session_inv_nothing_held:
  "session_inv E h0 s \<Longrightarrow> held s = [] \<Longrightarrow> s = init_session h0"
  by (cases s) (simp add: session_inv_def init_session_def)

lemma run_wind_down:
  assumes al: "sound_allocator al" and E: "prim_ok E" and h0: "heap_ok h0"
  shows "run al E h0 evs s \<Longrightarrow> length (held s) = n \<Longrightarrow>
         run al E h0 (evs @ replicate n (Release 0)) (init_session h0)"
proof (induction n arbitrary: evs s)
  case 0
  with session_inv_nothing_held [OF run_inv [OF al E h0 "0.prems"(1)]] show ?case
    by simp
next
  case (Suc n)
  from Suc.prems(2) have i: "0 < length (held s)"
    by simp
  from held_can_be_released [OF run_inv [OF al E h0 Suc.prems(1)] i]
  obtain h' where "Free (heap_of s) (m_block (array_of (held s ! 0))) = Ok h'"
    by (auto simp: is_ok_iff)
  from step.release [OF i this, of al E] Suc.prems(1)
  have "run al E h0 (evs @ [Release 0]) \<lparr>heap_of = h', held = drop_nth 0 (held s)\<rparr>"
    by (rule run.after [rotated])
  moreover from Suc.prems(2) have "length (held \<lparr>heap_of = h', held = drop_nth 0 (held s)\<rparr>) = n"
    by (simp add: length_drop_nth)
  ultimately have "run al E h0 ((evs @ [Release 0]) @ replicate n (Release 0)) (init_session h0)"
    by (rule Suc.IH)
  then show ?case
    by simp
qed

section \<open>A session to run the theorems on\<close>

lemma demo_step:
  "step (first_fit [0, 1] 170) prim_char (init_session empty_heap) (ExportString ''ab'')
     \<lparr>heap_of = empty_heap(0 \<mapsto> [97, 98, 0]), held = [HeldString \<lparr>m_block = Ptr 0 0, m_length = 2\<rparr>]\<rparr>"
  using step.export_string [of "''ab''" "first_fit [0, 1] 170" "init_session empty_heap"
      "\<lparr>m_block = Ptr 0 0, m_length = 2\<rparr>" "empty_heap(0 \<mapsto> [97, 98, 0])" prim_char]
    to_primitive_c_array_succeeds [of "first_fit [0, 1] 170" prim_char "''ab''" True empty_heap 0
      "[170, 170, 170]"]
  by (simp add: cni_eval ToCNIString_def)

lemma demo_run:
  "run (first_fit [0, 1] 170) prim_char empty_heap [ExportString ''ab'']
     \<lparr>heap_of = empty_heap(0 \<mapsto> [97, 98, 0]), held = [HeldString \<lparr>m_block = Ptr 0 0, m_length = 2\<rparr>]\<rparr>"
  using run.after [OF run.start demo_step] by simp

lemma demo_read:
  "run (first_fit [0, 1] 170) prim_char empty_heap [ExportString ''ab'', ImportString 0 ''ab'']
     \<lparr>heap_of = empty_heap(0 \<mapsto> [97, 98, 0]), held = [HeldString \<lparr>m_block = Ptr 0 0, m_length = 2\<rparr>]\<rparr>"
  using run.after [OF demo_run step.import_string [of 0 _ "\<lparr>m_block = Ptr 0 0, m_length = 2\<rparr>"
        "first_fit [0, 1] 170" "''ab''" prim_char]]
  by (simp add: cni_eval ToCppString_def to_std_container_def std_resize_def memcpy_from_def)

section \<open>Properties of sessions\<close>

text \<open>C13 (invariant): whatever sequence of conversions, reads and releases has run, the heap
  is made of the blocks it had at the start, unchanged, and one block for each non-null
  array held: every array held is valid and owns its block, a string's array carries its
  terminator, no two arrays share a block, and no block is live without an owner.\<close>

theorem run_invariant:
  assumes "sound_allocator al" and "prim_ok E" and "heap_ok h0" and "run al E h0 evs s"
  shows "heap_ok (heap_of s) \<and> list_all (held_ok E (heap_of s)) (held s) \<and>
         distinct (blocks_of (held s)) \<and>
         dom (heap_of s) = dom h0 \<union> set (blocks_of (held s)) \<and>
         dom h0 \<inter> set (blocks_of (held s)) = {} \<and>
         (\<forall>b \<in> dom h0. heap_of s b = h0 b)"
  using run_inv [OF assms] session_inv_dom [of E h0 s]
  by (simp add: session_inv_def)

theorem run_invariant_witness:
  "list_all (held_ok prim_char (empty_heap(0 \<mapsto> [97, 98, 0])))
     [HeldString \<lparr>m_block = Ptr 0 0, m_length = 2\<rparr>] \<and>
   dom (empty_heap(0 \<mapsto> [97, 98, 0]))
     = dom empty_heap \<union> set (blocks_of [HeldString \<lparr>m_block = Ptr 0 0, m_length = 2\<rparr>])"
  using run_invariant [OF sound_first_fit prim_ok_char empty_heap_ok demo_run]
  by simp

text \<open>C16 (refinement): from every session a sequence of calls leads to, each call acts on
  the values the held arrays stand for as the ledger says: an export appends one entry,
  the exported value or the empty value, a read returns the string at its index and
  changes nothing, and a release removes the entry at its index and changes no other.
  The ledger allows the empty value on any export and does not say when; that the code
  loses the value only when the allocation fails is a property of the conversion, not of
  this contract.\<close>

theorem step_refines_ledger:
  assumes "sound_allocator al" and "prim_ok E" and "heap_ok h0" and "run al E h0 evs s"
    and "step al E s ev s'"
  shows "ledger_step (ledger E s) ev (ledger E s')"
  using assms by (intro step_ledger [of al E h0] run_inv)

theorem step_refines_ledger_witness:
  "ledger_step [] (ExportString ''ab'') [StringItem ''ab'' :: char item]"
  using step_refines_ledger [OF sound_first_fit prim_ok_char empty_heap_ok run.start demo_step]
  by (simp add: cni_eval char_of_def bit_0)

text \<open>C14 (safety): releasing the arrays held, each once and in any state a sequence of calls
  leads to, gives back the heap from before the first call: the conversions leak nothing
  and no release fails.\<close>

theorem release_all_restores_heap:
  assumes "sound_allocator al" and "prim_ok E" and "heap_ok h0" and "run al E h0 evs s"
  shows "release_all (heap_of s) (held s) = Ok h0"
  using run_inv [OF assms] release_all_drop_blocks [of E "heap_of s" "held s"]
  by (simp add: session_inv_def)

theorem release_all_restores_heap_witness:
  "release_all (empty_heap(0 \<mapsto> [97, 98, 0])) [HeldString \<lparr>m_block = Ptr 0 0, m_length = 2\<rparr>]
     = Ok empty_heap"
  using release_all_restores_heap [OF sound_first_fit prim_ok_char empty_heap_ok demo_run]
  by simp

text \<open>C20 (safety): an array that is held can always be released, and reading a held string
  has no undefined behaviour: \<open>ToCppString\<close> returns the string the array stands for, or
  ends in one of the two exceptions of \<^verbatim>\<open>resize\<close>.\<close>

theorem held_array_usable:
  assumes "sound_allocator al" and "prim_ok E" and "heap_ok h0" and "run al E h0 evs s"
    and i: "i < length (held s)"
  shows "is_ok (Free (heap_of s) (m_block (array_of (held s ! i)))) \<and>
         (\<forall>a. held s ! i = HeldString a \<longrightarrow>
            (case ToCppString al (heap_of s) a of
               Inr str \<Rightarrow> ledger E s ! i = StringItem str
             | Inl e \<Rightarrow> is_exception e))"
proof -
  note inv = run_inv [OF assms(1-4)]
  from inv i have ok: "held_ok E (heap_of s) (held s ! i)"
    by (simp add: session_inv_def list_all_length)
  have "case ToCppString al (heap_of s) a of
      Inr str \<Rightarrow> ledger E s ! i = StringItem str | Inl e \<Rightarrow> is_exception e"
    if "held s ! i = HeldString a" for a
    using that ok i to_std_container_valid [OF prim_ok_char, of "heap_of s" a al]
      import_string_reads [of E "heap_of s" a al]
    by (auto simp: ToCppString_def held_ok_def is_exception_def ledger_def item_of_def
        split: sum.splits if_splits)
  with held_can_be_released [OF inv i] show ?thesis
    by blast
qed

theorem held_array_usable_witness:
  "is_ok (Free (empty_heap(0 \<mapsto> [97, 98, 0])) (Ptr 0 0)) \<and>
   ToCppString (first_fit [0, 1] 170) (empty_heap(0 \<mapsto> [97, 98, 0])) \<lparr>m_block = Ptr 0 0, m_length = 2\<rparr>
     = Ok ''ab''"
  using held_array_usable [OF sound_first_fit prim_ok_char empty_heap_ok demo_run, of 0]
  by (simp add: cni_eval ToCppString_def to_std_container_def std_resize_def memcpy_from_def
      split: sum.splits)

text \<open>C21 (safety): what is read back was put in: every string that \<open>ToCppString\<close> returned
  in a sequence of calls is a string that \<open>ToCNIString\<close> was given earlier in that sequence,
  or the empty string; other exports and releases in between do not change it.\<close>

theorem strings_read_back_were_exported:
  assumes "sound_allocator al" and "prim_ok E" and "heap_ok h0" and "run al E h0 evs s"
    and "ImportString i str \<in> set evs"
  shows "str = [] \<or> ExportString str \<in> set evs"
  using run_ledger [OF assms(1-4)] ledger_run_strings [of evs "ledger E s" str i] assms(5)
  by simp

theorem strings_read_back_were_exported_witness:
  "''ab'' = [] \<or> (ExportString ''ab'' :: char event) \<in> set [ExportString ''ab'', ImportString 0 ''ab'']"
  using strings_read_back_were_exported [OF sound_first_fit prim_ok_char empty_heap_ok demo_read,
      of 0 "''ab''"]
  by simp

text \<open>C15 (liveness): no session is a dead end: from every state a sequence of calls leads to,
  releasing the arrays held one after the other is a sequence of calls that can be made,
  as many as there are arrays, and it ends with nothing held and the heap as it was
  before the first call.\<close>

theorem session_winds_down:
  assumes "sound_allocator al" and "prim_ok E" and "heap_ok h0" and "run al E h0 evs s"
  shows "run al E h0 (evs @ replicate (length (held s)) (Release 0)) (init_session h0)"
  using assms by (intro run_wind_down) simp_all

theorem session_winds_down_witness:
  "run (first_fit [0, 1] 170) prim_char empty_heap [ExportString ''ab'', Release 0]
     (init_session empty_heap)"
  using session_winds_down [OF sound_first_fit prim_ok_char empty_heap_ok demo_run]
  by simp

end
