(* ===== verification/CNI_Container.thy ===== *)
theory CNI_Container
  imports CNI_CArray
begin

text \<open>
  Standard containers as objects with storage in the heap.  The templates of \<^verbatim>\<open>cni.hpp\<close>
  see a container through \<^verbatim>\<open>data()\<close> and \<^verbatim>\<open>size()\<close> and build one with \<^verbatim>\<open>result{}\<close>
  and \<^verbatim>\<open>result.resize(n)\<close>; \<open>std_container\<close> holds the two observations, \<open>container_new\<close>
  is the default-constructed container and \<open>std_resize_raw\<close> the call of \<^verbatim>\<open>resize\<close> on it,
  which takes the storage from the allocator and value-initialises the elements.
  \<open>represents E h c xs\<close> says that the storage of \<open>c\<close> in \<open>h\<close> holds the object
  representations of the elements \<open>xs\<close>: it ties a container in the heap to the list
  that stands for it in \<open>CNI_Convert\<close>.  Capacity, the internal buffer of short strings
  and the terminator a \<^verbatim>\<open>std::string\<close> keeps after its last character are not modelled.
  The standard leaves open what \<^verbatim>\<open>data()\<close> of an empty container is; \<open>container_new\<close>
  takes the null pointer, the case in which a copy from it can go wrong, while
  \<open>represents\<close> and the theorems over it allow any pointer for the empty container.
\<close>

record std_container =
  c_data :: ptr
  c_size :: nuint

definition container_new :: std_container where
  "container_new = \<lparr>c_data = Null, c_size = 0\<rparr>"

definition std_resize_raw ::
  "allocator \<Rightarrow> 'a prim \<Rightarrow> heap \<Rightarrow> nuint \<Rightarrow> (std_container \<times> heap) result" where
  "std_resize_raw al E h n =
     (if max_size E < unat n then Fault LengthError
      else if n = 0 then Ok (container_new, h)
      else case al h (of_nat (unat n * size_of E)) of
             None \<Rightarrow> Fault BadAlloc
           | Some (b, fill) \<Rightarrow>
               Ok (\<lparr>c_data = Ptr b 0, c_size = n\<rparr>,
                   h(b \<mapsto> to_data E (replicate (unat n) (zero_value E)))))"

definition container_destroy :: "heap \<Rightarrow> std_container \<Rightarrow> heap result" where
  "container_destroy h c = operator_delete h (c_data c)"

section \<open>What a container holds\<close>

definition as_array :: "std_container \<Rightarrow> CArray" where
  "as_array c = \<lparr>m_block = c_data c, m_length = c_size c\<rparr>"

definition container_elems :: "'a prim \<Rightarrow> heap \<Rightarrow> std_container \<Rightarrow> 'a list" where
  "container_elems E h c = carray_elems E h (as_array c)"

definition container_valid :: "'a prim \<Rightarrow> heap \<Rightarrow> std_container \<Rightarrow> bool" where
  "container_valid E h c \<longleftrightarrow> unat (c_size c) \<le> max_size E \<and> carray_ok E h (as_array c)"

definition represents :: "'a prim \<Rightarrow> heap \<Rightarrow> std_container \<Rightarrow> 'a list \<Rightarrow> bool" where
  "represents E h c xs \<longleftrightarrow>
     container_ok E xs \<and> c_size c = container_size xs \<and> carray_ok E h (as_array c) \<and>
     carray_bytes E h (as_array c) = to_data E xs"

lemmas container_eval [cni_eval] =
  container_new_def as_array_def container_elems_def container_valid_def represents_def

section \<open>Facts\<close>

lemma container_new_simps [simp]:
  "c_data container_new = Null" "c_size container_new = 0"
  "as_array container_new = empty_CArray"
  by (simp_all add: container_new_def as_array_def empty_CArray_def)

lemma as_array_simps [simp]:
  "m_block (as_array c) = c_data c" "m_length (as_array c) = c_size c"
  by (simp_all add: as_array_def)

lemma container_elems_new [simp]: "container_elems E h container_new = []"
  by (simp add: container_elems_def)

lemma represents_new [simp]: "represents E h container_new []"
  by (simp add: represents_def container_ok_def container_size_def carray_bytes_def)

lemma represents_elems:
  "prim_ok E \<Longrightarrow> represents E h c xs \<Longrightarrow> container_elems E h c = xs"
  by (simp add: represents_def container_elems_def carray_elems_def from_to_data)

lemma represents_valid:
  "prim_ok E \<Longrightarrow> represents E h c xs \<Longrightarrow> container_valid E h c \<and> unat (c_size c) = length xs"
  by (simp add: represents_def container_valid_def unat_container_size container_ok_def)

lemma represents_cong [cni_frame]:
  "c_data c = Ptr b off \<Longrightarrow> h' b = h b \<Longrightarrow> represents E h' c xs = represents E h c xs"
  by (simp add: represents_def carray_ok_def carray_bytes_def contents_def)

lemma represents_Null:
  assumes "c_data c = Null" and E: "prim_ok E"
  shows "represents E h c xs \<longleftrightarrow> xs = [] \<and> c_size c = 0"
proof
  assume rep: "represents E h c xs"
  with assms(1) have "to_data E xs = []"
    by (simp add: represents_def carray_bytes_def)
  with length_to_data [OF E, of xs] prim_okD(1) [OF E] have "xs = []"
    by simp
  with rep show "xs = [] \<and> c_size c = 0"
    by (simp add: represents_def container_size_def)
next
  assume "xs = [] \<and> c_size c = 0"
  with assms(1) show "represents E h c xs"
    by (simp add: represents_def container_ok_def container_size_def carray_ok_def
        carray_bytes_def)
qed

lemma represents_mono [cni_frame]:
  assumes E: "prim_ok E" and rep: "represents E h c xs" and le: "h \<subseteq>\<^sub>m h'"
  shows "represents E h' c xs"
proof (cases "m_length (as_array c) = 0")
  case True
  with rep have "to_data E xs = []"
    by (auto simp: represents_def carray_bytes_def)
  with rep True show ?thesis
    by (auto simp: represents_def carray_ok_def carray_bytes_def)
next
  case False
  from rep have "carray_ok E h (as_array c)"
    by (simp add: represents_def)
  from carray_ok_nonempty [OF E this False] obtain b off bs where c: "c_data c = Ptr b off"
    and "h b = Some bs"
    by auto
  with le have "h' b = h b"
    by (auto simp: map_le_def dom_def)
  with rep represents_cong [of c b off h' h E xs] c show ?thesis
    by simp
qed

lemma represents_load:
  assumes E: "prim_ok E" and rep: "represents E h c xs"
    and ptr: "xs \<noteq> [] \<or> valid_ptr h (c_data c)"
  shows "load h (c_data c) (length xs * size_of E) = Ok (to_data E xs)"
proof (cases "xs = []")
  case True
  with ptr show ?thesis
    by (simp add: valid_ptr_load)
next
  case False
  from rep have ok: "carray_ok E h (as_array c)" and n: "unat (c_size c) = length xs"
    and bytes: "carray_bytes E h (as_array c) = to_data E xs"
    by (simp_all add: represents_def unat_container_size [OF E])
  from False n have "m_length (as_array c) \<noteq> 0"
    by (auto simp: unat_eq_0)
  with carray_ok_nonempty [OF E ok] n obtain b off bs where "c_data c = Ptr b off"
    and "h b = Some bs" and "off + length xs * size_of E \<le> length bs"
    by auto
  with bytes n show ?thesis
    by (simp add: carray_bytes_def)
qed

lemma container_block_live:
  assumes E: "prim_ok E" and rep: "represents E h c xs"
    and ptr: "xs \<noteq> [] \<or> valid_ptr h (c_data c)"
  obtains b off where "c_data c = Ptr b off" and "h b \<noteq> None"
  using represents_load [OF E rep ptr]
  by (auto simp: load_Ok_iff)

section \<open>Resizing the new container\<close>

lemma std_resize_raw_cases:
  assumes "std_resize_raw al E h n = Ok (c, h')"
  obtains (empty) "n = 0" and "c = container_new" and "h' = h"
    | (block) b fill where "n \<noteq> 0" and "unat n \<le> max_size E"
      and "al h (of_nat (unat n * size_of E)) = Some (b, fill)"
      and "c = \<lparr>c_data = Ptr b 0, c_size = n\<rparr>"
      and "h' = h(b \<mapsto> to_data E (replicate (unat n) (zero_value E)))"
  using assms
  by (auto simp: std_resize_raw_def split: if_splits option.splits)

lemma std_resize_raw_Fault_iff:
  "std_resize_raw al E h n = Fault e \<longleftrightarrow>
     (max_size E < unat n \<and> e = LengthError) \<or>
     (unat n \<le> max_size E \<and> n \<noteq> 0 \<and> al h (of_nat (unat n * size_of E)) = None \<and> e = BadAlloc)"
  by (auto simp: std_resize_raw_def split: option.splits)

lemma std_resize_raw_represents:
  assumes E: "prim_ok E" and r: "std_resize_raw al E h n = Ok (c, h')"
  shows "represents E h' c (replicate (unat n) (zero_value E))"
  using r
proof (cases rule: std_resize_raw_cases)
  case empty
  then show ?thesis by simp
next
  case (block b fill)
  then show ?thesis
    by (simp add: represents_def container_ok_def container_size_def carray_ok_def
        carray_bytes_def length_to_data [OF E])
qed

end
