(* ===== verification/CNI_ConvertRaw.thy ===== *)
theory CNI_ConvertRaw
  imports CNI_Convert CNI_Container
begin

text \<open>
  \<^verbatim>\<open>class CNIConvert\<close> once more, one level down: the container is an object with storage
  in the heap and \<^verbatim>\<open>memcpy\<close> copies from one place of the heap to another, as in the
  source.  The definitions follow the same lines of \<^verbatim>\<open>cni.hpp\<close> as those of
  \<open>CNI_Convert\<close>; the theorems show that they compute what those compute on the list a
  container represents, so that every property proved there holds of the code that moves
  bytes between blocks, and they show what only this level can say: that source and
  destination of a copy never overlap, that a result is a copy in storage of its own,
  and where a pointer that \<^verbatim>\<open>memcpy\<close> may not be given reaches it.
\<close>

definition to_primitive_c_array_raw ::
  "allocator \<Rightarrow> 'a prim \<Rightarrow> heap \<Rightarrow> std_container option \<Rightarrow> bool \<Rightarrow> (CArray \<times> heap) result" where
  "to_primitive_c_array_raw al E h p_container add_terminator =
     (case p_container of
        None \<Rightarrow> Ok (empty_CArray, h)
      | Some c \<Rightarrow>
          let elem_count = c_size c;
              elem_size = sizeof E;
              (block, h1) =
                (if add_terminator then Allocate al h (elem_size * (elem_count + 1))
                 else Allocate al h (elem_size * elem_count))
          in if block = Null then Ok (empty_CArray, h1)
             else rbind (memcpy h1 block (c_data c) (elem_size * elem_count))
                    (\<lambda>h2. let result = \<lparr>m_block = block, m_length = elem_count\<rparr>
                          in if add_terminator
                             then rbind (memset h2 (elem_ptr_add E (m_data result) elem_count) 0 elem_size)
                                    (\<lambda>h3. Ok (result, h3))
                             else Ok (result, h2)))"

definition to_std_container_raw ::
  "allocator \<Rightarrow> 'a prim \<Rightarrow> heap \<Rightarrow> CArray option \<Rightarrow> (std_container \<times> heap) result" where
  "to_std_container_raw al E h c_array =
     (case c_array of
        None \<Rightarrow> Ok (container_new, h)
      | Some a \<Rightarrow>
          if m_block a = Null \<or> m_length a = 0 then Ok (container_new, h)
          else rbind (std_resize_raw al E h (m_length a))
                 (\<lambda>(result, h1).
                    let data = c_data result
                    in rbind (memcpy h1 data (m_block a) (m_length a * sizeof E))
                         (\<lambda>h2. Ok (result, h2))))"

definition ToCArray_raw ::
  "allocator \<Rightarrow> 'a prim \<Rightarrow> heap \<Rightarrow> std_container \<Rightarrow> (CArray \<times> heap) result" where
  "ToCArray_raw al E h cpp_vector = to_primitive_c_array_raw al E h (Some cpp_vector) False"

definition ToCNIString_raw :: "allocator \<Rightarrow> heap \<Rightarrow> std_container \<Rightarrow> (CArray \<times> heap) result" where
  "ToCNIString_raw al h str = to_primitive_c_array_raw al prim_char h (Some str) True"

definition ToCppString_raw :: "allocator \<Rightarrow> heap \<Rightarrow> CArray \<Rightarrow> (std_container \<times> heap) result" where
  "ToCppString_raw al h u8str = to_std_container_raw al prim_char h (Some u8str)"

definition elems_of :: "'a prim \<Rightarrow> (std_container \<times> heap) result \<Rightarrow> 'a list result" where
  "elems_of E r = rbind r (\<lambda>(c, h'). Ok (container_elems E h' c))"

lemmas convert_raw_defs [cni_defs] =
  to_primitive_c_array_raw_def to_std_container_raw_def ToCArray_raw_def ToCNIString_raw_def
  ToCppString_raw_def

section \<open>Container to array\<close>

lemma to_primitive_c_array_raw_unfold:
  assumes "c_size c = container_size xs"
  shows "to_primitive_c_array_raw al E h (Some c) t =
     (case Allocate al h (alloc_bytes E xs t) of
        (block, h1) \<Rightarrow>
          if block = Null then Ok (empty_CArray, h1)
          else rbind (memcpy h1 block (c_data c) (sizeof E * container_size xs))
                 (\<lambda>h2. if t
                    then rbind (memset h2 (elem_ptr_add E block (container_size xs)) 0 (sizeof E))
                           (\<lambda>h3. Ok (\<lparr>m_block = block, m_length = container_size xs\<rparr>, h3))
                    else Ok (\<lparr>m_block = block, m_length = container_size xs\<rparr>, h2)))"
  by (simp add: to_primitive_c_array_raw_def alloc_bytes_def Let_def assms split: prod.splits)

lemma memcpy_container:
  assumes E: "prim_ok E" and rep: "represents E h c xs"
    and ptr: "xs \<noteq> [] \<or> valid_ptr h (c_data c)" and fresh: "h b = None"
  shows "memcpy (h(b \<mapsto> fill)) (Ptr b i) (c_data c) (sizeof E * container_size xs)
           = memcpy_to (h(b \<mapsto> fill)) (Ptr b i) (to_data E xs) (sizeof E * container_size xs)"
proof -
  from rep have xs: "container_ok E xs"
    by (simp add: represents_def)
  have n: "unat (sizeof E * container_size xs) = length xs * size_of E"
    by (rule unat_data_bytes [OF E xs])
  from represents_load [OF E rep ptr] obtain c0 off cs where c: "c_data c = Ptr c0 off"
    and cs: "h c0 = Some cs" and fits: "off + length xs * size_of E \<le> length cs"
    and data: "to_data E xs = take (length xs * size_of E) (drop off cs)"
    by (auto simp: load_Ok_iff)
  from cs fresh have "c0 \<noteq> b"
    by auto
  with c cs fits data have "memcpy (h(b \<mapsto> fill)) (Ptr b i) (c_data c) (sizeof E * container_size xs)
      = store (h(b \<mapsto> fill)) (Ptr b i) (to_data E xs)"
    by (simp add: n)
  then show ?thesis
    by (simp add: memcpy_to_def n length_to_data [OF E])
qed

lemma to_primitive_c_array_raw_eq:
  assumes al: "sound_allocator al" and E: "prim_ok E" and rep: "represents E h c xs"
    and ptr: "xs \<noteq> [] \<or> \<not> t \<or> valid_ptr h (c_data c)"
  shows "to_primitive_c_array_raw al E h (Some c) t = to_primitive_c_array al E h (Some xs) t"
proof (cases "alloc_bytes E xs t = 0 \<or> al h (alloc_bytes E xs t) = None")
  case True
  with rep show ?thesis
    by (auto simp: to_primitive_c_array_raw_unfold [of c xs] to_primitive_c_array_unfold
        Allocate_cases represents_def)
next
  case False
  then obtain b fill where got: "al h (alloc_bytes E xs t) = Some (b, fill)"
    by auto
  from False have "xs \<noteq> [] \<or> t"
    by (cases t) (auto simp: alloc_bytes_def container_size_def)
  with ptr have "xs \<noteq> [] \<or> valid_ptr h (c_data c)"
    by auto
  with sound_allocatorD [OF al got] False got rep show ?thesis
    by (simp add: to_primitive_c_array_raw_unfold [of c xs] to_primitive_c_array_unfold
        Allocate_cases represents_def memcpy_container [OF E rep])
qed

lemma to_primitive_c_array_raw_block:
  assumes al: "sound_allocator al" and E: "prim_ok E" and rep: "represents E h c xs"
    and ptr: "xs \<noteq> [] \<or> \<not> t \<or> valid_ptr h (c_data c)"
    and conv: "to_primitive_c_array_raw al E h (Some c) t = Ok (a, h')" and nn: "m_block a \<noteq> Null"
  obtains (block) b c0 off where "h b = None" and "m_block a = Ptr b 0"
    and "carray_elems E h' a = xs \<and> carray_ok E h' a \<and> (t \<longrightarrow> carray_terminated E h' a)"
    and "h' = h(b \<mapsto> block_image E xs t)" and "c_data c = Ptr c0 off" and "c0 \<noteq> b"
proof -
  from rep have xs: "container_ok E xs"
    by (simp add: represents_def)
  from conv have "to_primitive_c_array al E h (Some xs) t = Ok (a, h')"
    by (simp add: to_primitive_c_array_raw_eq [OF al E rep ptr])
  with al E xs show ?thesis
  proof (cases rule: to_primitive_c_array_Ok_cases)
    case empty
    with nn show ?thesis by (simp add: empty_CArray_def)
  next
    case (block b fill)
    from sound_allocatorD [OF al block(2)] have fresh: "h b = None" ..
    from block(1) ptr have "xs \<noteq> [] \<or> valid_ptr h (c_data c)"
      by (cases t) (auto simp: alloc_bytes_def container_size_def)
    with E rep obtain c0 off where cd: "c_data c = Ptr c0 off" and "h c0 \<noteq> None"
      by (rule container_block_live)
    with fresh have "c0 \<noteq> b"
      by auto
    with fresh block(3,4) cd show ?thesis
      by (intro that [of b c0 off])
        (auto simp: carray_elems_block_image [OF E xs] carray_ok_block_image [OF E xs]
          carray_terminated_block_image [OF E xs])
  qed
qed

section \<open>Array to container\<close>

lemma to_std_container_raw_empty_simps [simp]:
  "to_std_container_raw al E h None = Ok (container_new, h)"
  "m_block a = Null \<Longrightarrow> to_std_container_raw al E h (Some a) = Ok (container_new, h)"
  "m_length a = 0 \<Longrightarrow> to_std_container_raw al E h (Some a) = Ok (container_new, h)"
  by (simp_all add: to_std_container_raw_def)

lemma to_std_container_raw_valid:
  assumes al: "sound_allocator al" and E: "prim_ok E" and ok: "carray_ok E h a"
  shows "to_std_container_raw al E h (Some a) =
     (if m_block a = Null \<or> m_length a = 0 then Ok (container_new, h)
      else if max_size E < unat (m_length a) then Fault LengthError
      else case al h (of_nat (unat (m_length a) * size_of E)) of
             None \<Rightarrow> Fault BadAlloc
           | Some (b, fill) \<Rightarrow>
               Ok (\<lparr>c_data = Ptr b 0, c_size = m_length a\<rparr>, h(b \<mapsto> carray_bytes E h a)))"
proof (cases "m_block a = Null \<or> m_length a = 0 \<or> max_size E < unat (m_length a) \<or>
    al h (of_nat (unat (m_length a) * size_of E)) = None")
  case True
  then show ?thesis
    by (auto simp: to_std_container_raw_def std_resize_raw_def)
next
  case False
  let ?n = "unat (m_length a) * size_of E"
  from False obtain b fill where got: "al h (of_nat ?n) = Some (b, fill)"
    by auto
  from False have n: "unat (m_length a) \<le> max_size E"
    by simp
  from False carray_ok_nonempty [OF E ok] obtain b' off bs where p: "m_block a = Ptr b' off"
    and bs: "h b' = Some bs" and fits: "off + ?n \<le> length bs"
    by blast
  from sound_allocatorD [OF al got] bs have "b' \<noteq> b"
    by auto
  with p bs fits
  have "memcpy (h(b \<mapsto> to_data E (replicate (unat (m_length a)) (zero_value E)))) (Ptr b 0)
      (m_block a) (m_length a * sizeof E) = Ok (h(b \<mapsto> take ?n (drop off bs)))"
    by (simp add: unat_carray_bytes [OF E n] length_to_data [OF E])
  with False got p bs show ?thesis
    by (simp add: to_std_container_raw_def std_resize_raw_def carray_bytes_def)
qed

lemma to_std_container_raw_block:
  assumes al: "sound_allocator al" and E: "prim_ok E" and ok: "carray_ok E h a"
    and conv: "to_std_container_raw al E h (Some a) = Ok (c, h')" and nz: "m_length a \<noteq> 0"
  obtains b b' off bs where "m_block a = Ptr b' off" and "h b' = Some bs" and "h b = None"
    and "b' \<noteq> b" and "unat (m_length a) \<le> max_size E"
    and "c = \<lparr>c_data = Ptr b 0, c_size = m_length a\<rparr>" and "h' = h(b \<mapsto> carray_bytes E h a)"
proof -
  from carray_ok_nonempty [OF E ok nz] obtain b' off bs where p: "m_block a = Ptr b' off"
    and bs: "h b' = Some bs"
    by blast
  with conv nz to_std_container_raw_valid [OF al E ok] obtain b fill
    where n: "unat (m_length a) \<le> max_size E"
      and got: "al h (of_nat (unat (m_length a) * size_of E)) = Some (b, fill)"
      and c: "c = \<lparr>c_data = Ptr b 0, c_size = m_length a\<rparr>"
      and h': "h' = h(b \<mapsto> carray_bytes E h a)"
    by (auto split: if_splits option.splits)
  from sound_allocatorD [OF al got] bs have "h b = None" and "b' \<noteq> b"
    by auto
  with p bs n c h' show ?thesis
    by (intro that [of b' off bs b])
qed

lemma elems_of_simps [simp]:
  "elems_of E (Ok (c, h)) = Ok (container_elems E h c)" "elems_of E (Fault e) = Fault e"
  by (simp_all add: elems_of_def)

lemma to_std_container_raw_refines:
  assumes "sound_allocator al" and "prim_ok E" and "carray_ok E h a"
  shows "elems_of E (to_std_container_raw al E h (Some a)) = to_std_container al E h (Some a)"
  by (simp add: to_std_container_raw_valid [OF assms] to_std_container_valid [OF assms(2,3)]
      container_elems_def carray_elems_def carray_bytes_def as_array_def
      split: option.splits)

section \<open>Properties of the conversions between blocks\<close>

text \<open>C4 (refinement): on a container whose storage holds the elements \<open>xs\<close>, the conversion
  that copies from the container's storage with \<^verbatim>\<open>memcpy\<close> returns what \<open>to_primitive_c_array\<close>
  returns on the list \<open>xs\<close>, array and heap: the source of the copy is readable, it does
  not overlap the new block, and the container still holds \<open>xs\<close> afterwards.  With a
  terminator and no element the pointer \<^verbatim>\<open>data()\<close> must be valid, as it is for a string.\<close>

theorem to_primitive_c_array_raw_refines:
  assumes al: "sound_allocator al" and E: "prim_ok E" and rep: "represents E h c xs"
    and ptr: "xs \<noteq> [] \<or> \<not> t \<or> valid_ptr h (c_data c)"
  shows "to_primitive_c_array_raw al E h (Some c) t = to_primitive_c_array al E h (Some xs) t \<and>
         (\<forall>a h'. to_primitive_c_array_raw al E h (Some c) t = Ok (a, h') \<longrightarrow> represents E h' c xs)"
proof -
  from rep have xs: "container_ok E xs"
    by (simp add: represents_def)
  have eq: "to_primitive_c_array_raw al E h (Some c) t = to_primitive_c_array al E h (Some xs) t"
    using al E rep ptr by (rule to_primitive_c_array_raw_eq)
  moreover have "represents E h' c xs" if "to_primitive_c_array al E h (Some xs) t = Ok (a, h')"
    for a h'
    using E rep to_primitive_c_array_extends [OF al E xs that] by (rule represents_mono)
  ultimately show ?thesis
    by simp
qed

theorem to_primitive_c_array_raw_refines_witness:
  "to_primitive_c_array_raw (first_fit [0, 1] 170) prim_char (empty_heap(5 \<mapsto> [97, 98, 0]))
     (Some \<lparr>c_data = Ptr 5 0, c_size = 2\<rparr>) True
   = Ok (\<lparr>m_block = Ptr 0 0, m_length = 2\<rparr>, empty_heap(5 \<mapsto> [97, 98, 0], 0 \<mapsto> [97, 98, 0]))"
  using to_primitive_c_array_raw_refines [of "first_fit [0, 1] 170" prim_char
      "empty_heap(5 \<mapsto> [97, 98, 0])" "\<lparr>c_data = Ptr 5 0, c_size = 2\<rparr>" "''ab''" True]
    to_primitive_c_array_succeeds [of "first_fit [0, 1] 170" prim_char "''ab''" True
      "empty_heap(5 \<mapsto> [97, 98, 0])" 0 "[170, 170, 170]"]
  by (simp add: cni_eval)

text \<open>C5 (safety): the container that the conversion returns is a copy in storage of its
  own: its storage is a block that was not live before, it holds the bytes of the array's
  elements, every block that was live (the array's among them) is unchanged, and after
  the array is released the container still holds the elements, as the array does after
  the container is destroyed.\<close>

theorem to_std_container_raw_copy:
  assumes al: "sound_allocator al" and E: "prim_ok E" and ok: "carray_ok E h a"
    and conv: "to_std_container_raw al E h (Some a) = Ok (c, h')"
  shows "c_size c = m_length a \<and> container_valid E h' c \<and>
         carray_bytes E h' (as_array c) = carray_bytes E h a \<and>
         (\<forall>b bs. h b = Some bs \<longrightarrow> h' b = Some bs) \<and>
         (if m_length a = 0 then c_data c = Null \<and> h' = h
          else \<not> live h (c_data c) \<and> live h' (c_data c)) \<and>
         (\<forall>h''. Free h' (m_block a) = Ok h'' \<longrightarrow> container_elems E h'' c = carray_elems E h a) \<and>
         (\<forall>h''. container_destroy h' c = Ok h'' \<longrightarrow> carray_elems E h'' a = carray_elems E h a)"
proof (cases "m_length a = 0")
  case True
  with conv have "c = container_new" and "h' = h"
    by simp_all
  with True show ?thesis
    by (simp add: container_valid_def container_destroy_def carray_bytes_def carray_elems_def)
next
  case False
  with al E ok conv obtain b b' off bs where p: "m_block a = Ptr b' off" and bs: "h b' = Some bs"
    and fresh: "h b = None" and neq: "b' \<noteq> b" and n: "unat (m_length a) \<le> max_size E"
    and c: "c = \<lparr>c_data = Ptr b 0, c_size = m_length a\<rparr>" and h': "h' = h(b \<mapsto> carray_bytes E h a)"
    by (rule to_std_container_raw_block)
  have len: "length (carray_bytes E h a) = unat (m_length a) * size_of E"
    by (rule length_carray_bytes [OF ok])
  have "container_elems E h'' c = carray_elems E h a" if "Free h' (m_block a) = Ok h''" for h''
    using that p neq len by (auto simp: Free_Ok_iff c h' container_elems_def carray_elems_def
        carray_bytes_def)
  moreover have "carray_elems E h'' a = carray_elems E h a" if "container_destroy h' c = Ok h''"
    for h''
    using that p bs neq
    by (auto simp: container_destroy_def operator_delete_Ok_iff c h' carray_elems_def
        carray_bytes_def)
  ultimately show ?thesis
    using False n fresh len
    by (simp add: c h' container_valid_def carray_ok_def carray_bytes_def)
qed

theorem to_std_container_raw_copy_witness:
  "to_std_container_raw (first_fit [0, 1] 170) prim_char (empty_heap(0 \<mapsto> [104, 105, 0]))
     (Some \<lparr>m_block = Ptr 0 0, m_length = 2\<rparr>)
     = Ok (\<lparr>c_data = Ptr 1 0, c_size = 2\<rparr>, empty_heap(0 \<mapsto> [104, 105, 0], 1 \<mapsto> [104, 105])) \<and>
   container_valid prim_char (empty_heap(0 \<mapsto> [104, 105, 0], 1 \<mapsto> [104, 105]))
     \<lparr>c_data = Ptr 1 0, c_size = 2\<rparr>"
  using to_std_container_raw_copy [of "first_fit [0, 1] 170" prim_char
      "empty_heap(0 \<mapsto> [104, 105, 0])" "\<lparr>m_block = Ptr 0 0, m_length = 2\<rparr>"
      "\<lparr>c_data = Ptr 1 0, c_size = 2\<rparr>" "empty_heap(0 \<mapsto> [104, 105, 0], 1 \<mapsto> [104, 105])"]
    to_std_container_raw_valid [of "first_fit [0, 1] 170" prim_char
      "empty_heap(0 \<mapsto> [104, 105, 0])" "\<lparr>m_block = Ptr 0 0, m_length = 2\<rparr>"]
  by (simp add: cni_eval)

text \<open>C17 (safety): the array that the conversion returns is independent of the container it
  was made from: whatever is written into the container's storage afterwards, and when the
  container is destroyed, the array holds the same elements, stays valid and keeps its
  terminator; and releasing the array gives back the heap from before the conversion, in
  which the container holds its elements as before.\<close>

theorem to_primitive_c_array_raw_independent:
  assumes al: "sound_allocator al" and E: "prim_ok E" and rep: "represents E h c xs"
    and ptr: "xs \<noteq> [] \<or> \<not> t \<or> valid_ptr h (c_data c)"
    and conv: "to_primitive_c_array_raw al E h (Some c) t = Ok (a, h')" and nn: "m_block a \<noteq> Null"
  shows "(store h' (ptr_add (c_data c) k) new = Ok h1 \<longrightarrow>
            carray_elems E h1 a = xs \<and> carray_ok E h1 a \<and> (t \<longrightarrow> carray_terminated E h1 a)) \<and>
         (container_destroy h' c = Ok h2 \<longrightarrow> carray_elems E h2 a = xs \<and> carray_ok E h2 a) \<and>
         (Free h' (m_block a) = Ok h3 \<longrightarrow> h3 = h \<and> represents E h3 c xs)"
  using assms
proof (cases rule: to_primitive_c_array_raw_block)
  case (block b c0 off)
  have keep: "carray_elems E h'' a = xs \<and> carray_ok E h'' a \<and> (t \<longrightarrow> carray_terminated E h'' a)"
    if "h'' b = h' b" for h''
    using block(2,3) that carray_elems_cong [of a b 0 h'' h' E] carray_ok_cong [of a b 0 h'' h' E]
      carray_terminated_cong [of a b 0 h'' h' E]
    by simp
  have "h1 b = h' b" if "store h' (ptr_add (c_data c) k) new = Ok h1"
    using that block(5,6) by (auto simp: store_Ok_iff)
  moreover have "h2 b = h' b" if "container_destroy h' c = Ok h2"
    using that block(5,6) by (auto simp: container_destroy_def operator_delete_Ok_iff)
  moreover have "h3 = h" if "Free h' (m_block a) = Ok h3"
    using that block(1,2,4) by (auto simp: Free_Ok_iff)
  ultimately show ?thesis
    using keep rep by blast
qed

theorem to_primitive_c_array_raw_independent_witness:
  "carray_elems prim_char (empty_heap(5 \<mapsto> [104, 120, 0], 0 \<mapsto> [104, 105, 0]))
     \<lparr>m_block = Ptr 0 0, m_length = 2\<rparr> = ''hi'' \<and>
   carray_elems prim_char (empty_heap(0 \<mapsto> [104, 105, 0])) \<lparr>m_block = Ptr 0 0, m_length = 2\<rparr> = ''hi'' \<and>
   represents prim_char (empty_heap(5 \<mapsto> [104, 105, 0])) \<lparr>c_data = Ptr 5 0, c_size = 2\<rparr> ''hi''"
  using to_primitive_c_array_raw_independent [of "first_fit [0, 1] 170" prim_char
      "empty_heap(5 \<mapsto> [104, 105, 0])" "\<lparr>c_data = Ptr 5 0, c_size = 2\<rparr>" "''hi''" True
      "\<lparr>m_block = Ptr 0 0, m_length = 2\<rparr>" "empty_heap(5 \<mapsto> [104, 105, 0], 0 \<mapsto> [104, 105, 0])"
      1 "[120]" "empty_heap(5 \<mapsto> [104, 120, 0], 0 \<mapsto> [104, 105, 0])"
      "empty_heap(0 \<mapsto> [104, 105, 0])" "empty_heap(5 \<mapsto> [104, 105, 0])"]
    to_primitive_c_array_raw_eq [of "first_fit [0, 1] 170" prim_char
      "empty_heap(5 \<mapsto> [104, 105, 0])" "\<lparr>c_data = Ptr 5 0, c_size = 2\<rparr>" "''hi''" True]
    to_primitive_c_array_succeeds [of "first_fit [0, 1] 170" prim_char "''hi''" True
      "empty_heap(5 \<mapsto> [104, 105, 0])" 0 "[170, 170, 170]"]
  by (simp add: cni_eval)

text \<open>C24 (error): when the private template is given an empty container whose \<^verbatim>\<open>data()\<close> is
  null, as that of an empty vector may be, and a terminator is asked for, the block for
  the terminator is allocated and \<^verbatim>\<open>memcpy\<close> is called with a null source and a count of
  zero, which the C standard leaves undefined; on the list the same call succeeds.\<close>

theorem memcpy_null_source:
  assumes "sound_allocator al" and "prim_ok E" and "al h (sizeof E) = Some (b, fill)"
  shows "to_primitive_c_array_raw al E h (Some container_new) True = Fault NullDeref \<and>
         to_primitive_c_array al E h (Some []) True
           = Ok (\<lparr>m_block = Ptr b 0, m_length = 0\<rparr>, h(b \<mapsto> replicate (size_of E) 0))"
  using assms to_primitive_c_array_succeeds [of al E "[]" True h b fill]
  by (simp add: to_primitive_c_array_raw_unfold [of _ "[]"] Allocate_cases alloc_bytes_def
      container_size_def block_image_def container_ok_def sizeof_neq_0)

theorem memcpy_null_source_witness:
  "to_primitive_c_array_raw (first_fit [0] 170) prim_char empty_heap (Some container_new) True
     = Fault NullDeref"
  using memcpy_null_source [of "first_fit [0] 170" prim_char empty_heap 0 "[170]"]
  by (simp add: cni_eval)

text \<open>C23 (safety): the three public functions never give \<^verbatim>\<open>memcpy\<close> a pointer it may not
  be given: on containers that hold their elements (a string with \<^verbatim>\<open>data()\<close> not null,
  which \<^verbatim>\<open>std::string\<close> guarantees) and on valid arrays they return what the functions
  on lists return, so the only ways out are the results and exceptions of those.\<close>

theorem public_calls_refine:
  assumes al: "sound_allocator al" and E: "prim_ok E"
  shows "(represents E h v xs \<longrightarrow> ToCArray_raw al E h v = ToCArray al E h xs) \<and>
         (represents prim_char h s str \<and> valid_ptr h (c_data s) \<longrightarrow>
            ToCNIString_raw al h s = ToCNIString al h str) \<and>
         (carray_ok prim_char h a \<longrightarrow>
            elems_of prim_char (ToCppString_raw al h a) = ToCppString al h a)"
  using al E
  by (simp add: ToCArray_raw_def ToCArray_def ToCNIString_raw_def ToCNIString_def
      ToCppString_raw_def ToCppString_def to_primitive_c_array_raw_eq to_std_container_raw_refines)

theorem public_calls_refine_witness:
  "ToCArray_raw (first_fit [0, 1] 170) (prim_word :: 16 word prim) (empty_heap(5 \<mapsto> [1, 0, 2, 0]))
     \<lparr>c_data = Ptr 5 0, c_size = 2\<rparr>
   = Ok (\<lparr>m_block = Ptr 0 0, m_length = 2\<rparr>, empty_heap(5 \<mapsto> [1, 0, 2, 0], 0 \<mapsto> [1, 0, 2, 0]))"
  using public_calls_refine [of "first_fit [0, 1] 170" "prim_word :: 16 word prim"
      "empty_heap(5 \<mapsto> [1, 0, 2, 0])" "\<lparr>c_data = Ptr 5 0, c_size = 2\<rparr>" "[1, 2]"]
    to_primitive_c_array_succeeds [of "first_fit [0, 1] 170" "prim_word :: 16 word prim" "[1, 2]"
      False "empty_heap(5 \<mapsto> [1, 0, 2, 0])" 0 "[170, 170, 170, 170]"]
  by (simp add: cni_eval prim_ok_word ToCArray_def)

end
