(* ===== verification/CNI_Consumer.thy ===== *)
theory CNI_Consumer
  imports CNI_Convert
begin

text \<open>
  The reads of the side that receives an array.  \<^verbatim>\<open>cni.hpp\<close> gives that side two ways to
  find the end of what it was handed: the terminator that \<^verbatim>\<open>ToCNIString\<close> writes after the
  last character, for consumers of null-terminated strings, and the pair \<^verbatim>\<open>begin()\<close>,
  \<^verbatim>\<open>end()\<close> of \<^verbatim>\<open>CArray<T>\<close>, for loops over the elements.  The two loops are not code of
  the header; they are modelled here as the C and C++ standards give them, to state what
  the header's results guarantee to them: that each loop ends inside the block and
  finds the elements that were converted.
\<close>

text \<open>
  \<open>c_strlen\<close> is the scan of a consumer of null-terminated strings, such as \<^verbatim>\<open>strlen\<close>: it
  reads one byte after the other from \<open>p\<close> on and returns the number of bytes before the
  first zero.  Every step reads inside a live block or faults, and a block is finite, so
  the scan ends on every input; the measure of the termination proof is the number of
  bytes of the block from \<open>p\<close> on.  The count is a natural number: in a heap that
  satisfies \<open>heap_ok\<close> it is below \<open>2 ^ 64\<close>, the range of \<^verbatim>\<open>size_t\<close>.
\<close>

function c_strlen :: "heap \<Rightarrow> ptr \<Rightarrow> nat \<Rightarrow> nat result" where
  "c_strlen h p n =
     (case load h p 1 of
        Inl e \<Rightarrow> Fault e
      | Inr bs \<Rightarrow> if bs = [0] then Ok n else c_strlen h (ptr_add p 1) (Suc n))"
  by pat_completeness auto
termination
  by (relation "measure (\<lambda>(h, p, n). length (contents h p))")
    (auto simp: load_Ok_iff contents_def ptr_add_def)

declare c_strlen.simps [simp del]

text \<open>
  \<open>range_for\<close> is the loop \<^verbatim>\<open>for (T* p = a.begin(); p != a.end(); ++p)\<close>, which is what a
  range-based \<^verbatim>\<open>for\<close> over a \<^verbatim>\<open>CArray<T>\<close> stands for; it collects the elements it reads.
  With an element size of zero the pointer would not move, so the loop is defined in the
  option monad, \<open>None\<close> for a loop that does not end, and that it ends is a theorem about
  element types that satisfy \<open>prim_ok\<close>.
\<close>

partial_function (option) range_for ::
  "'a prim \<Rightarrow> heap \<Rightarrow> ptr \<Rightarrow> ptr \<Rightarrow> 'a list \<Rightarrow> 'a list result option" where
  "range_for E h p e acc =
     (if p = e then Some (Ok acc)
      else case load h p (size_of E) of
             Inl f \<Rightarrow> Some (Fault f)
           | Inr bs \<Rightarrow> range_for E h (elem_ptr_add E p 1) e (acc @ [of_bytes E bs]))"

section \<open>The scan for the terminator\<close>

lemma c_strlen_block:
  assumes b: "h b = Some bs"
  shows "off \<le> length bs \<Longrightarrow> c_strlen h (Ptr b off) n =
     (if 0 \<in> set (drop off bs) then Ok (n + length (takeWhile (\<lambda>x. x \<noteq> 0) (drop off bs)))
      else Fault OutOfBounds)"
proof (induction cs \<equiv> "drop off bs" arbitrary: off n)
  case Nil
  with b show ?case
    by (simp add: c_strlen.simps [of h "Ptr b off"])
next
  case (Cons x cs)
  from Cons.hyps(2) [symmetric] have off: "off < length bs" and x: "bs ! off = x"
    and cs: "cs = drop (Suc off) bs"
    by (simp_all add: drop_eq_Cons_iff)
  from b off x have ld: "load h (Ptr b off) 1 = Ok [x]"
    by (simp add: take_Suc_conv_app_nth)
  from off Cons.hyps(1) [OF cs, of "Suc n"] Cons.hyps(2) [symmetric] ld show ?case
    by (simp add: c_strlen.simps [of h "Ptr b off"] cs)
qed

lemma c_strlen_block_image:
  assumes "h b = Some (map of_char str @ 0 # rest)"
  shows "c_strlen h (Ptr b 0) 0 = Ok (length (takeWhile (\<lambda>c. of_char c \<noteq> (0 :: byte)) str))"
  using c_strlen_block [of h b "map of_char str @ 0 # rest" 0 0] assms
  by (simp add: takeWhile_append_stop takeWhile_map comp_def)

lemma c_strlen_unterminated:
  assumes "h b = Some (map of_char str)" and "\<forall>c \<in> set str. of_char c \<noteq> (0 :: byte)"
  shows "c_strlen h (Ptr b 0) 0 = Fault OutOfBounds"
  using c_strlen_block [of h b "map of_char str" 0 0] assms
  by auto

lemma c_strlen_terminated:
  assumes al: "sound_allocator al" and str: "container_ok prim_char str"
    and conv: "to_primitive_c_array al prim_char h (Some str) True = Ok (a, h')"
    and nn: "m_block a \<noteq> Null"
  shows "c_strlen h' (m_block a) 0 = Ok (length (takeWhile (\<lambda>c. of_char c \<noteq> (0 :: byte)) str)) \<and>
         unat (m_length a) = length str"
  using al prim_ok_char str conv
proof (cases rule: to_primitive_c_array_Ok_cases)
  case empty
  with nn show ?thesis by (simp add: empty_CArray_def)
next
  case (block b fill)
  with str show ?thesis
    by (simp add: c_strlen_block_image [of _ b str "[]"] block_image_def to_data_char
        unat_container_size [OF prim_ok_char])
qed

lemma c_strlen_not_terminated:
  assumes al: "sound_allocator al" and str: "container_ok prim_char str"
    and conv: "to_primitive_c_array al prim_char h (Some str) False = Ok (a, h')"
    and nn: "m_block a \<noteq> Null" and nz: "\<forall>c \<in> set str. of_char c \<noteq> (0 :: byte)"
  shows "c_strlen h' (m_block a) 0 = Fault OutOfBounds"
  using al prim_ok_char str conv
proof (cases rule: to_primitive_c_array_Ok_cases)
  case empty
  with nn show ?thesis by (simp add: empty_CArray_def)
next
  case (block b fill)
  with nz show ?thesis
    by (simp add: c_strlen_unterminated [of _ b str] block_image_def to_data_char)
qed

section \<open>The loop over the range\<close>

lemma range_for_block:
  assumes E: "prim_ok E" and b: "h b = Some bs"
  shows "off + k * size_of E \<le> length bs \<Longrightarrow>
     range_for E h (Ptr b off) (Ptr b (off + k * size_of E)) acc =
       Some (Ok (acc @ from_data E (take (k * size_of E) (drop off bs))))"
proof (induction k arbitrary: off acc)
  case 0
  then show ?case
    by (simp add: range_for.simps)
next
  case (Suc k)
  let ?sz = "size_of E"
  from prim_okD(1) [OF E] have sz: "0 < ?sz" .
  from Suc.prems have fits: "(off + ?sz) + k * ?sz \<le> length bs"
    by (simp add: algebra_simps)
  with b have ld: "load h (Ptr b off) ?sz = Ok (take ?sz (drop off bs))"
    by simp
  from Suc.prems have "from_data E (take (Suc k * ?sz) (drop off bs))
      = of_bytes E (take ?sz (drop off bs)) # from_data E (take (k * ?sz) (drop (off + ?sz) bs))"
    by (simp add: from_data_def chunks_take_step [OF sz] add.commute)
  with Suc.IH [OF fits, of "acc @ [of_bytes E (take ?sz (drop off bs))]"] sz ld show ?case
    by (simp add: range_for.simps [of E h "Ptr b off"] add.assoc)
qed

lemma range_for_returns:
  assumes E: "prim_ok E"
  shows "\<exists>r. range_for E h p e acc = Some r"
proof (cases "\<exists>b off bs. p = Ptr b off \<and> h b = Some bs")
  case False
  show ?thesis
  proof (cases p)
    case Null
    then show ?thesis
      by (simp add: range_for.simps [of E h Null])
  next
    case (Ptr b off)
    with False show ?thesis
      by (simp add: range_for.simps [of E h "Ptr b off"])
  qed
next
  case True
  then obtain b off bs where p: "p = Ptr b off" and b: "h b = Some bs"
    by blast
  have "\<exists>r. range_for E h (Ptr b off) e acc = Some r"
  proof (induction "length bs - off" arbitrary: off acc rule: less_induct)
    case less
    show ?case
    proof (cases "Ptr b off \<noteq> e \<and> off + size_of E \<le> length bs")
      case True
      with prim_okD(1) [OF E] have "length bs - (off + size_of E) < length bs - off"
        by arith
      from less [OF this] True b show ?thesis
        by (simp add: range_for.simps [of E h "Ptr b off"])
    next
      case False
      with b show ?thesis
        by (auto simp: range_for.simps [of E h "Ptr b off"])
    qed
  qed
  with p show ?thesis
    by simp
qed


section \<open>Properties of the reads\<close>

text \<open>C18 (termination): the scan of a consumer of null-terminated strings ends inside the
  block that \<open>ToCNIString\<close> returned: it stops at the terminator, or at the first zero
  character of the string if there is one, and returns the number of characters before
  it, which is \<open>m_length\<close> for a string without zero characters.  On the block that
  \<open>ToCArray\<close> returns for the same characters, which has no terminator, the scan runs off
  the end of the block.\<close>

theorem c_strlen_of_ToCNIString:
  assumes al: "sound_allocator al" and str: "container_ok prim_char str"
  shows "(ToCNIString al h str = Ok (a, h') \<and> m_block a \<noteq> Null \<longrightarrow>
            c_strlen h' (m_block a) 0 = Ok (length (takeWhile (\<lambda>c. of_char c \<noteq> (0 :: byte)) str)) \<and>
            ((\<forall>c \<in> set str. of_char c \<noteq> (0 :: byte)) \<longrightarrow>
               c_strlen h' (m_block a) 0 = Ok (unat (m_length a)))) \<and>
         (ToCArray al prim_char h str = Ok (a, h') \<and> m_block a \<noteq> Null \<and>
          (\<forall>c \<in> set str. of_char c \<noteq> (0 :: byte)) \<longrightarrow>
            c_strlen h' (m_block a) 0 = Fault OutOfBounds)"
  using c_strlen_terminated [OF assms, of h a h'] c_strlen_not_terminated [OF assms, of h a h']
  by (auto simp: ToCNIString_def ToCArray_def takeWhile_eq_all_conv [THEN iffD2])

theorem c_strlen_of_ToCNIString_witness:
  "c_strlen (empty_heap(0 \<mapsto> [97, 98, 0])) (Ptr 0 0) 0 = Ok 2 \<and>
   c_strlen (empty_heap(0 \<mapsto> [97, 98])) (Ptr 0 0) 0 = Fault OutOfBounds"
  using c_strlen_of_ToCNIString [of "first_fit [0, 1] 170" "''ab''" empty_heap
      "\<lparr>m_block = Ptr 0 0, m_length = 2\<rparr>" "empty_heap(0 \<mapsto> [97, 98, 0])"]
    c_strlen_of_ToCNIString [of "first_fit [0, 1] 170" "''ab''" empty_heap
      "\<lparr>m_block = Ptr 0 0, m_length = 2\<rparr>" "empty_heap(0 \<mapsto> [97, 98])"]
    to_primitive_c_array_succeeds [of "first_fit [0, 1] 170" prim_char "''ab''" True empty_heap 0
      "[170, 170, 170]"]
    to_primitive_c_array_succeeds [of "first_fit [0, 1] 170" prim_char "''ab''" False empty_heap 0
      "[170, 170]"]
  by (simp add: cni_eval ToCNIString_def ToCArray_def)

text \<open>C19 (termination): the loop from \<^verbatim>\<open>begin()\<close> to \<^verbatim>\<open>end()\<close> ends, on every array and in
  every heap, for an element type of non-zero size; on a valid array it ends without a
  fault after \<^verbatim>\<open>size()\<close> steps and has read the elements the array denotes, in order.\<close>

theorem range_for_reads_elements:
  assumes E: "prim_ok E"
  shows "(\<exists>r. range_for E h p e acc = Some r) \<and>
         (carray_ok E h a \<longrightarrow>
            range_for E h (CArray_begin a) (CArray_end E a) [] = Some (Ok (carray_elems E h a)))"
proof (intro conjI impI)
  show "\<exists>r. range_for E h p e acc = Some r"
    using E by (rule range_for_returns)
  assume ok: "carray_ok E h a"
  show "range_for E h (CArray_begin a) (CArray_end E a) [] = Some (Ok (carray_elems E h a))"
  proof (cases "m_length a = 0")
    case True
    then show ?thesis
      by (simp add: range_for.simps CArray_begin_def CArray_end_def CArray_size_def m_data_def
          elem_ptr_add_def carray_elems_def carray_bytes_def)
  next
    case False
    from carray_ok_nonempty [OF E ok False] obtain b off bs where p: "m_block a = Ptr b off"
      and bs: "h b = Some bs" and fits: "off + unat (m_length a) * size_of E \<le> length bs"
      by blast
    from range_for_block [of E h b bs off "unat (m_length a)" "[]"] E p bs fits show ?thesis
      by (simp add: CArray_begin_def CArray_end_def CArray_size_def m_data_def carray_elems_def
          carray_bytes_def contents_def)
  qed
qed


theorem range_for_reads_elements_witness:
  "range_for prim_char (empty_heap(0 \<mapsto> [97, 98, 0]))
     (CArray_begin \<lparr>m_block = Ptr 0 0, m_length = 2\<rparr>)
     (CArray_end prim_char \<lparr>m_block = Ptr 0 0, m_length = 2\<rparr>) [] = Some (Ok ''ab'')"
  using range_for_reads_elements [OF prim_ok_char, of "empty_heap(0 \<mapsto> [97, 98, 0])" Null Null "[]"
      "\<lparr>m_block = Ptr 0 0, m_length = 2\<rparr>"]
  by (simp add: cni_eval char_of_def bit_0)

end
