(* ===== verification/Spec2Isabelle.thy ===== *)
theory Spec2Isabelle
  imports CNI_Lifecycle CNI_ConvertRaw CNI_Consumer
begin

text \<open>
  A verification development for \<^verbatim>\<open>src/cyh/cni.hpp\<close>, the marshalling layer between C++
  containers and flat, manually owned arrays that cross a foreign-function boundary.

  \<^bold>\<open>The program.\<close>  The header has three parts.  \<^verbatim>\<open>class CNIMemoryHelper\<close> wraps the free
  store: \<^verbatim>\<open>Allocate\<close> (null for size 0 and when \<^verbatim>\<open>operator new\<close> throws), \<^verbatim>\<open>Free\<close> (nothing
  on null), \<^verbatim>\<open>Reallocate\<close> (release, then allocate; nothing is copied) and \<^verbatim>\<open>ZeroMemory<T>\<close>.
  \<^verbatim>\<open>struct CArray<T>\<close> is a pointer with an element count, \<^verbatim>\<open>UTF8String\<close> the array of
  \<^verbatim>\<open>char\<close>.  \<^verbatim>\<open>class CNIConvert\<close> converts: the private template \<^verbatim>\<open>to_primitive_c_array\<close>
  allocates a block through \<^verbatim>\<open>Allocate\<close>, copies the container's elements into it with
  \<^verbatim>\<open>memcpy\<close> and, when asked, zeroes one more element with \<^verbatim>\<open>memset\<close>; the private template
  \<^verbatim>\<open>to_std_container\<close> resizes a new container and copies the array's elements into it;
  the public \<^verbatim>\<open>ToCArray\<close>, \<^verbatim>\<open>ToCNIString\<close> and \<^verbatim>\<open>ToCppString\<close> are instances of the two.
  The caller owns every array returned and releases it with \<^verbatim>\<open>Free\<close>.  The code has no
  loop and no recursion: every function is a sequence of tests and library calls.

  \<^bold>\<open>The theories\<close>, in the order of their imports:

  \<^item> \<open>CNI_Prelude\<close>: the machine types (\<^verbatim>\<open>nuint\<close>, \<^verbatim>\<open>nint\<close> of lines 7-8 as 64-bit words,
    whose arithmetic wraps), the type \<open>fault\<close> of the ways a call leaves the normal path
    (two C++ exceptions and five kinds of undefined behaviour), results \<open>fault + 'a\<close> with
    their bind, the collections \<open>cni_defs\<close>, \<open>cni_frame\<close>, \<open>cni_eval\<close>, and the facts on
    lists and words the components share.
  \<^item> \<open>CNI_Heap\<close>: the free store.  A pointer (\<open>ptr\<close>) is \<open>Null\<close> or a block with a byte
    offset, a heap maps live blocks to their bytes.  \<open>operator_new\<close>, \<open>operator_delete\<close>,
    \<open>memset\<close>, \<open>memcpy\<close> are the library calls of lines 19, 25, 41, 78, 83 and 94;
    \<open>memcpy_to\<close> and \<open>memcpy_from\<close> are \<^verbatim>\<open>memcpy\<close> with one side given as a list of bytes.
    What \<^verbatim>\<open>operator new\<close> answers is a parameter, an \<open>allocator\<close>; \<open>sound_allocator\<close>
    asks only that a block returned is not live and has the size asked for.  The lemmas
    give each call on every branch and what it leaves unchanged.
  \<^item> \<open>CNI_MemoryHelper\<close>: \<open>Free\<close>, \<open>Allocate\<close>, \<open>Reallocate\<close>, \<open>ZeroMemory\<close> (lines 17-43),
    each from heap to heap.  The theorems give their results on every input, faults
    included: \<open>Allocate\<close> answers null exactly for size zero and when \<^verbatim>\<open>operator new\<close>
    throws, a block from \<open>Allocate\<close> is new and of the size asked for, \<open>Free\<close> undoes
    \<open>Allocate\<close> and a second \<open>Free\<close> is a fault, \<open>Reallocate\<close> keeps nothing of the old
    block and has released it also when it returns null, \<open>ZeroMemory\<close> zeroes
    \<^verbatim>\<open>sizeof(T) * count\<close> bytes of one block, the product taken in \<^verbatim>\<open>size_t\<close>.
  \<^item> \<open>CNI_Prim\<close>: element types.  The templates use \<open>T\<close> through \<^verbatim>\<open>sizeof(T)\<close> and the bytes
    of its values only; \<open>'a prim\<close> holds both, \<open>prim_ok\<close> is what the theorems need of
    them, \<open>prim_char\<close> and \<open>prim_word\<close> (little-endian integers of up to 128 bits) meet it.
    A container is the list of its elements here, with \<open>container_size\<close>, \<open>to_data\<close>,
    \<open>from_data\<close>, \<open>max_size\<close>.
  \<^item> \<open>CNI_CArray\<close>: the struct (lines 46-60) as the record \<open>CArray\<close>, the union as one
    pointer with the typed view \<open>m_data\<close>, \<open>CArray_begin\<close>, \<open>CArray_end\<close>, \<open>CArray_size\<close>.
    \<open>carray_ok\<close>, \<open>carray_owned\<close>, \<open>carray_terminated\<close> and \<open>carray_elems\<close> say, relative to
    a heap, when an array is usable, owned and terminated and which elements it denotes.
  \<^item> \<open>CNI_Convert\<close>: \<open>to_primitive_c_array\<close> (lines 65-86), \<open>to_std_container\<close> (87-96) and
    the public functions (98-110) on containers as lists.  \<open>to_c_array_spec\<close> is the
    specification of the first; the theorems show that the code meets it, that it never
    runs into undefined behaviour on a container within \<open>max_size\<close>, what it returns when
    the allocation fails, where the terminator is, how many bytes it asks for (with the
    wrap-around of the product excluded by \<open>container_ok\<close>), that converting back returns
    the elements, which exceptions \<open>to_std_container\<close> throws, and what happens on an array
    that lies about its block.
  \<^item> \<open>CNI_Container\<close> and \<open>CNI_ConvertRaw\<close>: the same functions one level down.  A
    container is an object (\<open>std_container\<close>: \<^verbatim>\<open>data()\<close> and \<^verbatim>\<open>size()\<close>) with storage in the
    heap, \<open>container_new\<close> is \<^verbatim>\<open>result{}\<close>, \<open>std_resize_raw\<close> is \<^verbatim>\<open>result.resize(n)\<close>, and
    \<open>to_primitive_c_array_raw\<close>, \<open>to_std_container_raw\<close> and the three public functions
    call \<open>memcpy\<close> between two places of the heap.  \<open>represents E h c xs\<close> ties the object
    \<open>c\<close> to the list \<open>xs\<close>.  The theorems are refinements: on a represented container,
    or a valid array, the functions on the heap return what those on lists return, so
    the source and the destination of a copy are readable, writable and disjoint; and
    the result of either conversion is a copy in storage of its own, which later writes
    to the original, its destruction or its release do not reach.
  \<^item> \<open>CNI_Lifecycle\<close>: the calls in sequence.  A \<open>session\<close> is a heap with the arrays the
    receiving side holds; \<open>step\<close> is one call of \<open>ToCArray\<close>, \<open>ToCNIString\<close>, \<open>ToCppString\<close>
    or \<open>Free\<close> that returns, \<open>run\<close> the sequences of calls from a heap with nothing held.
    \<open>session_inv\<close> (every held array is valid and owns a block of its own, all other
    blocks are those of the initial heap) holds along every run; \<open>ledger\<close> maps a session
    to the values its arrays stand for, and every \<open>step\<close> is a step of the contract
    \<open>ledger_step\<close> on that view; releasing all that is held returns the initial heap, and
    from every session that can be reached such a release can be made.
  \<^item> \<open>CNI_Consumer\<close>: the two loops of the side that receives an array, which are not in
    the header but are what its results are made for.  \<open>c_strlen\<close> is the scan of a
    consumer of null-terminated strings, a \<^theory_text>\<open>function\<close> whose termination is proved by
    the bytes left in the block; \<open>range_for\<close> is the loop from \<^verbatim>\<open>begin()\<close> to \<^verbatim>\<open>end()\<close>,
    a \<^theory_text>\<open>partial_function\<close> in the option monad, because with an element size of zero
    it would not end.  The theorems show that the scan stops at the terminator that
    \<open>ToCNIString\<close> wrote and runs off the block that \<open>ToCArray\<close> returned, and that the
    loop over a valid array returns, after \<^verbatim>\<open>size()\<close> steps, with the array's elements.
  \<^item> this theory: properties that span components.  Conversion and release: one \<open>Free\<close>
    gives the heap back, use after release and double release are faults, arrays are
    independent.  Sessions and the heap: the public functions on containers in the heap
    are the calls of a session, and the containers of the C++ side, which lie in the
    initial heap, are not touched by any call.

  \<^bold>\<open>Conventions.\<close>  Every function of the code is one definition with the name of the code,
  its tests in the order of the code.  State is passed explicitly: a function that
  changes the free store takes the heap and returns the new one.  Undefined behaviour
  is a value (\<open>Fault NullDeref\<close>, \<open>Dangling\<close>, \<open>OutOfBounds\<close>, \<open>InvalidFree\<close>, \<open>Overlap\<close>), so
  that "the code is safe" is the statement \<open>is_ok\<close> or an equation with \<open>Ok\<close>.  A result
  \<open>Fault e\<close> carries no heap: after undefined behaviour there is none to speak of, and the
  two exceptions are thrown by \<^verbatim>\<open>resize\<close> before anything is allocated, so the heap is the
  one the call was made in; accordingly a session has no step for a call that throws.  Each
  property with hypotheses has a witness, the theorem applied to a concrete heap and one of
  the allocators \<open>first_fit\<close> and \<open>never_alloc\<close>, the definitions evaluated by the
  simplifier.

  \<^bold>\<open>Bounds.\<close>  Sizes are 64-bit words as on the platforms the header is built for
  (\<^verbatim>\<open>size_t\<close> of 8 bytes); \<open>max_size E\<close> is \<open>(2 ^ 63 - 1) div size_of E\<close>, the bound of the
  standard allocator, and \<open>container_ok\<close> says that a container is within it.  The bound
  is an assumption on the library and not code of the header: an implementation may set a
  smaller one (that of \<^verbatim>\<open>std::string\<close> leaves room for its terminator), which moves the
  length from which \<^verbatim>\<open>resize\<close> throws \<^verbatim>\<open>std::length_error\<close> and nothing else.  Under
  \<open>container_ok\<close> no product of a size and a count wraps; without it \<open>alloc_bytes\<close> is
  still the wrapped product the code computes.  \<open>heap_ok\<close> bounds a block by \<open>2 ^ 64\<close> bytes.  No definition
  takes fuel.  The functions of the header have no loop, so their models are not
  recursive and every call returns, with a result or with a fault.  The recursive
  definitions are those of the model itself (\<open>chunks\<close>, \<open>nat_to_le\<close>, \<open>le_to_nat\<close>,
  \<open>release_all\<close>, total by the function package) and the two loops of \<open>CNI_Consumer\<close>:
  \<open>c_strlen\<close> with its termination proof, and \<open>range_for\<close>, where \<open>None\<close> stands for a loop
  that does not end and \<open>range_for_returns\<close> shows that under \<open>prim_ok\<close> it is never \<open>None\<close>.

  \<^bold>\<open>Not modelled.\<close>  Addresses as numbers and alignment: pointers are compared with null
  and offset within their block only, as in the code, so nothing depends on where a
  block lies.  The inside of the standard containers: capacity, iterators, custom
  allocators, the buffer of short strings and the terminator \<^verbatim>\<open>std::string\<close> keeps after
  its characters; the code sees \<^verbatim>\<open>data()\<close>, \<^verbatim>\<open>size()\<close> and \<^verbatim>\<open>resize\<close>.  What
  \<^verbatim>\<open>data()\<close> of an empty container is, the standard leaves open: \<open>container_new\<close> takes
  null, the case in which the code can go wrong, and the theorems on represented
  containers hold for any \<^verbatim>\<open>data()\<close> of an empty container.  The concept
  \<^verbatim>\<open>PRIMITIVE\<close> (lines 10-12) and \<^verbatim>\<open>ContainerValueType\<close> (63-64) select instances at
  compile time and have no run-time behaviour; the model takes the element type as the
  parameter \<open>E\<close>, and element types with padding or with several representations of one
  value are outside \<open>prim_ok\<close>.  The layout of \<^verbatim>\<open>CArray<T>\<close> in memory, a pointer followed by
  a count, which foreign code relies on: the record has the fields, not their offsets.
  Threads: the header has no synchronisation and the model is sequential.  The other
  side of the boundary is represented by the calls it may make (\<open>CNI_Lifecycle\<close>) and by
  its reads (\<open>CNI_Consumer\<close>), not by code.

  \<^bold>\<open>What the proofs show of the code against its description.\<close>  The code does what
  its description says on the main paths: round trip, terminator, independence, no
  fault on well-formed input.  It differs, or the description is silent, in these
  points, each stated by a theorem of the theory named:
  \<^item> \<open>to_std_container\<close> lets \<^verbatim>\<open>std::length_error\<close> and \<^verbatim>\<open>std::bad_alloc\<close> escape, where
    the description says that nothing is thrown (\<open>CNI_Convert\<close>);
  \<^item> \<open>ToCNIString\<close> of the empty string returns a block with one zero and not the empty
    array (\<open>CNI_Convert\<close>);
  \<^item> when the allocation fails the round trip returns the empty container, with no sign
    that elements were lost (\<open>CNI_Convert\<close>);
  \<^item> \<open>ZeroMemory\<close> zeroes the product of size and count modulo \<open>2 ^ 64\<close> bytes
    (\<open>CNI_MemoryHelper\<close>);
  \<^item> the private template gives \<^verbatim>\<open>memcpy\<close> a null source for an empty container with a null
    \<^verbatim>\<open>data()\<close> and a terminator; no public function reaches this (\<open>CNI_ConvertRaw\<close>);
  \<^item> a string with a zero character is copied whole, and a consumer of null-terminated
    strings sees it cut at that character (\<open>CNI_Consumer\<close>).
\<close>

section \<open>The life of an array\<close>

text \<open>C27 (functional): an array returned by a conversion is released by one call of \<open>Free\<close> on
  its block, and that call gives back the heap from before the conversion: the conversion
  allocates nothing but the block it hands over, and an empty result needs no release.\<close>

theorem array_released_by_one_free:
  assumes al: "sound_allocator al" and E: "prim_ok E" and xs: "container_ok E xs"
    and conv: "to_primitive_c_array al E h (Some xs) t = Ok (a, h')"
  shows "Free h' (m_block a) = Ok h"
  using al E xs conv
proof (cases rule: to_primitive_c_array_Ok_cases)
  case empty
  then show ?thesis by simp
next
  case (block b fill)
  from sound_allocatorD [OF al block(2)] have "h b = None" ..
  with block show ?thesis
    by (simp add: fun_upd_idem)
qed

theorem array_released_by_one_free_witness:
  "Free (empty_heap(0 \<mapsto> [1], 1 \<mapsto> [97, 98, 0])) (Ptr 1 0) = Ok (empty_heap(0 \<mapsto> [1]))"
  using array_released_by_one_free [of "first_fit [0, 1] 170" prim_char "''ab''" "empty_heap(0 \<mapsto> [1])"
      True "\<lparr>m_block = Ptr 1 0, m_length = 2\<rparr>" "empty_heap(0 \<mapsto> [1], 1 \<mapsto> [97, 98, 0])"]
    to_primitive_c_array_succeeds [of "first_fit [0, 1] 170" prim_char "''ab''" True
      "empty_heap(0 \<mapsto> [1])" 1 "[170, 170, 170]"]
  by (simp add: cni_eval)

text \<open>C30 (error): after its block has been released an array is dangling: converting it back
  reads freed memory and releasing it again is a double free, both undefined in C++ and
  faults in the model.  Nothing in \<open>CArray\<close> records that the block is gone.\<close>

theorem array_used_after_free:
  assumes E: "prim_ok E" and nn: "m_block a \<noteq> Null" and nz: "m_length a \<noteq> 0"
    and n: "unat (m_length a) \<le> max_size E"
    and mem: "al h' (of_nat (unat (m_length a) * size_of E)) \<noteq> None"
    and free: "Free h (m_block a) = Ok h'"
  shows "to_std_container al E h' (Some a) = Fault Dangling \<and> Free h' (m_block a) = Fault InvalidFree"
proof -
  from nn free obtain b where p: "m_block a = Ptr b 0" and gone: "h' b = None"
    by (auto simp: Free_Ok_iff)
  have r: "std_resize al E h' (m_length a) = Ok (replicate (unat (m_length a)) (zero_value E))"
    using n mem by (simp add: std_resize_Ok)
  have "memcpy_from h' (to_data E (replicate (unat (m_length a)) (zero_value E))) (Ptr b 0)
          (m_length a * sizeof E) = Fault Dangling"
    using gone by (simp add: memcpy_from_def unat_carray_bytes [OF E n] length_to_data [OF E])
  with p nz gone r Free_twice [OF nn free] show ?thesis
    by (simp add: to_std_container_def)
qed

theorem array_used_after_free_witness:
  "Free (empty_heap(0 \<mapsto> [97, 98, 0])) (Ptr 0 0) = Ok empty_heap \<and>
   to_std_container (first_fit [1] 170) prim_char empty_heap (Some \<lparr>m_block = Ptr 0 0, m_length = 2\<rparr>)
     = Fault Dangling \<and>
   Free empty_heap (Ptr 0 0) = Fault InvalidFree"
  using array_used_after_free [of prim_char "\<lparr>m_block = Ptr 0 0, m_length = 2\<rparr>" "first_fit [1] 170"
      empty_heap "empty_heap(0 \<mapsto> [97, 98, 0])"]
  by (simp add: cni_eval empty_heap_def)

text \<open>C26 (safety): arrays are independent of each other: a later conversion, and the release
  of the array it returned, leave an earlier array's block and elements as they were, and
  the two arrays never share a block.\<close>

theorem arrays_independent:
  assumes al: "sound_allocator al" and E: "prim_ok E"
    and xs: "container_ok E xs" and ys: "container_ok E ys"
    and c1: "to_primitive_c_array al E h (Some xs) t = Ok (a, h1)" and nn: "m_block a \<noteq> Null"
    and c2: "to_primitive_c_array al E h1 (Some ys) u = Ok (a', h2)"
    and fr: "Free h2 (m_block a') = Ok h3"
  shows "carray_elems E h2 a = xs \<and> m_block a' \<noteq> m_block a \<and> carray_elems E h3 a = xs"
  using al E xs c1
proof (cases rule: to_primitive_c_array_Ok_cases)
  case empty
  with nn show ?thesis by simp
next
  case (block b fill)
  then have p: "m_block a = Ptr b 0" and b: "h1 b = Some (block_image E xs t)"
    and el: "carray_elems E h1 a = xs"
    by (simp_all add: carray_elems_block_image [OF E xs])
  from al E ys c2 have "h2 b = h1 b \<and> m_block a' \<noteq> Ptr b 0"
  proof (cases rule: to_primitive_c_array_Ok_cases)
    case empty
    then show ?thesis by simp
  next
    case (block b' fill')
    with sound_allocatorD [OF al block(2)] b show ?thesis by auto
  qed
  moreover from this fr have "h3 b = h2 b"
    by (auto simp: Free_Ok_iff)
  ultimately show ?thesis
    using p el by (simp add: carray_elems_cong [of a b 0 h2 h1] carray_elems_cong [of a b 0 h3 h1])
qed

theorem arrays_independent_witness:
  "carray_elems prim_char (empty_heap(0 \<mapsto> [97, 98, 0], 1 \<mapsto> [99])) \<lparr>m_block = Ptr 0 0, m_length = 2\<rparr> = ''ab'' \<and>
   carray_elems prim_char (empty_heap(0 \<mapsto> [97, 98, 0])) \<lparr>m_block = Ptr 0 0, m_length = 2\<rparr> = ''ab''"
  using arrays_independent [of "first_fit [0, 1] 170" prim_char "''ab''" "''c''" empty_heap True
      "\<lparr>m_block = Ptr 0 0, m_length = 2\<rparr>" "empty_heap(0 \<mapsto> [97, 98, 0])" False
      "\<lparr>m_block = Ptr 1 0, m_length = 1\<rparr>" "empty_heap(0 \<mapsto> [97, 98, 0], 1 \<mapsto> [99])"
      "empty_heap(0 \<mapsto> [97, 98, 0])"]
    to_primitive_c_array_succeeds [of "first_fit [0, 1] 170" prim_char "''ab''" True empty_heap 0
      "[170, 170, 170]"]
    to_primitive_c_array_succeeds [of "first_fit [0, 1] 170" prim_char "''c''" False
      "empty_heap(0 \<mapsto> [97, 98, 0])" 1 "[170]"]
  by (simp add: cni_eval empty_heap_def)

section \<open>Calls on containers in the heap\<close>

text \<open>
  The calls of a session, made on containers that have their storage in the heap.  The
  containers of the C++ side are in the initial heap of the session, which every call
  leaves as it is, so they hold their elements whatever has been exported and released
  since; the string \<^verbatim>\<open>ToCppString\<close> returns is a new object, and the heap of the session
  is the one after that object has been destroyed.
\<close>

lemma export_vector_on_heap:
  assumes al: "sound_allocator al" and E: "prim_ok E" and h0: "heap_ok h0"
    and run: "run al E h0 evs s" and rep: "represents E h0 v xs"
    and conv: "ToCArray_raw al E (heap_of s) v = Ok (a, h')"
  shows "step al E s (ExportVector xs) \<lparr>heap_of = h', held = held s @ [HeldVector a]\<rparr>"
    and "represents E h' v xs"
proof -
  from run_inv [OF al E h0 run] have le: "h0 \<subseteq>\<^sub>m heap_of s"
    by (rule session_inv_initial_heap)
  from rep have xs: "container_ok E xs"
    by (simp add: represents_def)
  from E rep le have rep': "represents E (heap_of s) v xs"
    by (rule represents_mono)
  with al E conv have list: "ToCArray al E (heap_of s) xs = Ok (a, h')"
    by (simp add: ToCArray_raw_def ToCArray_def to_primitive_c_array_raw_eq)
  with xs show "step al E s (ExportVector xs) \<lparr>heap_of = h', held = held s @ [HeldVector a]\<rparr>"
    by (rule step.export_vector)
  from al E xs list [unfolded ToCArray_def] have "heap_of s \<subseteq>\<^sub>m h'"
    by (rule to_primitive_c_array_extends)
  with E rep' show "represents E h' v xs"
    by (rule represents_mono)
qed

lemma export_string_on_heap:
  assumes al: "sound_allocator al" and E: "prim_ok E" and h0: "heap_ok h0"
    and run: "run al E h0 evs s" and rep: "represents prim_char h0 c str"
    and ptr: "valid_ptr h0 (c_data c)"
    and conv: "ToCNIString_raw al (heap_of s) c = Ok (a, h')"
  shows "step al E s (ExportString str) \<lparr>heap_of = h', held = held s @ [HeldString a]\<rparr>"
    and "represents prim_char h' c str"
proof -
  from run_inv [OF al E h0 run] have le: "h0 \<subseteq>\<^sub>m heap_of s"
    by (rule session_inv_initial_heap)
  from rep have xs: "container_ok prim_char str"
    by (simp add: represents_def)
  from prim_ok_char rep le have rep': "represents prim_char (heap_of s) c str"
    by (rule represents_mono)
  from ptr le have "valid_ptr (heap_of s) (c_data c)"
    by (rule valid_ptr_mono)
  with al rep' conv have list: "ToCNIString al (heap_of s) str = Ok (a, h')"
    by (simp add: ToCNIString_raw_def ToCNIString_def to_primitive_c_array_raw_eq prim_ok_char)
  with xs show "step al E s (ExportString str) \<lparr>heap_of = h', held = held s @ [HeldString a]\<rparr>"
    by (rule step.export_string)
  from al prim_ok_char xs list [unfolded ToCNIString_def] have "heap_of s \<subseteq>\<^sub>m h'"
    by (rule to_primitive_c_array_extends)
  with prim_ok_char rep' show "represents prim_char h' c str"
    by (rule represents_mono)
qed

lemma import_string_on_heap:
  assumes al: "sound_allocator al" and E: "prim_ok E" and h0: "heap_ok h0"
    and run: "run al E h0 evs s" and i: "i < length (held s)" and u: "held s ! i = HeldString u"
    and conv: "ToCppString_raw al (heap_of s) u = Ok (c, h')"
  shows "step al E s (ImportString i (container_elems prim_char h' c)) s"
    and "container_destroy h' c = Ok (heap_of s)"
proof -
  from run_inv [OF al E h0 run] i u have ok: "carray_ok prim_char (heap_of s) u"
    by (auto simp: session_inv_def list_all_length held_ok_def dest!: spec [of _ i])
  from to_std_container_raw_refines [OF al prim_ok_char ok] conv
  have "ToCppString al (heap_of s) u = Ok (container_elems prim_char h' c)"
    by (simp add: ToCppString_raw_def ToCppString_def)
  with i u show "step al E s (ImportString i (container_elems prim_char h' c)) s"
    by (rule step.import_string)
  from conv show "container_destroy h' c = Ok (heap_of s)"
    using sound_allocatorD [OF al]
    by (auto simp: ToCppString_raw_def to_std_container_raw_valid [OF al prim_ok_char ok]
        container_destroy_def fun_upd_idem split: if_splits option.splits)
qed


lemma demo_heap_ok: "heap_ok (empty_heap(5 \<mapsto> [104, 105, 0]))"
  by (simp add: heap_ok_def empty_heap_def)

lemma demo_heap_run:
  "run (first_fit [0, 1] 170) prim_char (empty_heap(5 \<mapsto> [104, 105, 0])) [ExportString ''ab'']
     \<lparr>heap_of = empty_heap(5 \<mapsto> [104, 105, 0], 0 \<mapsto> [97, 98, 0]),
      held = [HeldString \<lparr>m_block = Ptr 0 0, m_length = 2\<rparr>]\<rparr>"
  using run.after [OF run.start step.export_string [of "''ab''" "first_fit [0, 1] 170"
        "init_session (empty_heap(5 \<mapsto> [104, 105, 0]))" "\<lparr>m_block = Ptr 0 0, m_length = 2\<rparr>"
        "empty_heap(5 \<mapsto> [104, 105, 0], 0 \<mapsto> [97, 98, 0])"], of prim_char]
    to_primitive_c_array_succeeds [of "first_fit [0, 1] 170" prim_char "''ab''" True
      "empty_heap(5 \<mapsto> [104, 105, 0])" 0 "[170, 170, 170]"]
  by (simp add: cni_eval ToCNIString_def)

lemma demo_calls_on_heap:
  "ToCArray_raw (first_fit [0, 1] 170) prim_char (empty_heap(5 \<mapsto> [104, 105, 0], 0 \<mapsto> [97, 98, 0]))
     \<lparr>c_data = Ptr 5 0, c_size = 2\<rparr>
   = Ok (\<lparr>m_block = Ptr 1 0, m_length = 2\<rparr>,
         empty_heap(5 \<mapsto> [104, 105, 0], 0 \<mapsto> [97, 98, 0], 1 \<mapsto> [104, 105]))"
  "ToCNIString_raw (first_fit [0, 1] 170) (empty_heap(5 \<mapsto> [104, 105, 0], 0 \<mapsto> [97, 98, 0]))
     \<lparr>c_data = Ptr 5 0, c_size = 2\<rparr>
   = Ok (\<lparr>m_block = Ptr 1 0, m_length = 2\<rparr>,
         empty_heap(5 \<mapsto> [104, 105, 0], 0 \<mapsto> [97, 98, 0], 1 \<mapsto> [104, 105, 0]))"
  "ToCppString_raw (first_fit [0, 1] 170) (empty_heap(5 \<mapsto> [104, 105, 0], 0 \<mapsto> [97, 98, 0]))
     \<lparr>m_block = Ptr 0 0, m_length = 2\<rparr>
   = Ok (\<lparr>c_data = Ptr 1 0, c_size = 2\<rparr>,
         empty_heap(5 \<mapsto> [104, 105, 0], 0 \<mapsto> [97, 98, 0], 1 \<mapsto> [97, 98]))"
  by (simp_all add: cni_defs cni_eval Let_def overwrite_def std_resize_raw_def)


text \<open>C22 (refinement): in every session a sequence of calls leads to, the three public
  functions on containers in the heap are calls of the session.  \<open>ToCArray\<close> and
  \<open>ToCNIString\<close> on a container that held its elements in the initial heap are the
  exports of those elements, and the container holds them afterwards; \<open>ToCppString\<close> on a
  held string is the read of that string, and destroying the string it returned gives
  back the heap of the session.\<close>

theorem session_calls_on_heap:
  assumes al: "sound_allocator al" and E: "prim_ok E" and h0: "heap_ok h0"
    and run: "run al E h0 evs s"
  shows "(represents E h0 v xs \<and> ToCArray_raw al E (heap_of s) v = Ok (a1, h1) \<longrightarrow>
            step al E s (ExportVector xs) \<lparr>heap_of = h1, held = held s @ [HeldVector a1]\<rparr> \<and>
            represents E h1 v xs) \<and>
         (represents prim_char h0 c str \<and> valid_ptr h0 (c_data c) \<and>
          ToCNIString_raw al (heap_of s) c = Ok (a2, h2) \<longrightarrow>
            step al E s (ExportString str) \<lparr>heap_of = h2, held = held s @ [HeldString a2]\<rparr> \<and>
            represents prim_char h2 c str) \<and>
         (i < length (held s) \<and> held s ! i = HeldString u \<and>
          ToCppString_raw al (heap_of s) u = Ok (r, h3) \<longrightarrow>
            step al E s (ImportString i (container_elems prim_char h3 r)) s \<and>
            container_destroy h3 r = Ok (heap_of s))"
  using export_vector_on_heap [OF assms, of v xs a1 h1]
    export_string_on_heap [OF assms, of c str a2 h2]
    import_string_on_heap [OF assms, of i u r h3]
  by blast

theorem session_calls_on_heap_witness:
  "step (first_fit [0, 1] 170) prim_char
     \<lparr>heap_of = empty_heap(5 \<mapsto> [104, 105, 0], 0 \<mapsto> [97, 98, 0]),
      held = [HeldString \<lparr>m_block = Ptr 0 0, m_length = 2\<rparr>]\<rparr>
     (ExportVector ''hi'')
     \<lparr>heap_of = empty_heap(5 \<mapsto> [104, 105, 0], 0 \<mapsto> [97, 98, 0], 1 \<mapsto> [104, 105]),
      held = [HeldString \<lparr>m_block = Ptr 0 0, m_length = 2\<rparr>,
              HeldVector \<lparr>m_block = Ptr 1 0, m_length = 2\<rparr>]\<rparr> \<and>
   represents prim_char (empty_heap(5 \<mapsto> [104, 105, 0], 0 \<mapsto> [97, 98, 0], 1 \<mapsto> [104, 105, 0]))
     \<lparr>c_data = Ptr 5 0, c_size = 2\<rparr> ''hi'' \<and>
   step (first_fit [0, 1] 170) prim_char
     \<lparr>heap_of = empty_heap(5 \<mapsto> [104, 105, 0], 0 \<mapsto> [97, 98, 0]),
      held = [HeldString \<lparr>m_block = Ptr 0 0, m_length = 2\<rparr>]\<rparr>
     (ImportString 0 ''ab'')
     \<lparr>heap_of = empty_heap(5 \<mapsto> [104, 105, 0], 0 \<mapsto> [97, 98, 0]),
      held = [HeldString \<lparr>m_block = Ptr 0 0, m_length = 2\<rparr>]\<rparr> \<and>
   container_destroy (empty_heap(5 \<mapsto> [104, 105, 0], 0 \<mapsto> [97, 98, 0], 1 \<mapsto> [97, 98]))
     \<lparr>c_data = Ptr 1 0, c_size = 2\<rparr>
     = Ok (empty_heap(5 \<mapsto> [104, 105, 0], 0 \<mapsto> [97, 98, 0]))"
  using session_calls_on_heap [OF sound_first_fit prim_ok_char demo_heap_ok demo_heap_run,
      of "\<lparr>c_data = Ptr 5 0, c_size = 2\<rparr>" "''hi''" "\<lparr>m_block = Ptr 1 0, m_length = 2\<rparr>"
      "empty_heap(5 \<mapsto> [104, 105, 0], 0 \<mapsto> [97, 98, 0], 1 \<mapsto> [104, 105])"
      "\<lparr>c_data = Ptr 5 0, c_size = 2\<rparr>" "''hi''" "\<lparr>m_block = Ptr 1 0, m_length = 2\<rparr>"
      "empty_heap(5 \<mapsto> [104, 105, 0], 0 \<mapsto> [97, 98, 0], 1 \<mapsto> [104, 105, 0])"
      0 "\<lparr>m_block = Ptr 0 0, m_length = 2\<rparr>" "\<lparr>c_data = Ptr 1 0, c_size = 2\<rparr>"
      "empty_heap(5 \<mapsto> [104, 105, 0], 0 \<mapsto> [97, 98, 0], 1 \<mapsto> [97, 98])"]
    demo_calls_on_heap
  by (simp add: cni_eval char_of_def bit_0)

end
